theory Spec2Isabelle
  imports Complex_Main
begin

section \<open>Data model (src/utils/geometry.ts, interfaces Point and Circle)\<close>

text \<open>
  A TypeScript \<open>number\<close> is an IEEE binary64 value. The source is read twice.

  The exact reading takes \<open>number\<close> for \<open>real\<close>: nothing is rounded and nothing
  overflows, and the two places where the source produces a non-finite number from finite
  input (the bounds of an empty polygon, a division by a zero pitch) are written out as
  cases. Its constants carry the names of the source. It holds the geometry of the
  algorithm: what is true of the lattice, of the ray casting and of the shoelace sum as
  formulas over the real numbers.

  The binary64 reading takes \<open>number\<close> for the type \<open>f64\<close> of the doubles (the finite
  ones, the two infinities and \<open>NaN\<close>), with every operation rounded to the nearest double,
  ties to the even significand, with gradual underflow and with overflow to infinity.
  Its constants carry the suffix \<open>_f64\<close>. It decides what a call of the code computes and
  whether it returns: the loops over \<open>row\<close> and \<open>col\<close> count with a double. In this
  reading zero carries no sign (\<open>-0\<close> and \<open>+0\<close> are one value), and \<open>Math.sqrt\<close>,
  \<open>Math.cos\<close>, \<open>Math.sin\<close> and the power \<open>** 2\<close>, whose precision the language leaves to
  the engine, are taken as correctly rounded; of the cosine and the sine only the values at
  0 enter the evaluations below, and the language fixes them (1 and 0).

  The fields \<open>x\<close>, \<open>y\<close> of a Point are \<open>p_x\<close>, \<open>p_y\<close>; the fields \<open>x\<close>, \<open>y\<close>,
  \<open>r\<close>, \<open>id\<close> of a Circle are \<open>c_x\<close>, \<open>c_y\<close>, \<open>c_r\<close>, \<open>c_id\<close> (with the suffix \<open>64\<close> in
  the binary64 reading).
\<close>

record 'a point =
  p_x :: 'a
  p_y :: 'a

record circle =
  c_x :: real
  c_y :: real
  c_r :: real
  c_id :: string

text \<open>A number that may be \<open>Infinity\<close> or \<open>-Infinity\<close> (the initial values of the
  running minima and maxima).\<close>

datatype xnum = NegInfinity | Num real | Infinity

fun xle :: "xnum \<Rightarrow> xnum \<Rightarrow> bool" where
  "xle NegInfinity _ = True"
| "xle (Num a) NegInfinity = False"
| "xle (Num a) (Num b) = (a \<le> b)"
| "xle (Num a) Infinity = True"
| "xle Infinity Infinity = True"
| "xle Infinity _ = False"

text \<open>\<open>Math.min\<close> and \<open>Math.max\<close>.\<close>

definition xmin :: "xnum \<Rightarrow> xnum \<Rightarrow> xnum" where
  "xmin a b = (if xle a b then a else b)"

definition xmax :: "xnum \<Rightarrow> xnum \<Rightarrow> xnum" where
  "xmax a b = (if xle a b then b else a)"

record bbox =
  minX :: xnum
  minY :: xnum
  maxX :: xnum
  maxY :: xnum

section \<open>Polygon primitives, exact reading\<close>

text \<open>The crossing test of one edge in \<open>isPointInPolygon\<close>; \<open>&&\<close> evaluates the
  division only when the two ordinates differ.\<close>

definition intersect :: "real point \<Rightarrow> real point \<Rightarrow> real point \<Rightarrow> bool" where
  "intersect pt vi vj =
     (((p_y vi > p_y pt) \<noteq> (p_y vj > p_y pt))
      \<and> p_x pt < (p_x vj - p_x vi) * (p_y pt - p_y vi) / (p_y vj - p_y vi) + p_x vi)"

text \<open>The loop \<open>for (i = 0, j = n - 1; i < n; j = i++)\<close>: the state is \<open>(j, inside)\<close>.
  For an empty polygon the loop body never runs and \<open>j\<close> is never read.\<close>

definition ray_step :: "real point \<Rightarrow> real point list \<Rightarrow> nat \<Rightarrow> nat \<times> bool \<Rightarrow> nat \<times> bool" where
  "ray_step pt polygon i s =
     (case s of (j, inside) \<Rightarrow>
        (i, if intersect pt (polygon ! i) (polygon ! j) then \<not> inside else inside))"

definition isPointInPolygon :: "real point \<Rightarrow> real point list \<Rightarrow> bool" where
  "isPointInPolygon pt polygon =
     snd (fold (ray_step pt polygon) [0..<length polygon] (length polygon - 1, False))"

definition dist2 :: "real point \<Rightarrow> real point \<Rightarrow> real" where
  "dist2 v w = (p_x v - p_x w)\<^sup>2 + (p_y v - p_y w)\<^sup>2"

definition distanceToSegment :: "real point \<Rightarrow> real point \<Rightarrow> real point \<Rightarrow> real" where
  "distanceToSegment p v w =
     (let l2 = dist2 v w in
      if l2 = 0 then sqrt (dist2 p v)
      else
        let t = ((p_x p - p_x v) * (p_x w - p_x v) + (p_y p - p_y v) * (p_y w - p_y v)) / l2;
            t = max 0 (min 1 t);
            projection = \<lparr>p_x = p_x v + t * (p_x w - p_x v), p_y = p_y v + t * (p_y w - p_y v)\<rparr>
        in sqrt (dist2 p projection))"

definition distanceToPolygonEdge :: "real point \<Rightarrow> real point list \<Rightarrow> xnum" where
  "distanceToPolygonEdge pt polygon =
     fold (\<lambda>i minDistance.
             let p1 = polygon ! i;
                 p2 = polygon ! ((i + 1) mod length polygon)
             in xmin minDistance (Num (distanceToSegment pt p1 p2)))
          [0..<length polygon] Infinity"

text \<open>The shoelace area (\<open>Math.abs\<close> of half the accumulated sum).\<close>

definition calculatePolygonArea :: "real point list \<Rightarrow> real" where
  "calculatePolygonArea polygon =
     (let area =
        fold (\<lambda>i area.
                let j = (i + 1) mod length polygon;
                    area = area + p_x (polygon ! i) * p_y (polygon ! j)
                in area - p_x (polygon ! j) * p_y (polygon ! i))
             [0..<length polygon] 0
      in \<bar>area / 2\<bar>)"

definition getBoundingBox :: "real point list \<Rightarrow> bbox" where
  "getBoundingBox polygon =
     fold (\<lambda>p b. \<lparr>minX = xmin (minX b) (Num (p_x p)),
                  minY = xmin (minY b) (Num (p_y p)),
                  maxX = xmax (maxX b) (Num (p_x p)),
                  maxY = xmax (maxY b) (Num (p_y p))\<rparr>)
          polygon
          \<lparr>minX = Infinity, minY = Infinity, maxX = NegInfinity, maxY = NegInfinity\<rparr>"

section \<open>The packing optimizer, exact reading\<close>

text \<open>The \<open>%\<close> of JavaScript truncates: the remainder has the sign of the dividend.\<close>

definition js_rem :: "int \<Rightarrow> int \<Rightarrow> int" where
  "js_rem a b = sgn a * (\<bar>a\<bar> mod \<bar>b\<bar>)"

text \<open>Decimal rendering of the integers that enter a circle's identifier.\<close>

fun show_nat :: "nat \<Rightarrow> string" where
  "show_nat n =
     (if n < 10 then [char_of (48 + n)]
      else show_nat (n div 10) @ [char_of (48 + n mod 10)])"

declare show_nat.simps [simp del]

definition show_int :: "int \<Rightarrow> string" where
  "show_int i = (if i < 0 then CHR ''-'' # show_nat (nat (- i)) else show_nat (nat i))"

definition circle_id :: "int \<Rightarrow> int \<Rightarrow> int \<Rightarrow> string" where
  "circle_id angle row col = show_int angle @ ''-'' @ show_int row @ ''-'' @ show_int col"

text \<open>The un-rotated lattice position of a cell.\<close>

definition hexX :: "real \<Rightarrow> real \<Rightarrow> int \<Rightarrow> int \<Rightarrow> real" where
  "hexX d offX row col = real_of_int col * d + real_of_int (js_rem row 2) * (d / 2) + offX"

definition hexY :: "real \<Rightarrow> real \<Rightarrow> int \<Rightarrow> real" where
  "hexY rowHeight offY row = real_of_int row * rowHeight + offY"

text \<open>The candidate point of a cell: the lattice position rotated about the centre of
  the bounding box.\<close>

definition candidatePoint ::
  "real \<Rightarrow> real \<Rightarrow> real \<Rightarrow> real \<Rightarrow> int \<Rightarrow> real \<Rightarrow> real \<Rightarrow> int \<Rightarrow> int \<Rightarrow> real point" where
  "candidatePoint d rowHeight centerX centerY angle offX offY row col =
     (let rad = real_of_int angle * (pi / 180);
          hx = hexX d offX row col;
          hy = hexY rowHeight offY row;
          rotatedX = (hx * cos rad - hy * sin rad) + centerX;
          rotatedY = (hx * sin rad + hy * cos rad) + centerY
      in \<lparr>p_x = rotatedX, p_y = rotatedY\<rparr>)"

text \<open>The coarse check against the bounding box grown by the radius.\<close>

definition outsideBounds :: "real \<Rightarrow> real \<Rightarrow> real \<Rightarrow> real \<Rightarrow> real \<Rightarrow> real point \<Rightarrow> bool" where
  "outsideBounds bminX bminY bmaxX bmaxY r p =
     (p_x p < bminX - r \<or> p_x p > bmaxX + r \<or> p_y p < bminY - r \<or> p_y p > bmaxY + r)"

text \<open>The strict check: inside the polygon and not clipping an edge.\<close>

definition strictCheck :: "real point list \<Rightarrow> real \<Rightarrow> real point \<Rightarrow> bool" where
  "strictCheck polygon r p =
     (if isPointInPolygon p polygon then xle (Num r) (distanceToPolygonEdge p polygon)
      else False)"

text \<open>The body of the two inner loops for one cell: \<open>None\<close> when the cell is skipped,
  otherwise the circle pushed onto \<open>candidates\<close>. The first argument is the coarse
  check in use.\<close>

definition cellCircle ::
  "(real point \<Rightarrow> bool) \<Rightarrow> real point list \<Rightarrow> real \<Rightarrow> int \<Rightarrow> int \<Rightarrow> int \<Rightarrow> real point \<Rightarrow> circle option" where
  "cellCircle coarse polygon radius angle row col p =
     (if coarse p then None
      else if strictCheck polygon radius p
        then Some \<lparr>c_x = p_x p, c_y = p_y p, c_r = radius, c_id = circle_id angle row col\<rparr>
        else None)"

text \<open>The loops over \<open>row\<close> and \<open>col\<close> for one angle and one pair of offsets.\<close>

definition candidates ::
  "(real point \<Rightarrow> bool) \<Rightarrow> real point list \<Rightarrow> real \<Rightarrow> real \<Rightarrow> real \<Rightarrow> real \<Rightarrow> real \<Rightarrow> int
     \<Rightarrow> int \<times> real \<times> real \<Rightarrow> circle list" where
  "candidates coarse polygon radius d rowHeight centerX centerY steps cfg =
     (case cfg of (angle, offX, offY) \<Rightarrow>
        concat (map (\<lambda>row.
          List.map_filter (\<lambda>col.
              cellCircle coarse polygon radius angle row col
                (candidatePoint d rowHeight centerX centerY angle offX offY row col))
            [- steps..steps])
          [- steps..steps]))"

text \<open>The loops over \<open>angles\<close>, \<open>[0, d/2]\<close> and \<open>[0, rowHeight/2]\<close>, in that order.\<close>

definition configs :: "real \<Rightarrow> real \<Rightarrow> (int \<times> real \<times> real) list" where
  "configs d rowHeight =
     concat (map (\<lambda>angle.
       concat (map (\<lambda>offX.
         map (\<lambda>offY. (angle, offX, offY)) [0, rowHeight / 2])
         [0, d / 2]))
       [0, 15, 30, 45, 60])"

text \<open>The update of \<open>(maxCount, bestResult)\<close> after one candidate list.\<close>

definition keepBest :: "'a list \<Rightarrow> nat \<times> 'a list \<Rightarrow> nat \<times> 'a list" where
  "keepBest cands s =
     (case s of (maxCount, bestResult) \<Rightarrow>
        if length cands > maxCount then (length cands, cands) else (maxCount, bestResult))"

text \<open>
  The search, with the coarse check as a parameter (a function of the finite bounds and
  the radius). \<open>spacing\<close> is always passed: its default value 2 belongs to the callers
  that omit it. The locals \<open>bestCircles\<close>, \<open>u\<close>, \<open>v\<close> and \<open>offsets\<close> of the source are
  never read and are left out. The result is \<open>None\<close> when the call does not return:
  \<^item> an empty polygon has the bounds \<open>Infinity\<close> and \<open>-Infinity\<close>, so \<open>diagonal\<close> is
    \<open>Infinity\<close> and \<open>steps\<close> is \<open>Infinity\<close> for \<open>d \<ge> 0\<close> (the loop over \<open>row\<close> starts
    at \<open>-Infinity\<close> and never advances) and \<open>-Infinity\<close> for \<open>d < 0\<close> (no iteration);
  \<^item> with \<open>d = 0\<close> and finite bounds, \<open>diagonal / d\<close> is \<open>Infinity\<close> when
    \<open>diagonal > 0\<close> (no return) and \<open>NaN\<close> when \<open>diagonal = 0\<close> (every comparison
    with \<open>NaN\<close> is false: no iteration).
  Otherwise \<open>steps\<close> is an integer and the loops run over \<open>-steps, ..., steps\<close>, which
  is empty when \<open>steps\<close> is negative.
\<close>

definition search ::
  "(real \<Rightarrow> real \<Rightarrow> real \<Rightarrow> real \<Rightarrow> real \<Rightarrow> real point \<Rightarrow> bool)
     \<Rightarrow> real point list \<Rightarrow> real \<Rightarrow> real \<Rightarrow> circle list option" where
  "search coarse polygon radius spacing =
     (let bounds = getBoundingBox polygon;
          r = radius;
          d = (r * 2) + spacing;
          rowHeight = d * sqrt 3 / 2
      in case (minX bounds, minY bounds, maxX bounds, maxY bounds) of
           (Num bminX, Num bminY, Num bmaxX, Num bmaxY) \<Rightarrow>
             (let width = bmaxX - bminX;
                  height = bmaxY - bminY;
                  diagonal = sqrt (width * width + height * height);
                  centerX = (bminX + bmaxX) / 2;
                  centerY = (bminY + bmaxY) / 2
              in if d = 0 then (if diagonal = 0 then Some [] else None)
                 else
                   let steps = \<lceil>diagonal / d\<rceil> + 2
                   in Some (snd (fold
                        (\<lambda>cfg. keepBest
                           (candidates (coarse bminX bminY bmaxX bmaxY r) polygon radius
                              d rowHeight centerX centerY steps cfg))
                        (configs d rowHeight) (0, []))))
         | _ \<Rightarrow> (if d < 0 then Some [] else None))"

definition optimizeCircles :: "real point list \<Rightarrow> real \<Rightarrow> real \<Rightarrow> circle list option" where
  "optimizeCircles polygon radius spacing = search outsideBounds polygon radius spacing"

text \<open>The variant without the coarse bounding-box check: every cell goes to the strict
  check.\<close>

definition optimizeCircles_strictOnly :: "real point list \<Rightarrow> real \<Rightarrow> real \<Rightarrow> circle list option" where
  "optimizeCircles_strictOnly polygon radius spacing =
     search (\<lambda>bminX bminY bmaxX bmaxY r p. False) polygon radius spacing"

section \<open>Binary64 arithmetic\<close>

text \<open>
  A finite double is a real number \<open>m * 2^e\<close> with an integer significand
  \<open>\<bar>m\<bar> < 2^53\<close> and \<open>-1074 \<le> e \<le> 971\<close>. \<open>bitlen\<close> is the number of binary digits of a
  positive integer, \<open>scale2 q e\<close> is \<open>q * 2^e\<close>, and \<open>rne\<close> rounds to the nearest integer,
  a tie going to the even one.
\<close>

function bitlen :: "int \<Rightarrow> nat" where
  "bitlen n = (if n \<le> 0 then 0 else Suc (bitlen (n div 2)))"
  by pat_completeness auto
termination
  by (relation "measure nat") auto

declare bitlen.simps [simp del]

definition scale2 :: "real \<Rightarrow> int \<Rightarrow> real" where
  "scale2 q e = (if 0 \<le> e then q * 2 ^ nat e else q / 2 ^ nat (- e))"

definition rne :: "real \<Rightarrow> int" where
  "rne q =
     (let n = \<lfloor>q\<rfloor>; f = q - of_int n
      in if f < 1 / 2 then n else if 1 / 2 < f then n + 1 else if even n then n else n + 1)"

text \<open>Rounding to 53 significant bits with no limit on the exponent: \<open>e\<close> is chosen so
  that \<open>\<bar>q\<bar> / 2^e\<close> lies in \<open>[2^52, 2^53)\<close>, and the significand is that quotient
  rounded.\<close>

definition round_f64 :: "real \<Rightarrow> real" where
  "round_f64 q =
     (if q = 0 then 0
      else
        let a = \<bar>q\<bar>;
            e0 = (if 1 \<le> a then int (bitlen \<lfloor>a\<rfloor>) - 53 else - int (bitlen \<lfloor>1 / a\<rfloor>) - 52);
            e = (if 2 ^ 53 \<le> scale2 a (- e0) then e0 + 1 else e0);
            m = rne (scale2 a (- e))
        in sgn q * scale2 (of_int m) e)"

text \<open>A \<open>number\<close>: a finite value, \<open>Infinity\<close>, \<open>-Infinity\<close> or \<open>NaN\<close>.\<close>

datatype f64 = Fin real | PInf | NInf | NaN

text \<open>Below \<open>2^-1022\<close> the doubles are the multiples of \<open>2^-1074\<close> (gradual underflow).\<close>

definition round_subnormal :: "real \<Rightarrow> real" where
  "round_subnormal q = real_of_int (rne (q * 2 ^ 1074)) / 2 ^ 1074"

text \<open>The double that an operation returns for the exact result \<open>q\<close>: \<open>q\<close> rounded, and
  an infinity when the rounded value exceeds the largest double.\<close>

definition rnd :: "real \<Rightarrow> f64" where
  "rnd q =
     (let r = (if \<bar>q\<bar> < 1 / 2 ^ 1022 then round_subnormal q else round_f64 q)
      in if 2 ^ 1024 \<le> \<bar>r\<bar> then (if 0 < q then PInf else NInf) else Fin r)"

text \<open>The operators \<open>-x\<close>, \<open>+\<close>, \<open>-\<close>, \<open>*\<close>, \<open>/\<close> and \<open>%\<close>, the functions
  \<open>Math.sqrt\<close>, \<open>Math.abs\<close>, \<open>Math.ceil\<close>, \<open>Math.min\<close>, \<open>Math.max\<close>, and the
  comparisons \<open><\<close>, \<open>>\<close>, \<open>===\<close>, \<open><=\<close>, \<open>>=\<close> (false whenever an operand is \<open>NaN\<close>).
  \<open>signedInf a b\<close> is the infinity with the sign of a product or quotient of numbers
  with the signs of \<open>a\<close> and \<open>b\<close>; \<open>trunc0\<close> truncates towards zero, so that the remainder
  has the sign of the dividend (it is computed exactly).\<close>

fun fneg :: "f64 \<Rightarrow> f64" where
  "fneg (Fin a) = Fin (- a)"
| "fneg PInf = NInf"
| "fneg NInf = PInf"
| "fneg NaN = NaN"

fun fadd :: "f64 \<Rightarrow> f64 \<Rightarrow> f64" where
  "fadd NaN _ = NaN"
| "fadd _ NaN = NaN"
| "fadd PInf NInf = NaN"
| "fadd NInf PInf = NaN"
| "fadd PInf _ = PInf"
| "fadd _ PInf = PInf"
| "fadd NInf _ = NInf"
| "fadd _ NInf = NInf"
| "fadd (Fin a) (Fin b) = rnd (a + b)"

definition fsub :: "f64 \<Rightarrow> f64 \<Rightarrow> f64" where
  "fsub a b = fadd a (fneg b)"

definition signedInf :: "real \<Rightarrow> real \<Rightarrow> f64" where
  "signedInf a b = (if (0 \<le> a) = (0 \<le> b) then PInf else NInf)"

fun fmul :: "f64 \<Rightarrow> f64 \<Rightarrow> f64" where
  "fmul NaN _ = NaN"
| "fmul _ NaN = NaN"
| "fmul (Fin a) (Fin b) = rnd (a * b)"
| "fmul (Fin a) PInf = (if a = 0 then NaN else signedInf a 1)"
| "fmul (Fin a) NInf = (if a = 0 then NaN else signedInf a (- 1))"
| "fmul PInf (Fin b) = (if b = 0 then NaN else signedInf 1 b)"
| "fmul NInf (Fin b) = (if b = 0 then NaN else signedInf (- 1) b)"
| "fmul PInf PInf = PInf"
| "fmul PInf NInf = NInf"
| "fmul NInf PInf = NInf"
| "fmul NInf NInf = PInf"

fun fdiv :: "f64 \<Rightarrow> f64 \<Rightarrow> f64" where
  "fdiv NaN _ = NaN"
| "fdiv _ NaN = NaN"
| "fdiv (Fin a) (Fin b) =
     (if b = 0 then (if a = 0 then NaN else signedInf a 1) else rnd (a / b))"
| "fdiv (Fin a) PInf = Fin 0"
| "fdiv (Fin a) NInf = Fin 0"
| "fdiv PInf (Fin b) = signedInf 1 b"
| "fdiv NInf (Fin b) = signedInf (- 1) b"
| "fdiv PInf _ = NaN"
| "fdiv NInf _ = NaN"

fun fsqrt :: "f64 \<Rightarrow> f64" where
  "fsqrt (Fin a) = (if a < 0 then NaN else rnd (sqrt a))"
| "fsqrt PInf = PInf"
| "fsqrt NInf = NaN"
| "fsqrt NaN = NaN"

fun fabs :: "f64 \<Rightarrow> f64" where
  "fabs (Fin a) = Fin \<bar>a\<bar>"
| "fabs PInf = PInf"
| "fabs NInf = PInf"
| "fabs NaN = NaN"

fun fceil :: "f64 \<Rightarrow> f64" where
  "fceil (Fin a) = Fin (real_of_int \<lceil>a\<rceil>)"
| "fceil x = x"

fun flt :: "f64 \<Rightarrow> f64 \<Rightarrow> bool" where
  "flt NaN _ = False"
| "flt _ NaN = False"
| "flt (Fin a) (Fin b) = (a < b)"
| "flt (Fin a) PInf = True"
| "flt (Fin a) NInf = False"
| "flt PInf _ = False"
| "flt NInf NInf = False"
| "flt NInf _ = True"

definition fgt :: "f64 \<Rightarrow> f64 \<Rightarrow> bool" where
  "fgt a b = flt b a"

fun feq :: "f64 \<Rightarrow> f64 \<Rightarrow> bool" where
  "feq NaN _ = False"
| "feq _ NaN = False"
| "feq a b = (a = b)"

definition fle :: "f64 \<Rightarrow> f64 \<Rightarrow> bool" where
  "fle a b = (flt a b \<or> feq a b)"

definition fge :: "f64 \<Rightarrow> f64 \<Rightarrow> bool" where
  "fge a b = fle b a"

definition fmin :: "f64 \<Rightarrow> f64 \<Rightarrow> f64" where
  "fmin a b = (if a = NaN \<or> b = NaN then NaN else if flt b a then b else a)"

definition fmax :: "f64 \<Rightarrow> f64 \<Rightarrow> f64" where
  "fmax a b = (if a = NaN \<or> b = NaN then NaN else if flt a b then b else a)"

definition trunc0 :: "real \<Rightarrow> int" where
  "trunc0 t = (if 0 \<le> t then \<lfloor>t\<rfloor> else - \<lfloor>- t\<rfloor>)"

fun frem :: "f64 \<Rightarrow> f64 \<Rightarrow> f64" where
  "frem (Fin a) (Fin b) = (if b = 0 then NaN else Fin (a - b * real_of_int (trunc0 (a / b))))"
| "frem (Fin a) PInf = Fin a"
| "frem (Fin a) NInf = Fin a"
| "frem _ _ = NaN"

text \<open>\<open>Math.PI\<close> is the double nearest to the number pi; \<open>Math.cos\<close> and \<open>Math.sin\<close>
  return the cosine and the sine of their argument, rounded.\<close>

definition Math_PI :: f64 where
  "Math_PI = Fin (884279719003555 / 281474976710656)"

fun Math_cos :: "f64 \<Rightarrow> f64" where
  "Math_cos (Fin a) = rnd (cos a)"
| "Math_cos _ = NaN"

fun Math_sin :: "f64 \<Rightarrow> f64" where
  "Math_sin (Fin a) = rnd (sin a)"
| "Math_sin _ = NaN"

text \<open>A Circle and the bounding box, with doubles as fields.\<close>

record circle64 =
  c_x64 :: f64
  c_y64 :: f64
  c_r64 :: f64
  c_id64 :: string

record bbox64 =
  minX64 :: f64
  minY64 :: f64
  maxX64 :: f64
  maxY64 :: f64

section \<open>Polygon primitives, binary64 reading\<close>

text \<open>The same functions as in the exact reading, every operation replaced by the one on
  doubles, in the order in which the source evaluates them.\<close>

definition intersect_f64 :: "f64 point \<Rightarrow> f64 point \<Rightarrow> f64 point \<Rightarrow> bool" where
  "intersect_f64 pt vi vj =
     ((fgt (p_y vi) (p_y pt) \<noteq> fgt (p_y vj) (p_y pt))
      \<and> flt (p_x pt)
          (fadd (fdiv (fmul (fsub (p_x vj) (p_x vi)) (fsub (p_y pt) (p_y vi)))
                      (fsub (p_y vj) (p_y vi)))
                (p_x vi)))"

definition ray_step_f64 :: "f64 point \<Rightarrow> f64 point list \<Rightarrow> nat \<Rightarrow> nat \<times> bool \<Rightarrow> nat \<times> bool" where
  "ray_step_f64 pt polygon i s =
     (case s of (j, inside) \<Rightarrow>
        (i, if intersect_f64 pt (polygon ! i) (polygon ! j) then \<not> inside else inside))"

definition isPointInPolygon_f64 :: "f64 point \<Rightarrow> f64 point list \<Rightarrow> bool" where
  "isPointInPolygon_f64 pt polygon =
     snd (fold (ray_step_f64 pt polygon) [0..<length polygon] (length polygon - 1, False))"

definition dist2_f64 :: "f64 point \<Rightarrow> f64 point \<Rightarrow> f64" where
  "dist2_f64 v w =
     fadd (fmul (fsub (p_x v) (p_x w)) (fsub (p_x v) (p_x w)))
          (fmul (fsub (p_y v) (p_y w)) (fsub (p_y v) (p_y w)))"

definition distanceToSegment_f64 :: "f64 point \<Rightarrow> f64 point \<Rightarrow> f64 point \<Rightarrow> f64" where
  "distanceToSegment_f64 p v w =
     (let l2 = dist2_f64 v w in
      if feq l2 (Fin 0) then fsqrt (dist2_f64 p v)
      else
        let t = fdiv (fadd (fmul (fsub (p_x p) (p_x v)) (fsub (p_x w) (p_x v)))
                           (fmul (fsub (p_y p) (p_y v)) (fsub (p_y w) (p_y v)))) l2;
            t = fmax (Fin 0) (fmin (Fin 1) t);
            projection = \<lparr>p_x = fadd (p_x v) (fmul t (fsub (p_x w) (p_x v))),
                          p_y = fadd (p_y v) (fmul t (fsub (p_y w) (p_y v)))\<rparr>
        in fsqrt (dist2_f64 p projection))"

definition distanceToPolygonEdge_f64 :: "f64 point \<Rightarrow> f64 point list \<Rightarrow> f64" where
  "distanceToPolygonEdge_f64 pt polygon =
     fold (\<lambda>i minDistance.
             let p1 = polygon ! i;
                 p2 = polygon ! ((i + 1) mod length polygon)
             in fmin minDistance (distanceToSegment_f64 pt p1 p2))
          [0..<length polygon] PInf"

definition calculatePolygonArea_f64 :: "f64 point list \<Rightarrow> f64" where
  "calculatePolygonArea_f64 polygon =
     (let area =
        fold (\<lambda>i area.
                let j = (i + 1) mod length polygon;
                    area = fadd area (fmul (p_x (polygon ! i)) (p_y (polygon ! j)))
                in fsub area (fmul (p_x (polygon ! j)) (p_y (polygon ! i))))
             [0..<length polygon] (Fin 0)
      in fabs (fdiv area (Fin 2)))"

definition getBoundingBox_f64 :: "f64 point list \<Rightarrow> bbox64" where
  "getBoundingBox_f64 polygon =
     fold (\<lambda>p b. \<lparr>minX64 = fmin (minX64 b) (p_x p),
                  minY64 = fmin (minY64 b) (p_y p),
                  maxX64 = fmax (maxX64 b) (p_x p),
                  maxY64 = fmax (maxY64 b) (p_y p)\<rparr>)
          polygon
          \<lparr>minX64 = PInf, minY64 = PInf, maxX64 = NInf, maxY64 = NInf\<rparr>"

section \<open>The packing optimizer, binary64 reading\<close>

text \<open>The text of a number in a circle's identifier: an integer of magnitude below
  \<open>10^21\<close> is written with its decimal digits.\<close>

fun show_f64 :: "f64 \<Rightarrow> string" where
  "show_f64 (Fin a) = show_int \<lfloor>a\<rfloor>"
| "show_f64 PInf = ''Infinity''"
| "show_f64 NInf = ''-Infinity''"
| "show_f64 NaN = ''NaN''"

definition circle_id_f64 :: "f64 \<Rightarrow> f64 \<Rightarrow> f64 \<Rightarrow> string" where
  "circle_id_f64 angle row col = show_f64 angle @ ''-'' @ show_f64 row @ ''-'' @ show_f64 col"

definition candidatePoint_f64 ::
  "f64 \<Rightarrow> f64 \<Rightarrow> f64 \<Rightarrow> f64 \<Rightarrow> f64 \<Rightarrow> f64 \<Rightarrow> f64 \<Rightarrow> f64 \<Rightarrow> f64 \<Rightarrow> f64 point" where
  "candidatePoint_f64 d rowHeight centerX centerY angle offX offY row col =
     (let rad = fmul angle (fdiv Math_PI (Fin 180));
          cos = Math_cos rad;
          sin = Math_sin rad;
          hexX = fadd (fadd (fmul col d) (fmul (frem row (Fin 2)) (fdiv d (Fin 2)))) offX;
          hexY = fadd (fmul row rowHeight) offY;
          rotatedX = fadd (fsub (fmul hexX cos) (fmul hexY sin)) centerX;
          rotatedY = fadd (fadd (fmul hexX sin) (fmul hexY cos)) centerY
      in \<lparr>p_x = rotatedX, p_y = rotatedY\<rparr>)"

definition outsideBounds_f64 :: "bbox64 \<Rightarrow> f64 \<Rightarrow> f64 point \<Rightarrow> bool" where
  "outsideBounds_f64 bounds r p =
     (flt (p_x p) (fsub (minX64 bounds) r) \<or> fgt (p_x p) (fadd (maxX64 bounds) r)
      \<or> flt (p_y p) (fsub (minY64 bounds) r) \<or> fgt (p_y p) (fadd (maxY64 bounds) r))"

definition strictCheck_f64 :: "f64 point list \<Rightarrow> f64 \<Rightarrow> f64 point \<Rightarrow> bool" where
  "strictCheck_f64 polygon r p =
     (if isPointInPolygon_f64 p polygon then fge (distanceToPolygonEdge_f64 p polygon) r
      else False)"

definition cellCircle_f64 ::
  "(f64 point \<Rightarrow> bool) \<Rightarrow> f64 point list \<Rightarrow> f64 \<Rightarrow> f64 \<Rightarrow> f64 \<Rightarrow> f64 \<Rightarrow> f64 point \<Rightarrow> circle64 option" where
  "cellCircle_f64 coarse polygon radius angle row col p =
     (if coarse p then None
      else if strictCheck_f64 polygon radius p
        then Some \<lparr>c_x64 = p_x p, c_y64 = p_y p, c_r64 = radius, c_id64 = circle_id_f64 angle row col\<rparr>
        else None)"

text \<open>
  The loop \<open>for (let v = start; v <= steps; v++) body\<close> with a double as counter and
  \<open>s\<close> the state that the body updates. The loop is entered only while \<open>v <= steps\<close>
  holds, and \<open>v++\<close> adds 1 in binary64 arithmetic: a counter of magnitude \<open>2^53\<close> or more
  need not advance, and the counter \<open>-Infinity\<close> never does. The value \<open>None\<close> says that
  the loop does not end.
\<close>

partial_function (option) forLoop :: "(f64 \<Rightarrow> 's \<Rightarrow> 's option) \<Rightarrow> f64 \<Rightarrow> f64 \<Rightarrow> 's \<Rightarrow> 's option" where
  "forLoop body steps v s =
     (if fle v steps then Option.bind (body v s) (forLoop body steps (fadd v (Fin 1))) else Some s)"

text \<open>\<open>candidates.push\<close> when the cell yields a circle.\<close>

definition push :: "'a option \<Rightarrow> 'a list \<Rightarrow> 'a list" where
  "push c cands = (case c of None \<Rightarrow> cands | Some x \<Rightarrow> cands @ [x])"

text \<open>The loops over \<open>row\<close> and \<open>col\<close> for one angle and one pair of offsets; both start
  at \<open>-steps\<close>.\<close>

definition candidates_f64 ::
  "(f64 point \<Rightarrow> bool) \<Rightarrow> f64 point list \<Rightarrow> f64 \<Rightarrow> f64 \<Rightarrow> f64 \<Rightarrow> f64 \<Rightarrow> f64 \<Rightarrow> f64
     \<Rightarrow> f64 \<times> f64 \<times> f64 \<Rightarrow> circle64 list option" where
  "candidates_f64 coarse polygon radius d rowHeight centerX centerY steps cfg =
     (case cfg of (angle, offX, offY) \<Rightarrow>
        forLoop (\<lambda>row.
          forLoop (\<lambda>col cands.
              Some (push (cellCircle_f64 coarse polygon radius angle row col
                            (candidatePoint_f64 d rowHeight centerX centerY angle offX offY row col))
                         cands))
            steps (fneg steps))
          steps (fneg steps) [])"

definition configs_f64 :: "f64 \<Rightarrow> f64 \<Rightarrow> (f64 \<times> f64 \<times> f64) list" where
  "configs_f64 d rowHeight =
     concat (map (\<lambda>angle.
       concat (map (\<lambda>offX.
         map (\<lambda>offY. (angle, offX, offY)) [Fin 0, fdiv rowHeight (Fin 2)])
         [Fin 0, fdiv d (Fin 2)]))
       [Fin 0, Fin 15, Fin 30, Fin 45, Fin 60])"

text \<open>The loops over the configurations: each one scans its cells and, when that scan
  ends, updates \<open>(maxCount, bestResult)\<close>.\<close>

fun tryConfigs ::
  "('c \<Rightarrow> 'a list option) \<Rightarrow> 'c list \<Rightarrow> nat \<times> 'a list \<Rightarrow> (nat \<times> 'a list) option" where
  "tryConfigs cand [] s = Some s"
| "tryConfigs cand (cfg # cfgs) s =
     (case cand cfg of None \<Rightarrow> None | Some cands \<Rightarrow> tryConfigs cand cfgs (keepBest cands s))"

text \<open>The search, with the coarse check as a parameter (a function of the bounds and the
  radius); \<open>None\<close> when the call does not return. The source has no \<open>throw\<close> and reads
  \<open>polygon[i]\<close> only for \<open>i\<close> below the length, inside loops that an empty polygon never
  enters.\<close>

definition search_f64 ::
  "(bbox64 \<Rightarrow> f64 \<Rightarrow> f64 point \<Rightarrow> bool) \<Rightarrow> f64 point list \<Rightarrow> f64 \<Rightarrow> f64 \<Rightarrow> circle64 list option" where
  "search_f64 coarse polygon radius spacing =
     (let bounds = getBoundingBox_f64 polygon;
          r = radius;
          d = fadd (fmul r (Fin 2)) spacing;
          rowHeight = fdiv (fmul d (fsqrt (Fin 3))) (Fin 2);
          width = fsub (maxX64 bounds) (minX64 bounds);
          height = fsub (maxY64 bounds) (minY64 bounds);
          diagonal = fsqrt (fadd (fmul width width) (fmul height height));
          centerX = fdiv (fadd (minX64 bounds) (maxX64 bounds)) (Fin 2);
          centerY = fdiv (fadd (minY64 bounds) (maxY64 bounds)) (Fin 2);
          steps = fadd (fceil (fdiv diagonal d)) (Fin 2)
      in map_option snd
           (tryConfigs
              (candidates_f64 (coarse bounds r) polygon radius d rowHeight centerX centerY steps)
              (configs_f64 d rowHeight) (0, [])))"

definition optimizeCircles_f64 :: "f64 point list \<Rightarrow> f64 \<Rightarrow> f64 \<Rightarrow> circle64 list option" where
  "optimizeCircles_f64 polygon radius spacing = search_f64 outsideBounds_f64 polygon radius spacing"

text \<open>The variant without the coarse bounding-box check.\<close>

definition noCoarse :: "bbox64 \<Rightarrow> f64 \<Rightarrow> f64 point \<Rightarrow> bool" where
  "noCoarse bounds r p = False"

definition optimizeCircles_strictOnly_f64 :: "f64 point list \<Rightarrow> f64 \<Rightarrow> f64 \<Rightarrow> circle64 list option" where
  "optimizeCircles_strictOnly_f64 polygon radius spacing = search_f64 noCoarse polygon radius spacing"

declare fsqrt.simps(1) [simp del]


section \<open>Auxiliary definitions for the proofs\<close>

text \<open>The pitch \<open>d\<close>, the number of steps and the candidate list of one configuration, as
  the search computes them from finite bounds \<open>a, b, c, e\<close> (minX, minY, maxX, maxY).\<close>

definition pitch :: "real \<Rightarrow> real \<Rightarrow> real" where
  "pitch radius spacing = radius * 2 + spacing"

definition stepsOf :: "real \<Rightarrow> real \<Rightarrow> real \<Rightarrow> real \<Rightarrow> real \<Rightarrow> int" where
  "stepsOf a b c e d = \<lceil>sqrt ((c - a) * (c - a) + (e - b) * (e - b)) / d\<rceil> + 2"

definition candidatesAt ::
  "(real \<Rightarrow> real \<Rightarrow> real \<Rightarrow> real \<Rightarrow> real \<Rightarrow> real point \<Rightarrow> bool) \<Rightarrow> real point list \<Rightarrow> real \<Rightarrow> real
    \<Rightarrow> real \<Rightarrow> real \<Rightarrow> real \<Rightarrow> real \<Rightarrow> int \<times> real \<times> real \<Rightarrow> circle list" where
  "candidatesAt coarse polygon radius spacing a b c e cfg =
     candidates (coarse a b c e radius) polygon radius
       (pitch radius spacing) (pitch radius spacing * sqrt 3 / 2)
       ((a + c) / 2) ((b + e) / 2) (stepsOf a b c e (pitch radius spacing)) cfg"

definition searchConfigs :: "real \<Rightarrow> real \<Rightarrow> (int \<times> real \<times> real) list" where
  "searchConfigs radius spacing = configs (pitch radius spacing) (pitch radius spacing * sqrt 3 / 2)"

text \<open>The index \<open>j\<close> that the loop of \<open>isPointInPolygon\<close> carries at index \<open>i\<close>.\<close>

definition prevIndex :: "nat \<Rightarrow> nat \<Rightarrow> nat" where
  "prevIndex n i = (if i = 0 then n - 1 else i - 1)"


text \<open>The shoelace sum: the term of edge \<open>i\<close> and the sum over all edges.\<close>

definition edgeTerm :: "real point list \<Rightarrow> nat \<Rightarrow> real" where
  "edgeTerm ps i =
     p_x (ps ! i) * p_y (ps ! ((i + 1) mod length ps)) - p_x (ps ! ((i + 1) mod length ps)) * p_y (ps ! i)"

definition shoelace :: "real point list \<Rightarrow> real" where
  "shoelace ps = (\<Sum>i<length ps. edgeTerm ps i)"

text \<open>The lattice abscissa as the specification words it, with the mathematical
  (never negative) \<open>mod\<close>.\<close>

definition hexX_spec :: "real \<Rightarrow> real \<Rightarrow> int \<Rightarrow> int \<Rightarrow> real" where
  "hexX_spec d offX row col = real_of_int col * d + real_of_int (row mod 2) * (d / 2) + offX"

text \<open>Example polygons: the square of side 10 of the specification's sanity check, and a
  right triangle with legs of length 1.\<close>

definition square10 :: "real point list" where
  "square10 = [\<lparr>p_x = 0, p_y = 0\<rparr>, \<lparr>p_x = 10, p_y = 0\<rparr>, \<lparr>p_x = 10, p_y = 10\<rparr>, \<lparr>p_x = 0, p_y = 10\<rparr>]"

definition triangle1 :: "real point list" where
  "triangle1 = [\<lparr>p_x = 0, p_y = 0\<rparr>, \<lparr>p_x = 1, p_y = 0\<rparr>, \<lparr>p_x = 0, p_y = 1\<rparr>]"

text \<open>
  The binary64 reading: the pitch, the row height, the centre, the diagonal and the step
  count as \<open>search_f64\<close> computes them, the list of configurations, and the scan of one
  configuration (\<open>scan_f64\<close>, the loops over \<open>row\<close> and \<open>col\<close> with these values).
\<close>

definition pitch_f64 :: "f64 \<Rightarrow> f64 \<Rightarrow> f64" where
  "pitch_f64 radius spacing = fadd (fmul radius (Fin 2)) spacing"

definition rowHeight_f64 :: "f64 \<Rightarrow> f64 \<Rightarrow> f64" where
  "rowHeight_f64 radius spacing = fdiv (fmul (pitch_f64 radius spacing) (fsqrt (Fin 3))) (Fin 2)"

definition centerX_f64 :: "f64 point list \<Rightarrow> f64" where
  "centerX_f64 polygon =
     fdiv (fadd (minX64 (getBoundingBox_f64 polygon)) (maxX64 (getBoundingBox_f64 polygon))) (Fin 2)"

definition centerY_f64 :: "f64 point list \<Rightarrow> f64" where
  "centerY_f64 polygon =
     fdiv (fadd (minY64 (getBoundingBox_f64 polygon)) (maxY64 (getBoundingBox_f64 polygon))) (Fin 2)"

definition diagonal_f64 :: "f64 point list \<Rightarrow> f64" where
  "diagonal_f64 polygon =
     (let width = fsub (maxX64 (getBoundingBox_f64 polygon)) (minX64 (getBoundingBox_f64 polygon));
          height = fsub (maxY64 (getBoundingBox_f64 polygon)) (minY64 (getBoundingBox_f64 polygon))
      in fsqrt (fadd (fmul width width) (fmul height height)))"

definition steps_f64 :: "f64 point list \<Rightarrow> f64 \<Rightarrow> f64 \<Rightarrow> f64" where
  "steps_f64 polygon radius spacing =
     fadd (fceil (fdiv (diagonal_f64 polygon) (pitch_f64 radius spacing))) (Fin 2)"

definition searchConfigs_f64 :: "f64 \<Rightarrow> f64 \<Rightarrow> (f64 \<times> f64 \<times> f64) list" where
  "searchConfigs_f64 radius spacing = configs_f64 (pitch_f64 radius spacing) (rowHeight_f64 radius spacing)"

definition scan_f64 ::
  "(bbox64 \<Rightarrow> f64 \<Rightarrow> f64 point \<Rightarrow> bool) \<Rightarrow> f64 point list \<Rightarrow> f64 \<Rightarrow> f64
     \<Rightarrow> f64 \<times> f64 \<times> f64 \<Rightarrow> circle64 list option" where
  "scan_f64 coarse polygon radius spacing cfg =
     candidates_f64 (coarse (getBoundingBox_f64 polygon) radius) polygon radius
       (pitch_f64 radius spacing) (rowHeight_f64 radius spacing)
       (centerX_f64 polygon) (centerY_f64 polygon) (steps_f64 polygon radius spacing) cfg"

text \<open>The candidate point and the outcome of the cell \<open>(row, col)\<close> with integer indices,
  and the circles of the cells \<open>-n, ..., n\<close> in the order of the scan.\<close>

definition cellPoint_f64 ::
  "f64 point list \<Rightarrow> f64 \<Rightarrow> f64 \<Rightarrow> f64 \<times> f64 \<times> f64 \<Rightarrow> int \<Rightarrow> int \<Rightarrow> f64 point" where
  "cellPoint_f64 polygon radius spacing cfg row col =
     (case cfg of (angle, offX, offY) \<Rightarrow>
        candidatePoint_f64 (pitch_f64 radius spacing) (rowHeight_f64 radius spacing)
          (centerX_f64 polygon) (centerY_f64 polygon) angle offX offY
          (Fin (real_of_int row)) (Fin (real_of_int col)))"

definition cell_f64 ::
  "(bbox64 \<Rightarrow> f64 \<Rightarrow> f64 point \<Rightarrow> bool) \<Rightarrow> f64 point list \<Rightarrow> f64 \<Rightarrow> f64
     \<Rightarrow> f64 \<times> f64 \<times> f64 \<Rightarrow> int \<Rightarrow> int \<Rightarrow> circle64 option" where
  "cell_f64 coarse polygon radius spacing cfg row col =
     cellCircle_f64 (coarse (getBoundingBox_f64 polygon) radius) polygon radius (fst cfg)
       (Fin (real_of_int row)) (Fin (real_of_int col))
       (cellPoint_f64 polygon radius spacing cfg row col)"

definition cells_f64 ::
  "(bbox64 \<Rightarrow> f64 \<Rightarrow> f64 point \<Rightarrow> bool) \<Rightarrow> f64 point list \<Rightarrow> f64 \<Rightarrow> f64
     \<Rightarrow> int \<Rightarrow> f64 \<times> f64 \<times> f64 \<Rightarrow> circle64 list" where
  "cells_f64 coarse polygon radius spacing n cfg =
     concat (map (\<lambda>row. List.map_filter (cell_f64 coarse polygon radius spacing cfg row) [- n..n])
                 [- n..n])"

text \<open>The step count as an integer (\<open>-1\<close>, an empty range, when it is not finite), and
  the step counts with which the loops end: \<open>NaN\<close>, \<open>-Infinity\<close> and the doubles below
  \<open>2^53\<close>.\<close>

definition stepsInt :: "f64 \<Rightarrow> int" where
  "stepsInt s = (case s of Fin a \<Rightarrow> \<lfloor>a\<rfloor> | _ \<Rightarrow> - 1)"

definition bounded_steps :: "f64 \<Rightarrow> bool" where
  "bounded_steps s = (case s of Fin a \<Rightarrow> a < 2 ^ 53 | PInf \<Rightarrow> False | _ \<Rightarrow> True)"

text \<open>The centre of a circle, its coordinates as real numbers (0 for a coordinate that is
  not finite), and the Euclidean distance of two centres.\<close>

definition center64 :: "circle64 \<Rightarrow> f64 point" where
  "center64 c = \<lparr>p_x = c_x64 c, p_y = c_y64 c\<rparr>"





section \<open>Example inputs\<close>

text \<open>
  Polygons for the binary64 reading. A coordinate written \<open>rnd (p / q)\<close> is the double
  that the decimal literal with the value \<open>p / q\<close> denotes (\<open>rnd (1 / 10)\<close> is \<open>0.1\<close>);
  the other coordinates are doubles themselves. \<open>square10_f64\<close> is the square of side
  10, \<open>segment_f64\<close> has two vertices, \<open>sliver_f64\<close> is a long thin triangle with its
  apex at (0.001, 1e-30), and \<open>flat_f64\<close> has its three vertices on one line. The
  last four are inputs of the area examples.
\<close>

definition square10_f64 :: "f64 point list" where
  "square10_f64 =
     [\<lparr>p_x = Fin 0, p_y = Fin 0\<rparr>,
      \<lparr>p_x = Fin 10, p_y = Fin 0\<rparr>,
      \<lparr>p_x = Fin 10, p_y = Fin 10\<rparr>,
      \<lparr>p_x = Fin 0, p_y = Fin 10\<rparr>]"

definition segment_f64 :: "f64 point list" where
  "segment_f64 =
     [\<lparr>p_x = rnd (26 / 5), p_y = rnd (12 / 5)\<rparr>,
      \<lparr>p_x = rnd (44 / 5), p_y = rnd (1 / 10)\<rparr>]"

definition sliver_f64 :: "f64 point list" where
  "sliver_f64 =
     [\<lparr>p_x = rnd (1 / 1000), p_y = rnd (1 / 1000000000000000000000000000000)\<rparr>,
      \<lparr>p_x = Fin (- 1000000), p_y = rnd (- (11 / 10))\<rparr>,
      \<lparr>p_x = Fin (- 1000000), p_y = rnd (11 / 10)\<rparr>]"

definition flat_f64 :: "f64 point list" where
  "flat_f64 =
     [\<lparr>p_x = Fin 0, p_y = Fin 0\<rparr>,
      \<lparr>p_x = Fin 1, p_y = Fin 0\<rparr>,
      \<lparr>p_x = Fin 2, p_y = Fin 0\<rparr>]"

definition segment_int :: "f64 point list" where
  "segment_int =
     [\<lparr>p_x = Fin 9007199254740994, p_y = Fin 1\<rparr>,
      \<lparr>p_x = Fin 1, p_y = Fin 1\<rparr>]"

definition segment_dec :: "f64 point list" where
  "segment_dec =
     [\<lparr>p_x = rnd (1 / 10), p_y = rnd (1 / 10)\<rparr>,
      \<lparr>p_x = Fin 1, p_y = rnd (1 / 10)\<rparr>]"

definition triangle_int :: "f64 point list" where
  "triangle_int =
     [\<lparr>p_x = Fin 9007199254740992, p_y = Fin 1\<rparr>,
      \<lparr>p_x = Fin 1, p_y = Fin 1\<rparr>,
      \<lparr>p_x = Fin 3, p_y = Fin 2\<rparr>]"

definition triangle_dec :: "f64 point list" where
  "triangle_dec =
     [\<lparr>p_x = rnd (1 / 10), p_y = rnd (1 / 10)\<rparr>,
      \<lparr>p_x = rnd (1 / 10), p_y = rnd (1 / 5)\<rparr>,
      \<lparr>p_x = rnd (3 / 10), p_y = rnd (7 / 10)\<rparr>]"



definition beyond_apex :: circle64 where
  "beyond_apex = \<lparr>c_x64 = Fin (17179871 / 17179869184), c_y64 = Fin 0, c_r64 = Fin (4951760157141521 / 4951760157141521099596496896), c_id64 = ''0-0-1''\<rparr>"


text \<open>Two right triangles with legs of the length \<open>2^600\<close> (about 4.1e180, a double),
  the first with its right angle at the origin: the square of this length exceeds the
  largest double.\<close>

definition two600 :: real where
  "two600 = 2 ^ 600"


definition triangle_big :: "f64 point list" where
  "triangle_big =
     [\<lparr>p_x = Fin two600, p_y = Fin two600\<rparr>,
      \<lparr>p_x = Fin 0, p_y = Fin two600\<rparr>,
      \<lparr>p_x = Fin two600, p_y = Fin 0\<rparr>]"


section \<open>The selection of the best candidate list\<close>

lemma fold_keepBest_cases:
  "snd (fold (\<lambda>cfg. keepBest (f cfg)) cfgs (n, best)) = best
   \<or> (\<exists>cfg \<in> set cfgs. snd (fold (\<lambda>cfg. keepBest (f cfg)) cfgs (n, best)) = f cfg)"
proof (induction cfgs arbitrary: n best)
  case Nil
  then show ?case by simp
next
  case (Cons a cfgs)
  show ?case
  proof (cases "length (f a) > n")
    case True
    then have "fold (\<lambda>cfg. keepBest (f cfg)) (a # cfgs) (n, best)
        = fold (\<lambda>cfg. keepBest (f cfg)) cfgs (length (f a), f a)"
      by (simp add: keepBest_def)
    then show ?thesis using Cons.IH [of "length (f a)" "f a"] by auto
  next
    case False
    then have "fold (\<lambda>cfg. keepBest (f cfg)) (a # cfgs) (n, best)
        = fold (\<lambda>cfg. keepBest (f cfg)) cfgs (n, best)"
      by (simp add: keepBest_def)
    then show ?thesis using Cons.IH [of n best] by auto
  qed
qed

lemma fold_keepBest_length:
  "n = length best \<Longrightarrow>
   length best \<le> length (snd (fold (\<lambda>cfg. keepBest (f cfg)) cfgs (n, best)))
   \<and> (\<forall>cfg \<in> set cfgs. length (f cfg) \<le> length (snd (fold (\<lambda>cfg. keepBest (f cfg)) cfgs (n, best))))"
proof (induction cfgs arbitrary: n best)
  case Nil
  then show ?case by simp
next
  case (Cons a cfgs)
  show ?case
  proof (cases "length (f a) > n")
    case True
    then have e: "fold (\<lambda>cfg. keepBest (f cfg)) (a # cfgs) (n, best)
        = fold (\<lambda>cfg. keepBest (f cfg)) cfgs (length (f a), f a)"
      by (simp add: keepBest_def)
    show ?thesis using Cons.IH [of "length (f a)" "f a"] True Cons.prems unfolding e by auto
  next
    case False
    then have e: "fold (\<lambda>cfg. keepBest (f cfg)) (a # cfgs) (n, best)
        = fold (\<lambda>cfg. keepBest (f cfg)) cfgs (n, best)"
      by (simp add: keepBest_def)
    show ?thesis using Cons.IH [of n best] False Cons.prems unfolding e by auto
  qed
qed

section \<open>Candidates of one configuration\<close>

lemma set_map_filter_iff:
  "y \<in> set (List.map_filter f xs) \<longleftrightarrow> (\<exists>x \<in> set xs. f x = Some y)"
  by (induction xs) (auto split: option.splits)

lemma candidates_mem:
  "c \<in> set (candidates coarse polygon radius d rowHeight centerX centerY steps (angle, offX, offY))
   \<longleftrightarrow> (\<exists>row \<in> {- steps..steps}. \<exists>col \<in> {- steps..steps}.
         cellCircle coarse polygon radius angle row col
           (candidatePoint d rowHeight centerX centerY angle offX offY row col) = Some c)"
  by (auto simp: candidates_def set_map_filter_iff)

lemma cellCircle_Some:
  "cellCircle coarse polygon radius angle row col p = Some c \<longleftrightarrow>
     (\<not> coarse p \<and> strictCheck polygon radius p
      \<and> c = \<lparr>c_x = p_x p, c_y = p_y p, c_r = radius, c_id = circle_id angle row col\<rparr>)"
  by (auto simp: cellCircle_def)

lemma candidatesAt_mem:
  "c \<in> set (candidatesAt coarse polygon radius spacing a b cc e (angle, offX, offY))
   \<longleftrightarrow> (\<exists>row \<in> {- stepsOf a b cc e (pitch radius spacing)..stepsOf a b cc e (pitch radius spacing)}.
        \<exists>col \<in> {- stepsOf a b cc e (pitch radius spacing)..stepsOf a b cc e (pitch radius spacing)}.
         cellCircle (coarse a b cc e radius) polygon radius angle row col
           (candidatePoint (pitch radius spacing) (pitch radius spacing * sqrt 3 / 2)
              ((a + cc) / 2) ((b + e) / 2) angle offX offY row col) = Some c)"
  unfolding candidatesAt_def candidates_mem ..

section \<open>The bounding box\<close>

lemma bbox_fold_Num:
  "\<exists>a' b' c' e'.
     fold (\<lambda>p b. \<lparr>minX = xmin (minX b) (Num (p_x p)),
                  minY = xmin (minY b) (Num (p_y p)),
                  maxX = xmax (maxX b) (Num (p_x p)),
                  maxY = xmax (maxY b) (Num (p_y p))\<rparr>) ps
       \<lparr>minX = Num a, minY = Num b, maxX = Num c, maxY = Num e\<rparr>
     = \<lparr>minX = Num a', minY = Num b', maxX = Num c', maxY = Num e'\<rparr>
     \<and> a' \<le> a \<and> b' \<le> b \<and> c \<le> c' \<and> e \<le> e'
     \<and> (\<forall>p \<in> set ps. a' \<le> p_x p \<and> p_x p \<le> c' \<and> b' \<le> p_y p \<and> p_y p \<le> e')"
proof (induction ps arbitrary: a b c e)
  case Nil
  then show ?case by simp
next
  case (Cons q ps)
  obtain a' b' c' e' where
    h: "fold (\<lambda>p b. \<lparr>minX = xmin (minX b) (Num (p_x p)),
                  minY = xmin (minY b) (Num (p_y p)),
                  maxX = xmax (maxX b) (Num (p_x p)),
                  maxY = xmax (maxY b) (Num (p_y p))\<rparr>) ps
       \<lparr>minX = Num (min a (p_x q)), minY = Num (min b (p_y q)),
        maxX = Num (max c (p_x q)), maxY = Num (max e (p_y q))\<rparr>
     = \<lparr>minX = Num a', minY = Num b', maxX = Num c', maxY = Num e'\<rparr>"
    and le: "a' \<le> min a (p_x q)" "b' \<le> min b (p_y q)" "max c (p_x q) \<le> c'" "max e (p_y q) \<le> e'"
    and al: "\<forall>p \<in> set ps. a' \<le> p_x p \<and> p_x p \<le> c' \<and> b' \<le> p_y p \<and> p_y p \<le> e'"
    using Cons.IH [of "min a (p_x q)" "min b (p_y q)" "max c (p_x q)" "max e (p_y q)"] by blast
  have st: "xmin (Num a) (Num (p_x q)) = Num (min a (p_x q))"
       "xmin (Num b) (Num (p_y q)) = Num (min b (p_y q))"
       "xmax (Num c) (Num (p_x q)) = Num (max c (p_x q))"
       "xmax (Num e) (Num (p_y q)) = Num (max e (p_y q))"
    by (auto simp: xmin_def xmax_def)
  show ?case
    apply (rule exI [of _ a'], rule exI [of _ b'], rule exI [of _ c'], rule exI [of _ e'])
    using h le al by (simp add: st)
qed

lemma getBoundingBox_nonempty:
  assumes "polygon \<noteq> []"
  shows "\<exists>a b c e. getBoundingBox polygon = \<lparr>minX = Num a, minY = Num b, maxX = Num c, maxY = Num e\<rparr>
     \<and> (\<forall>p \<in> set polygon. a \<le> p_x p \<and> p_x p \<le> c \<and> b \<le> p_y p \<and> p_y p \<le> e)"
proof -
  obtain q ps where pq: "polygon = q # ps" using assms by (cases polygon) auto
  have st: "xmin Infinity (Num v) = Num v" "xmax NegInfinity (Num v) = Num v" for v
    by (simp_all add: xmin_def xmax_def)
  obtain a' b' c' e' where
    h: "fold (\<lambda>p b. \<lparr>minX = xmin (minX b) (Num (p_x p)),
                  minY = xmin (minY b) (Num (p_y p)),
                  maxX = xmax (maxX b) (Num (p_x p)),
                  maxY = xmax (maxY b) (Num (p_y p))\<rparr>) ps
       \<lparr>minX = Num (p_x q), minY = Num (p_y q), maxX = Num (p_x q), maxY = Num (p_y q)\<rparr>
     = \<lparr>minX = Num a', minY = Num b', maxX = Num c', maxY = Num e'\<rparr>"
    and le: "a' \<le> p_x q" "b' \<le> p_y q" "p_x q \<le> c'" "p_y q \<le> e'"
    and al: "\<forall>p \<in> set ps. a' \<le> p_x p \<and> p_x p \<le> c' \<and> b' \<le> p_y p \<and> p_y p \<le> e'"
    using bbox_fold_Num [of ps "p_x q" "p_y q" "p_x q" "p_y q"] by blast
  show ?thesis
    apply (rule exI [of _ a'], rule exI [of _ b'], rule exI [of _ c'], rule exI [of _ e'])
    using h le al by (simp add: pq getBoundingBox_def st)
qed

lemma getBoundingBox_empty:
  "getBoundingBox [] = \<lparr>minX = Infinity, minY = Infinity, maxX = NegInfinity, maxY = NegInfinity\<rparr>"
  by (simp add: getBoundingBox_def)

section \<open>The clearance is finite on a non-empty polygon\<close>

lemma distanceToPolygonEdge_fold_Num:
  "\<exists>v. fold (\<lambda>i m. xmin m (Num (g i))) is (Num a) = Num v \<and> v \<le> a \<and> (\<forall>i \<in> set is. v \<le> g i)"
proof (induction "is" arbitrary: a)
  case Nil
  then show ?case by simp
next
  case (Cons i "is")
  have s: "xmin (Num a) (Num (g i)) = Num (min a (g i))" by (simp add: xmin_def)
  obtain v where "fold (\<lambda>i m. xmin m (Num (g i))) is (Num (min a (g i))) = Num v"
    "v \<le> min a (g i)" "\<forall>i \<in> set is. v \<le> g i"
    using Cons.IH [of "min a (g i)"] by blast
  then show ?case by (auto simp: s)
qed

lemma distanceToPolygonEdge_Num:
  assumes "polygon \<noteq> []"
  shows "\<exists>v. distanceToPolygonEdge pt polygon = Num v
     \<and> (\<forall>i < length polygon.
           v \<le> distanceToSegment pt (polygon ! i) (polygon ! ((i + 1) mod length polygon)))"
proof -
  let ?g = "\<lambda>i. distanceToSegment pt (polygon ! i) (polygon ! ((i + 1) mod length polygon))"
  have n: "0 < length polygon" using assms by simp
  then have u: "[0..<length polygon] = 0 # [1..<length polygon]" by (simp add: upt_rec)
  have d: "distanceToPolygonEdge pt polygon = fold (\<lambda>i m. xmin m (Num (?g i))) [1..<length polygon] (Num (?g 0))"
    unfolding distanceToPolygonEdge_def Let_def by (subst u) (simp add: xmin_def)
  obtain v where v: "fold (\<lambda>i m. xmin m (Num (?g i))) [1..<length polygon] (Num (?g 0)) = Num v"
    "v \<le> ?g 0" "\<forall>i \<in> set [1..<length polygon]. v \<le> ?g i"
    using distanceToPolygonEdge_fold_Num [of ?g "[1..<length polygon]" "?g 0"] by blast
  have "\<forall>i < length polygon. v \<le> ?g i"
  proof (intro allI impI)
    fix i assume "i < length polygon"
    then show "v \<le> ?g i" using v(2,3) by (cases "i = 0") auto
  qed
  then show ?thesis using d v(1) by auto
qed

lemma isPointInPolygon_empty: "\<not> isPointInPolygon pt []"
  by (simp add: isPointInPolygon_def)

lemma strictCheck_iff:
  "strictCheck polygon r p \<longleftrightarrow>
     isPointInPolygon p polygon \<and> (\<exists>v. distanceToPolygonEdge p polygon = Num v \<and> r \<le> v)"
proof (cases "polygon = []")
  case True
  then show ?thesis by (simp add: strictCheck_def isPointInPolygon_empty)
next
  case False
  then obtain v where "distanceToPolygonEdge p polygon = Num v"
    using distanceToPolygonEdge_Num by blast
  then show ?thesis by (simp add: strictCheck_def)
qed

section \<open>The shape of the search result\<close>

lemma search_finite:
  assumes "getBoundingBox polygon = \<lparr>minX = Num a, minY = Num b, maxX = Num c, maxY = Num e\<rparr>"
    and "pitch radius spacing \<noteq> 0"
  shows "search coarse polygon radius spacing =
     Some (snd (fold (\<lambda>cfg. keepBest (candidatesAt coarse polygon radius spacing a b c e cfg))
        (searchConfigs radius spacing) (0, [])))"
  using assms
  by (simp add: search_def Let_def candidatesAt_def [abs_def] searchConfigs_def pitch_def stepsOf_def)

lemma search_length:
  assumes bb: "getBoundingBox polygon = \<lparr>minX = Num a, minY = Num b, maxX = Num c, maxY = Num e\<rparr>"
    and nz: "pitch radius spacing \<noteq> 0"
    and cfg: "cfg \<in> set (searchConfigs radius spacing)"
  shows "\<exists>cs. search coarse polygon radius spacing = Some cs
     \<and> length (candidatesAt coarse polygon radius spacing a b c e cfg) \<le> length cs"
proof -
  let ?f = "\<lambda>cfg. candidatesAt coarse polygon radius spacing a b c e cfg"
  have "\<forall>cfg \<in> set (searchConfigs radius spacing).
      length (?f cfg) \<le> length (snd (fold (\<lambda>cfg. keepBest (?f cfg)) (searchConfigs radius spacing) (0, [])))"
    using fold_keepBest_length [of 0 "[]" ?f "searchConfigs radius spacing"] by simp
  then show ?thesis using search_finite [OF bb nz, of coarse] cfg by simp
qed

lemma search_terminates:
  assumes "polygon \<noteq> []" and "pitch radius spacing \<noteq> 0"
  shows "\<exists>cs. search coarse polygon radius spacing = Some cs"
proof -
  obtain a b c e where
    "getBoundingBox polygon = \<lparr>minX = Num a, minY = Num b, maxX = Num c, maxY = Num e\<rparr>"
    using getBoundingBox_nonempty [OF assms(1)] by blast
  from search_finite [OF this assms(2)] show ?thesis by blast
qed

lemma search_cases:
  assumes "search coarse polygon radius spacing = Some cs"
  shows "cs = [] \<or> (\<exists>a b c e cfg.
     getBoundingBox polygon = \<lparr>minX = Num a, minY = Num b, maxX = Num c, maxY = Num e\<rparr>
     \<and> (\<forall>p \<in> set polygon. a \<le> p_x p \<and> p_x p \<le> c \<and> b \<le> p_y p \<and> p_y p \<le> e)
     \<and> pitch radius spacing \<noteq> 0
     \<and> cfg \<in> set (searchConfigs radius spacing)
     \<and> cs = candidatesAt coarse polygon radius spacing a b c e cfg)"
proof (cases "polygon = []")
  case True
  then show ?thesis using assms
    by (simp add: search_def getBoundingBox_empty split: if_splits)
next
  case False
  then obtain a b c e where
    bb: "getBoundingBox polygon = \<lparr>minX = Num a, minY = Num b, maxX = Num c, maxY = Num e\<rparr>"
    and al: "\<forall>p \<in> set polygon. a \<le> p_x p \<and> p_x p \<le> c \<and> b \<le> p_y p \<and> p_y p \<le> e"
    using getBoundingBox_nonempty by blast
  show ?thesis
  proof (cases "pitch radius spacing = 0")
    case True
    then show ?thesis using assms bb
      by (simp add: search_def Let_def pitch_def split: if_splits)
  next
    case nz: False
    let ?f = "\<lambda>cfg. candidatesAt coarse polygon radius spacing a b c e cfg"
    have cs: "cs = snd (fold (\<lambda>cfg. keepBest (?f cfg)) (searchConfigs radius spacing) (0, []))"
      using assms search_finite [OF bb nz, of coarse] by simp
    from fold_keepBest_cases [of ?f "searchConfigs radius spacing" 0 "[]"]
    show ?thesis using cs bb nz al by auto
  qed
qed

lemma search_member:
  assumes "search coarse polygon radius spacing = Some cs" and "c \<in> set cs"
  shows "strictCheck polygon radius \<lparr>p_x = c_x c, p_y = c_y c\<rparr> \<and> c_r c = radius"
proof -
  from search_cases [OF assms(1)] assms(2)
  obtain a b cc e angle offX offY where
    "c \<in> set (candidatesAt coarse polygon radius spacing a b cc e (angle, offX, offY))"
    by (metis empty_iff list.set(1) prod_cases3)
  then obtain row col p where "cellCircle (coarse a b cc e radius) polygon radius angle row col p = Some c"
    unfolding candidatesAt_mem by blast
  then show ?thesis by (cases p) (auto simp: cellCircle_Some)
qed

lemma search_infeasible:
  assumes "\<forall>p. \<not> strictCheck polygon radius p"
    and "search coarse polygon radius spacing = Some cs"
  shows "cs = []"
proof (rule ccontr)
  assume "cs \<noteq> []"
  then have "hd cs \<in> set cs" by simp
  from search_member [OF assms(2) this] assms(1) show False by blast
qed

lemma configs_first: "(0, 0, 0) \<in> set (searchConfigs radius spacing)"
  by (simp add: configs_def searchConfigs_def)

lemma steps_ge_2: "0 < d \<Longrightarrow> 2 \<le> stepsOf a b c e d"
proof -
  assume "0 < d"
  then have "0 \<le> sqrt ((c - a) * (c - a) + (e - b) * (e - b)) / d" by simp
  then have "0 \<le> \<lceil>sqrt ((c - a) * (c - a) + (e - b) * (e - b)) / d\<rceil>" by linarith
  then show ?thesis by (simp add: stepsOf_def)
qed

section \<open>The example polygons\<close>

lemma upt_3: "[0..<3] = [0, 1, 2]" by (simp add: upt_rec)

lemma upt_4: "[0..<4] = [0, 1, 2, 3]" by (simp add: upt_rec)

lemma sqrt25: "sqrt 25 = 5" using real_sqrt_abs [of 5] by simp



lemma square10_bbox:
  "getBoundingBox square10 = \<lparr>minX = Num 0, minY = Num 0, maxX = Num 10, maxY = Num 10\<rparr>"
  by (simp add: getBoundingBox_def square10_def xmin_def xmax_def)

lemma square10_inside:
  assumes "0 < a" "a < 10" "0 < b" "b < 10"
  shows "isPointInPolygon \<lparr>p_x = a, p_y = b\<rparr> square10"
  using assms by (simp add: isPointInPolygon_def square10_def upt_4 ray_step_def intersect_def)

lemma square10_dist_center:
  "distanceToPolygonEdge \<lparr>p_x = 5, p_y = 5\<rparr> square10 = Num 5"
  by (simp add: distanceToPolygonEdge_def square10_def upt_4 distanceToSegment_def dist2_def
      Let_def xmin_def sqrt25)


text \<open>In the first configuration (angle 0, no offsets) the cells of row 0 lie on the
  horizontal line through the centre of the bounding box.\<close>

lemma candidatePoint_origin:
  "candidatePoint d rowHeight centerX centerY 0 0 0 0 col = \<lparr>p_x = real_of_int col * d + centerX, p_y = centerY\<rparr>"
  by (simp add: candidatePoint_def hexX_def hexY_def js_rem_def)

lemma square10_center_accepted:
  assumes "- 5 < radius" "radius \<le> 5" "0 < pitch radius spacing"
  shows "\<lparr>c_x = 5, c_y = 5, c_r = radius, c_id = circle_id 0 0 0\<rparr>
     \<in> set (candidatesAt outsideBounds square10 radius spacing 0 0 10 10 (0, 0, 0))"
proof -
  have s: "(0::int) \<in> {- stepsOf 0 0 10 10 (pitch radius spacing)..stepsOf 0 0 10 10 (pitch radius spacing)}"
    using steps_ge_2 [OF assms(3), of 0 0 10 10] by simp
  have c: "cellCircle (outsideBounds 0 0 10 10 radius) square10 radius 0 0 0 \<lparr>p_x = 5, p_y = 5\<rparr>
      = Some \<lparr>c_x = 5, c_y = 5, c_r = radius, c_id = circle_id 0 0 0\<rparr>"
    using assms(1,2)
    by (simp add: cellCircle_def outsideBounds_def strictCheck_def square10_inside square10_dist_center)
  show ?thesis unfolding candidatesAt_mem
    apply (rule bexI [OF _ s], rule bexI [OF _ s])
    using c by (simp add: candidatePoint_origin)
qed

lemma square10_result_nonempty:
  assumes "- 5 < radius" "radius \<le> 5" "0 < pitch radius spacing"
  shows "\<exists>cs. optimizeCircles square10 radius spacing = Some cs \<and> cs \<noteq> []"
proof -
  have nz: "pitch radius spacing \<noteq> 0" using assms(3) by simp
  obtain cs where cs: "search outsideBounds square10 radius spacing = Some cs"
    "length (candidatesAt outsideBounds square10 radius spacing 0 0 10 10 (0, 0, 0)) \<le> length cs"
    using search_length [OF square10_bbox nz configs_first, of outsideBounds] by blast
  have "candidatesAt outsideBounds square10 radius spacing 0 0 10 10 (0, 0, 0) \<noteq> []"
    using square10_center_accepted [OF assms] by auto
  then have "cs \<noteq> []" using cs(2) by auto
  then show ?thesis using cs(1) by (simp add: optimizeCircles_def)
qed

text \<open>With a pitch of zero the call on the square does not return.\<close>

lemma square10_zero_pitch: "optimizeCircles square10 1 (- 2) = None"
  by (simp add: optimizeCircles_def search_def square10_bbox)

lemma triangle1_inside_bounds:
  assumes "isPointInPolygon \<lparr>p_x = a, p_y = b\<rparr> triangle1"
  shows "0 \<le> a \<and> a < 1 \<and> 0 \<le> b \<and> b < 1"
  using assms
  by (auto simp: isPointInPolygon_def triangle1_def upt_3 ray_step_def intersect_def split: if_splits)

lemma triangle1_infeasible: "\<not> strictCheck triangle1 10 p"
proof
  assume s: "strictCheck triangle1 10 p"
  obtain a b where p: "p = \<lparr>p_x = a, p_y = b\<rparr>" by (cases p) auto
  from s have ins: "isPointInPolygon \<lparr>p_x = a, p_y = b\<rparr> triangle1"
    and "\<exists>v. distanceToPolygonEdge p triangle1 = Num v \<and> 10 \<le> v"
    by (simp_all add: strictCheck_iff p)
  then obtain v where v: "distanceToPolygonEdge p triangle1 = Num v" "10 \<le> v" by blast
  have ne: "triangle1 \<noteq> []" by (simp add: triangle1_def)
  from distanceToPolygonEdge_Num [OF ne, of p] v(1)
  have "v \<le> distanceToSegment p (triangle1 ! 0) (triangle1 ! ((0 + 1) mod length triangle1))"
    by (auto simp: triangle1_def)
  then have le: "v \<le> distanceToSegment \<lparr>p_x = a, p_y = b\<rparr> \<lparr>p_x = 0, p_y = 0\<rparr> \<lparr>p_x = 1, p_y = 0\<rparr>"
    by (simp add: triangle1_def p)
  from triangle1_inside_bounds [OF ins] have ab: "0 \<le> a" "a < 1" "0 \<le> b" "b < 1" by auto
  have "distanceToSegment \<lparr>p_x = a, p_y = b\<rparr> \<lparr>p_x = 0, p_y = 0\<rparr> \<lparr>p_x = 1, p_y = 0\<rparr> = b"
    using ab by (simp add: distanceToSegment_def dist2_def Let_def max_def min_def)
  then show False using le v(2) ab by simp
qed

text \<open>A polygon of two vertices: both edges are the same segment, so the two crossing
  tests agree and the parity is even.\<close>

lemma intersect_sym:
  "intersect pt vi vj = intersect pt vj vi"
proof (cases "p_y vi = p_y vj")
  case True
  then show ?thesis by (simp add: intersect_def)
next
  case False
  then have "(p_x vj - p_x vi) * (p_y pt - p_y vi) / (p_y vj - p_y vi) + p_x vi
      = (p_x vi - p_x vj) * (p_y pt - p_y vj) / (p_y vi - p_y vj) + p_x vj"
    by (simp add: field_simps)
  then show ?thesis by (auto simp: intersect_def)
qed

lemma isPointInPolygon_two: "\<not> isPointInPolygon pt [v, w]"
  using intersect_sym [of pt v w]
  by (simp add: isPointInPolygon_def upt_rec ray_step_def)

lemma js_rem_2: "js_rem row 2 = (if even row then 0 else if row < 0 then - 1 else 1)"
proof -
  have "\<bar>row\<bar> mod 2 = (if even row then 0 else 1)" by (simp add: mod_2_eq_odd)
  then show ?thesis by (auto simp: js_rem_def sgn_if)
qed

section \<open>The lattice: cells, distinctness and separation\<close>

lemma map_filter_append: "List.map_filter f (xs @ ys) = List.map_filter f xs @ List.map_filter f ys"
  by (simp add: List.map_filter_def)

lemma map_filter_map: "List.map_filter f (map g xs) = List.map_filter (\<lambda>x. f (g x)) xs"
  by (induction xs) (auto split: option.splits)

lemma concat_map_filter_product:
  "concat (map (\<lambda>x. List.map_filter (f x) ys) xs) = List.map_filter (\<lambda>(x, y). f x y) (List.product xs ys)"
  by (induction xs) (simp_all add: map_filter_append map_filter_map)

lemma candidates_product:
  "candidates coarse polygon radius d rowHeight centerX centerY steps (angle, offX, offY)
   = List.map_filter (\<lambda>(row, col). cellCircle coarse polygon radius angle row col
           (candidatePoint d rowHeight centerX centerY angle offX offY row col))
       (List.product [- steps..steps] [- steps..steps])"
  by (simp add: candidates_def concat_map_filter_product)












section \<open>The size of the iteration space\<close>

lemma searchConfigs_length: "length (searchConfigs radius spacing) = 20"
  by (simp add: searchConfigs_def configs_def)

lemma map_filter_length_le: "length (List.map_filter f xs) \<le> length xs"
  by (simp add: List.map_filter_def)

lemma candidates_length_le:
  "length (candidates coarse polygon radius d rowHeight centerX centerY steps cfg)
     \<le> (nat (2 * steps + 1))\<^sup>2"
proof -
  obtain angle offX offY where cfg: "cfg = (angle, offX, offY)" by (cases cfg) auto
  have "length (candidates coarse polygon radius d rowHeight centerX centerY steps cfg)
      \<le> length (List.product [- steps..steps] [- steps..steps])"
    unfolding cfg candidates_product by (rule map_filter_length_le)
  also have "\<dots> = (nat (2 * steps + 1))\<^sup>2"
    by (simp add: power2_eq_square)
  finally show ?thesis .
qed

section \<open>Ray casting: crossings and the bounding box\<close>

lemma fold_upt_Suc: "fold f [0..<Suc k] s = f k (fold f [0..<k] s)"
  by simp

lemma crossing_abscissa_bounds:
  fixes xi xj yi yj py :: real
  assumes "(yi > py) \<noteq> (yj > py)"
  shows "min xi xj \<le> (xj - xi) * (py - yi) / (yj - yi) + xi"
    and "(xj - xi) * (py - yi) / (yj - yi) + xi \<le> max xi xj"
proof -
  define t where "t = (py - yi) / (yj - yi)"
  have t: "0 \<le> t" "t \<le> 1"
  proof -
    show "0 \<le> t"
    proof (cases "yi > py")
      case True
      then have "yj \<le> py" using assms by auto
      then show ?thesis using True unfolding t_def by (simp add: field_simps)
    next
      case False
      then have "yj > py" using assms by auto
      then show ?thesis using False unfolding t_def by (simp add: field_simps)
    qed
    show "t \<le> 1"
    proof (cases "yi > py")
      case True
      then have "yj \<le> py" using assms by auto
      then show ?thesis using True unfolding t_def by (simp add: field_simps)
    next
      case False
      then have "yj > py" using assms by auto
      then show ?thesis using False unfolding t_def by (simp add: field_simps)
    qed
  qed
  have e: "(xj - xi) * (py - yi) / (yj - yi) + xi = xi + (xj - xi) * t" by (simp add: t_def)
  define w where "w = (xj - xi) * t"
  have w: "min 0 (xj - xi) \<le> w \<and> w \<le> max 0 (xj - xi)"
  proof (cases "xi \<le> xj")
    case True
    then have "0 \<le> (xj - xi) * t" using t by simp
    moreover have "(xj - xi) * t \<le> (xj - xi) * 1"
      using True t by (intro mult_left_mono) simp_all
    ultimately show ?thesis using True by (simp add: w_def)
  next
    case False
    then have "(xj - xi) * t \<le> 0" using t by (simp add: mult_nonpos_nonneg)
    moreover have "(xj - xi) * 1 \<le> (xj - xi) * t"
      using False t by (intro mult_left_mono_neg) simp_all
    ultimately show ?thesis using False by (simp add: w_def)
  qed
  have e': "(xj - xi) * (py - yi) / (yj - yi) + xi = xi + w" unfolding e w_def ..
  show "min xi xj \<le> (xj - xi) * (py - yi) / (yj - yi) + xi"
    unfolding e' using w by linarith
  show "(xj - xi) * (py - yi) / (yj - yi) + xi \<le> max xi xj"
    unfolding e' using w by linarith
qed

text \<open>The index \<open>j\<close> carried by the loop is the previous index, cyclically.\<close>

lemma ray_fold_fst:
  "fst (fold (ray_step pt polygon) [0..<k] (j0, b)) = (if k = 0 then j0 else k - 1)"
proof (induction k)
  case 0
  then show ?case by simp
next
  case (Suc k)
  show ?case unfolding fold_upt_Suc by (simp add: ray_step_def split: prod.splits)
qed

lemma ray_fold_step:
  "fold (ray_step pt polygon) [0..<Suc k] (length polygon - 1, False)
   = (k, if intersect pt (polygon ! k) (polygon ! prevIndex (length polygon) k)
         then \<not> snd (fold (ray_step pt polygon) [0..<k] (length polygon - 1, False))
         else snd (fold (ray_step pt polygon) [0..<k] (length polygon - 1, False)))"
proof -
  obtain j b where s: "fold (ray_step pt polygon) [0..<k] (length polygon - 1, False) = (j, b)"
    by (cases "fold (ray_step pt polygon) [0..<k] (length polygon - 1, False)")
  have "j = prevIndex (length polygon) k"
    using ray_fold_fst [of pt polygon k "length polygon - 1" False] s by (simp add: prevIndex_def)
  then show ?thesis unfolding fold_upt_Suc s by (simp add: ray_step_def)
qed

text \<open>Without a crossing the parity stays even.\<close>

lemma ray_fold_no_crossing:
  assumes "\<forall>i < k. \<not> intersect pt (polygon ! i) (polygon ! prevIndex (length polygon) i)"
  shows "snd (fold (ray_step pt polygon) [0..<k] (length polygon - 1, False)) = False"
  using assms
proof (induction k)
  case 0
  then show ?case by simp
next
  case (Suc k)
  then have "snd (fold (ray_step pt polygon) [0..<k] (length polygon - 1, False)) = False" by simp
  moreover have "\<not> intersect pt (polygon ! k) (polygon ! prevIndex (length polygon) k)"
    using Suc.prems by simp
  ultimately show ?case unfolding ray_fold_step by simp
qed

lemma isPointInPolygon_crossing:
  assumes "isPointInPolygon pt polygon"
  shows "\<exists>i < length polygon. intersect pt (polygon ! i) (polygon ! prevIndex (length polygon) i)"
  using assms ray_fold_no_crossing [of "length polygon" pt polygon]
  by (auto simp: isPointInPolygon_def)

text \<open>Left of every vertex, each edge that straddles the scanline is crossed, and a
  closed outline straddles it an even number of times.\<close>

lemma ray_fold_left:
  assumes "\<forall>i < length polygon. p_x pt < p_x (polygon ! i)" and "k < length polygon"
  shows "snd (fold (ray_step pt polygon) [0..<Suc k] (length polygon - 1, False))
     = ((p_y (polygon ! k) > p_y pt) \<noteq> (p_y (polygon ! (length polygon - 1)) > p_y pt))"
  using assms(2)
proof (induction k)
  case 0
  have "intersect pt (polygon ! 0) (polygon ! (length polygon - 1))
      = ((p_y (polygon ! 0) > p_y pt) \<noteq> (p_y (polygon ! (length polygon - 1)) > p_y pt))"
  proof (cases "(p_y (polygon ! 0) > p_y pt) \<noteq> (p_y (polygon ! (length polygon - 1)) > p_y pt)")
    case True
    have "p_x pt < min (p_x (polygon ! 0)) (p_x (polygon ! (length polygon - 1)))"
      using assms(1) 0 by simp
    with crossing_abscissa_bounds(1) [OF True, where xi = "p_x (polygon ! 0)" and xj = "p_x (polygon ! (length polygon - 1))"]
    have "p_x pt < (p_x (polygon ! (length polygon - 1)) - p_x (polygon ! 0)) * (p_y pt - p_y (polygon ! 0))
        / (p_y (polygon ! (length polygon - 1)) - p_y (polygon ! 0)) + p_x (polygon ! 0)"
      by linarith
    then show ?thesis using True unfolding intersect_def by blast
  next
    case False
    then show ?thesis by (simp add: intersect_def)
  qed
  then show ?case unfolding ray_fold_step by (simp add: prevIndex_def)
next
  case (Suc k)
  then have ih: "snd (fold (ray_step pt polygon) [0..<Suc k] (length polygon - 1, False))
     = ((p_y (polygon ! k) > p_y pt) \<noteq> (p_y (polygon ! (length polygon - 1)) > p_y pt))" by simp
  have "intersect pt (polygon ! Suc k) (polygon ! k)
      = ((p_y (polygon ! Suc k) > p_y pt) \<noteq> (p_y (polygon ! k) > p_y pt))"
  proof (cases "(p_y (polygon ! Suc k) > p_y pt) \<noteq> (p_y (polygon ! k) > p_y pt)")
    case True
    have "p_x pt < min (p_x (polygon ! Suc k)) (p_x (polygon ! k))"
      using assms(1) Suc.prems by simp
    with crossing_abscissa_bounds(1) [OF True, where xi = "p_x (polygon ! Suc k)" and xj = "p_x (polygon ! k)"]
    have "p_x pt < (p_x (polygon ! k) - p_x (polygon ! Suc k)) * (p_y pt - p_y (polygon ! Suc k))
        / (p_y (polygon ! k) - p_y (polygon ! Suc k)) + p_x (polygon ! Suc k)"
      by linarith
    then show ?thesis using True unfolding intersect_def by blast
  next
    case False
    then show ?thesis by (simp add: intersect_def)
  qed
  then show ?case unfolding ray_fold_step [of pt polygon "Suc k"] ih by (auto simp: prevIndex_def)
qed

lemma isPointInPolygon_left:
  assumes "\<forall>v \<in> set polygon. p_x pt < p_x v"
  shows "\<not> isPointInPolygon pt polygon"
proof (cases "polygon = []")
  case True
  then show ?thesis by (simp add: isPointInPolygon_def)
next
  case False
  then obtain k where k: "length polygon = Suc k" by (cases polygon) auto
  have a: "\<forall>i < length polygon. p_x pt < p_x (polygon ! i)" using assms by simp
  from ray_fold_left [OF a, of k] k show ?thesis by (simp add: isPointInPolygon_def)
qed

text \<open>A point the strict check accepts lies in the bounding box.\<close>

lemma inside_in_bounds:
  assumes "isPointInPolygon pt polygon"
    and "\<forall>v \<in> set polygon. a \<le> p_x v \<and> p_x v \<le> c \<and> b \<le> p_y v \<and> p_y v \<le> e"
  shows "a \<le> p_x pt \<and> p_x pt \<le> c \<and> b \<le> p_y pt \<and> p_y pt \<le> e"
proof -
  have ne: "polygon \<noteq> []" using assms(1) by (auto simp: isPointInPolygon_def)
  obtain i where i: "i < length polygon"
    "intersect pt (polygon ! i) (polygon ! prevIndex (length polygon) i)"
    using isPointInPolygon_crossing [OF assms(1)] by blast
  let ?vi = "polygon ! i" and ?vj = "polygon ! prevIndex (length polygon) i"
  have j: "prevIndex (length polygon) i < length polygon"
    using i(1) by (cases i) (auto simp: prevIndex_def)
  have bi: "a \<le> p_x ?vi \<and> p_x ?vi \<le> c \<and> b \<le> p_y ?vi \<and> p_y ?vi \<le> e"
    using assms(2) i(1) by simp
  have bj: "a \<le> p_x ?vj \<and> p_x ?vj \<le> c \<and> b \<le> p_y ?vj \<and> p_y ?vj \<le> e"
    using assms(2) j by simp
  have st: "(p_y ?vi > p_y pt) \<noteq> (p_y ?vj > p_y pt)"
    and lt: "p_x pt < (p_x ?vj - p_x ?vi) * (p_y pt - p_y ?vi) / (p_y ?vj - p_y ?vi) + p_x ?vi"
    using i(2) by (auto simp: intersect_def)
  have y: "b \<le> p_y pt \<and> p_y pt \<le> e" using st bi bj by auto
  have "p_x pt < max (p_x ?vi) (p_x ?vj)"
    using lt crossing_abscissa_bounds(2) [OF st, where xi = "p_x ?vi" and xj = "p_x ?vj"] by linarith
  then have x2: "p_x pt \<le> c" using bi bj by auto
  have x1: "a \<le> p_x pt"
  proof (rule ccontr)
    assume "\<not> a \<le> p_x pt"
    then have "\<forall>v \<in> set polygon. p_x pt < p_x v" using assms(2) by force
    from isPointInPolygon_left [OF this] assms(1) show False by simp
  qed
  show ?thesis using x1 x2 y by simp
qed

lemma cellCircle_coarse_irrelevant:
  assumes "\<forall>v \<in> set polygon. a \<le> p_x v \<and> p_x v \<le> c \<and> b \<le> p_y v \<and> p_y v \<le> e" and "0 \<le> radius"
  shows "cellCircle (\<lambda>p. False) polygon radius angle row col p
     = cellCircle (outsideBounds a b c e radius) polygon radius angle row col p"
proof (cases "strictCheck polygon radius p")
  case True
  then have "isPointInPolygon p polygon" by (simp add: strictCheck_def split: if_splits)
  from inside_in_bounds [OF this assms(1)] have "\<not> outsideBounds a b c e radius p"
    using assms(2) by (simp add: outsideBounds_def)
  then show ?thesis by (simp add: cellCircle_def)
next
  case False
  then show ?thesis by (simp add: cellCircle_def)
qed

section \<open>The rounding function\<close>

lemma bitlen_bounds:
  "0 < n \<Longrightarrow> 2 ^ (bitlen n - 1) \<le> n \<and> n < 2 ^ bitlen n"
proof (induction n rule: bitlen.induct)
  case (1 n)
  show ?case
  proof (cases "n = 1")
    case True
    then show ?thesis by (simp add: bitlen.simps)
  next
    case False
    with 1 have h: "0 < n div 2" by simp
    have b: "bitlen n = Suc (bitlen (n div 2))" using 1(2) by (subst bitlen.simps) simp
    have pos: "0 < bitlen (n div 2)" using h by (subst bitlen.simps) simp
    from 1(1) h 1(2) have ih: "2 ^ (bitlen (n div 2) - 1) \<le> n div 2" "n div 2 < 2 ^ bitlen (n div 2)"
      by simp_all
    have e: "(2::int) ^ bitlen (n div 2) = 2 * 2 ^ (bitlen (n div 2) - 1)"
      using pos by (cases "bitlen (n div 2)") simp_all
    have "2 * (n div 2) \<le> n" "n < 2 * (n div 2) + 2" by presburger+
    then show ?thesis using ih unfolding b by (simp add: e)
  qed
qed

lemma rne_near: "\<bar>real_of_int (rne s) - s\<bar> \<le> 1 / 2"
  unfolding rne_def Let_def by (auto simp: abs_if) linarith+

lemma rne_tie_even: "s = real_of_int n + 1 / 2 \<Longrightarrow> even (rne s)"
proof -
  assume s: "s = real_of_int n + 1 / 2"
  have "\<lfloor>s\<rfloor> = n" unfolding s by linarith
  then show ?thesis unfolding rne_def Let_def by (simp add: s)
qed

lemma rne_mono_int: "real_of_int k \<le> s \<Longrightarrow> k \<le> rne s"
  unfolding rne_def Let_def by (auto simp: le_floor_iff) linarith+

lemma rne_le_int: "s \<le> real_of_int k \<Longrightarrow> rne s \<le> k"
  unfolding rne_def Let_def by (auto split: if_splits) linarith+

lemma scale2_powi: "scale2 q e = q * 2 powi e"
proof (cases "0 \<le> e")
  case True
  then show ?thesis by (simp add: scale2_def power_int_def)
next
  case False
  then have "(2::real) powi e = inverse (2 ^ nat (- e))"
    by (simp add: power_int_def power_one_over inverse_eq_divide)
  then show ?thesis using False by (simp add: scale2_def divide_inverse)
qed

lemma powi_2_pos: "0 < (2::real) powi e"
  by (simp add: power_int_def)

lemma powi_2_nat: "(2::real) powi int k = 2 ^ k"
  by (simp add: power_int_def)

lemma powi_2_mult: "(2::real) powi m * 2 powi n = 2 powi (m + n)"
  by (simp add: power_int_add)

lemma powi_2_52: "(2::real) powi 52 = 2 ^ 52" using powi_2_nat [of 52] by simp

lemma powi_2_53: "(2::real) powi 53 = 2 ^ 53" using powi_2_nat [of 53] by simp

lemma exponent_estimate:
  fixes a :: real
  assumes "0 < a"
  defines "e0 \<equiv> (if 1 \<le> a then int (bitlen \<lfloor>a\<rfloor>) - 53 else - int (bitlen \<lfloor>1 / a\<rfloor>) - 52)"
  shows "2 ^ 52 \<le> a * 2 powi (- e0) \<and> a * 2 powi (- e0) \<le> 2 ^ 53"
proof (cases "1 \<le> a")
  case True
  let ?n = "\<lfloor>a\<rfloor>"
  let ?b = "bitlen ?n"
  have n: "0 < ?n" using True by simp
  from bitlen_bounds [OF n] have bb: "2 ^ (?b - 1) \<le> ?n" "?n < 2 ^ ?b" by simp_all
  have bpos: "0 < ?b" using n by (subst bitlen.simps) simp
  have lo: "(2::real) ^ (?b - 1) \<le> a"
  proof -
    have "real_of_int (2 ^ (?b - 1)) \<le> real_of_int ?n" using bb(1) by (simp only: of_int_le_iff)
    then have "(2::real) ^ (?b - 1) \<le> real_of_int ?n" by simp
    moreover have "real_of_int ?n \<le> a" by (rule of_int_floor_le)
    ultimately show ?thesis by linarith
  qed
  have hi: "a < (2::real) ^ ?b"
  proof -
    have "?n + 1 \<le> 2 ^ ?b" using bb(2) by simp
    then have "real_of_int (?n + 1) \<le> real_of_int (2 ^ ?b)" by (simp only: of_int_le_iff)
    then have "real_of_int ?n + 1 \<le> (2::real) ^ ?b" by simp
    moreover have "a < real_of_int ?n + 1" by linarith
    ultimately show ?thesis by linarith
  qed
  have e: "- e0 = 53 - int ?b" using True by (simp add: e0_def)
  have p1: "(2::real) ^ (?b - 1) * 2 powi (53 - int ?b) = 2 ^ 52"
  proof -
    have "int (?b - 1) = int ?b - 1" using bpos by simp
    then have "(2::real) ^ (?b - 1) = 2 powi (int ?b - 1)"
      using powi_2_nat [of "?b - 1"] by simp
    then have "(2::real) ^ (?b - 1) * 2 powi (53 - int ?b) = 2 powi ((int ?b - 1) + (53 - int ?b))"
      by (simp only: powi_2_mult)
    then show ?thesis by (simp add: powi_2_52)
  qed
  have p2: "(2::real) ^ ?b * 2 powi (53 - int ?b) = 2 ^ 53"
  proof -
    have "(2::real) ^ ?b * 2 powi (53 - int ?b) = 2 powi (int ?b + (53 - int ?b))"
      by (simp only: powi_2_mult powi_2_nat [symmetric])
    then show ?thesis by (simp add: powi_2_53)
  qed
  have "2 ^ (?b - 1) * 2 powi (53 - int ?b) \<le> a * 2 powi (53 - int ?b)"
    using lo powi_2_pos [of "53 - int ?b"] by (intro mult_right_mono) simp_all
  moreover have "a * 2 powi (53 - int ?b) \<le> 2 ^ ?b * 2 powi (53 - int ?b)"
    using hi powi_2_pos [of "53 - int ?b"] by (intro mult_right_mono) simp_all
  ultimately show ?thesis unfolding e p1 p2 by simp
next
  case False
  let ?n = "\<lfloor>1 / a\<rfloor>"
  let ?b = "bitlen ?n"
  have a1: "1 \<le> 1 / a" using False assms(1) by (simp add: field_simps)
  have n: "0 < ?n" using a1 by simp
  from bitlen_bounds [OF n] have bb: "2 ^ (?b - 1) \<le> ?n" "?n < 2 ^ ?b" by simp_all
  have bpos: "0 < ?b" using n by (subst bitlen.simps) simp
  have lo: "(2::real) ^ (?b - 1) \<le> 1 / a"
  proof -
    have "real_of_int (2 ^ (?b - 1)) \<le> real_of_int ?n" using bb(1) by (simp only: of_int_le_iff)
    then have "(2::real) ^ (?b - 1) \<le> real_of_int ?n" by simp
    moreover have "real_of_int ?n \<le> 1 / a" by (rule of_int_floor_le)
    ultimately show ?thesis by linarith
  qed
  have hi: "1 / a < (2::real) ^ ?b"
  proof -
    have "?n + 1 \<le> 2 ^ ?b" using bb(2) by simp
    then have "real_of_int (?n + 1) \<le> real_of_int (2 ^ ?b)" by (simp only: of_int_le_iff)
    then have "real_of_int ?n + 1 \<le> (2::real) ^ ?b" by simp
    moreover have "1 / a < real_of_int ?n + 1" by linarith
    ultimately show ?thesis by linarith
  qed
  have e: "- e0 = int ?b + 52" using False by (simp add: e0_def)
  have pw: "(2::real) powi (int ?b + 52) = 2 ^ ?b * 2 ^ 52"
    by (simp only: powi_2_mult [symmetric] powi_2_nat powi_2_52)
  have pw': "(2::real) ^ ?b = 2 * 2 ^ (?b - 1)" using bpos by (cases ?b) simp_all
  have up: "a * 2 ^ (?b - 1) \<le> 1" using lo assms(1) by (simp add: field_simps)
  have dn: "1 < a * 2 ^ ?b" using hi assms(1) by (simp add: field_simps)
  have "a * (2 ^ ?b * 2 ^ 52) = (a * 2 ^ ?b) * 2 ^ 52" by simp
  moreover have "2 ^ 52 \<le> (a * 2 ^ ?b) * (2::real) ^ 52" using dn by simp
  moreover have "(a * 2 ^ ?b) * (2::real) ^ 52 \<le> 2 ^ 53"
  proof -
    have "a * 2 ^ ?b \<le> 2" using up unfolding pw' by simp
    then have "(a * 2 ^ ?b) * (2::real) ^ 52 \<le> 2 * 2 ^ 52" by (intro mult_right_mono) simp_all
    then show ?thesis by simp
  qed
  ultimately show ?thesis unfolding e pw by simp
qed

text \<open>The rounding is the one of binary64: the result has a significand of 53 bits at
  the exponent of the argument's binade and lies within half a unit in the last place of
  the argument (and \<open>rne\<close> sends a tie to the even significand).\<close>

lemma round_f64_nearest:
  assumes "q \<noteq> 0"
  shows "\<exists>m e. round_f64 q = sgn q * (real_of_int m * 2 powi e)
     \<and> 2 ^ 52 \<le> m \<and> m \<le> 2 ^ 53
     \<and> 2 ^ 52 * 2 powi e \<le> \<bar>q\<bar> \<and> \<bar>q\<bar> < 2 ^ 53 * 2 powi e
     \<and> \<bar>round_f64 q - q\<bar> \<le> 2 powi e / 2"
proof -
  define a where "a = \<bar>q\<bar>"
  define e0 where "e0 = (if 1 \<le> a then int (bitlen \<lfloor>a\<rfloor>) - 53 else - int (bitlen \<lfloor>1 / a\<rfloor>) - 52)"
  define e where "e = (if 2 ^ 53 \<le> scale2 a (- e0) then e0 + 1 else e0)"
  define s where "s = scale2 a (- e)"
  define m where "m = rne s"
  have apos: "0 < a" using assms by (simp add: a_def)
  have r: "round_f64 q = sgn q * scale2 (real_of_int m) e"
    unfolding round_f64_def Let_def m_def s_def e_def e0_def a_def
    by (simp only: assms if_False)
  have s0: "2 ^ 52 \<le> a * 2 powi (- e0)" "a * 2 powi (- e0) \<le> 2 ^ 53"
    using exponent_estimate [OF apos] unfolding e0_def by simp_all
  have half: "(2::real) powi (- e0 - 1) = 2 powi (- e0) / 2"
  proof -
    have "(2::real) powi (- e0 + (- 1)) = 2 powi (- e0) * 2 powi (- 1)" by (simp only: powi_2_mult)
    moreover have "(2::real) powi (- 1) = 1 / 2" by (simp add: power_int_def)
    ultimately show ?thesis by simp
  qed
  have sb: "2 ^ 52 \<le> s \<and> s < 2 ^ 53"
  proof (cases "2 ^ 53 \<le> scale2 a (- e0)")
    case True
    then have "a * 2 powi (- e0) = 2 ^ 53" using s0(2) by (simp add: scale2_powi)
    moreover have "s = a * 2 powi (- e0) / 2" using True by (simp add: s_def e_def scale2_powi half)
    ultimately show ?thesis by simp
  next
    case False
    then have "s = a * 2 powi (- e0)" by (simp add: s_def e_def scale2_powi)
    then show ?thesis using False s0(1) by (simp add: scale2_powi)
  qed
  have inv: "(2::real) powi (- e) * 2 powi e = 1" by (simp add: powi_2_mult)
  have a_s: "a = s * 2 powi e"
  proof -
    have "s * 2 powi e = a * (2 powi (- e) * 2 powi e)" by (simp add: s_def scale2_powi)
    then show ?thesis by (simp only: inv)
  qed
  have m1: "2 ^ 52 \<le> m"
  proof -
    have "real_of_int (2 ^ 52) \<le> s" using sb by simp
    from rne_mono_int [OF this] show ?thesis by (simp add: m_def)
  qed
  have m2: "m \<le> 2 ^ 53"
  proof -
    have "s \<le> real_of_int (2 ^ 53)" using sb by simp
    from rne_le_int [OF this] show ?thesis by (simp add: m_def)
  qed
  have near: "\<bar>real_of_int m - s\<bar> \<le> 1 / 2" unfolding m_def by (rule rne_near)
  have pe: "0 < (2::real) powi e" by (rule powi_2_pos)
  have q: "q = sgn q * a" by (simp add: a_def sgn_if)
  have "round_f64 q - q = sgn q * ((real_of_int m - s) * 2 powi e)"
    unfolding r scale2_powi by (subst (2) q) (simp add: a_s algebra_simps)
  then have "\<bar>round_f64 q - q\<bar> = \<bar>real_of_int m - s\<bar> * 2 powi e"
    using assms pe by (simp add: abs_mult abs_sgn_eq)
  also have "\<dots> \<le> 1 / 2 * 2 powi e" using near pe by (intro mult_right_mono) simp_all
  finally have err: "\<bar>round_f64 q - q\<bar> \<le> 2 powi e / 2" by simp
  have lo: "2 ^ 52 * 2 powi e \<le> \<bar>q\<bar>"
    unfolding a_def [symmetric] a_s using sb pe by (intro mult_right_mono) simp_all
  have hi: "\<bar>q\<bar> < 2 ^ 53 * 2 powi e"
    unfolding a_def [symmetric] a_s using sb pe by (intro mult_strict_right_mono) simp_all
  show ?thesis
    apply (rule exI [of _ m], rule exI [of _ e])
    using r m1 m2 lo hi err by (simp add: scale2_powi)
qed

section \<open>Rounding to a double\<close>

text \<open>The rounding of a number whose binade is known, the certificate with which the
  roundings of the evaluations below are computed; overflow; the integers up to \<open>2^53\<close>
  are doubles; and the correctly rounded square root, certified by squaring.\<close>

lemma rne_int: "rne (real_of_int k) = k"
  by (simp add: rne_def)

lemma round_f64_computed:
  assumes "q \<noteq> 0"
  shows "\<exists>e. 2 ^ 52 \<le> \<bar>q\<bar> * 2 powi (- e) \<and> \<bar>q\<bar> * 2 powi (- e) < 2 ^ 53
     \<and> round_f64 q = sgn q * (real_of_int (rne (\<bar>q\<bar> * 2 powi (- e))) * 2 powi e)"
proof -
  define a where "a = \<bar>q\<bar>"
  define e0 where "e0 = (if 1 \<le> a then int (bitlen \<lfloor>a\<rfloor>) - 53 else - int (bitlen \<lfloor>1 / a\<rfloor>) - 52)"
  define e where "e = (if 2 ^ 53 \<le> scale2 a (- e0) then e0 + 1 else e0)"
  have apos: "0 < a" using assms by (simp add: a_def)
  have r: "round_f64 q = sgn q * scale2 (real_of_int (rne (scale2 a (- e)))) e"
    unfolding round_f64_def Let_def e_def e0_def a_def
    by (simp only: assms if_False)
  have s0: "2 ^ 52 \<le> a * 2 powi (- e0)" "a * 2 powi (- e0) \<le> 2 ^ 53"
    using exponent_estimate [OF apos] unfolding e0_def by simp_all
  have half: "(2::real) powi (- e0 - 1) = 2 powi (- e0) / 2"
  proof -
    have "(2::real) powi (- e0 + (- 1)) = 2 powi (- e0) * 2 powi (- 1)" by (simp only: powi_2_mult)
    moreover have "(2::real) powi (- 1) = 1 / 2" by (simp add: power_int_def)
    ultimately show ?thesis by simp
  qed
  have sb: "2 ^ 52 \<le> a * 2 powi (- e) \<and> a * 2 powi (- e) < 2 ^ 53"
  proof (cases "2 ^ 53 \<le> scale2 a (- e0)")
    case True
    then have "a * 2 powi (- e0) = 2 ^ 53" using s0(2) by (simp add: scale2_powi)
    moreover have "a * 2 powi (- e) = a * 2 powi (- e0) / 2" using True by (simp add: e_def half)
    ultimately show ?thesis by simp
  next
    case False
    then have ee: "e = e0" by (simp add: e_def)
    show ?thesis unfolding ee using False s0(1) by (simp add: scale2_powi)
  qed
  show ?thesis
    apply (rule exI [of _ e])
    using sb r by (simp add: scale2_powi a_def)
qed

lemma powi_2_ge_2: "1 \<le> n \<Longrightarrow> 2 \<le> (2::real) powi n"
proof -
  assume n: "1 \<le> n"
  then have "(2::real) powi n = 2 ^ nat n" by (simp add: power_int_def)
  moreover have "(2::real) ^ 1 \<le> 2 ^ nat n" using n by (intro power_increasing) simp_all
  ultimately show ?thesis by simp
qed

lemma binade_unique:
  fixes a :: real
  assumes "2 ^ 52 \<le> a * 2 powi (- e)" "a * 2 powi (- e) < 2 ^ 53"
    and "2 ^ 52 \<le> a * 2 powi (- e')" "a * 2 powi (- e') < 2 ^ 53"
  shows "e = e'"
proof -
  have less: "False" if lt: "x < y" and bx: "2 ^ 52 \<le> a * 2 powi (- x)" "a * 2 powi (- x) < 2 ^ 53"
      and byy: "2 ^ 52 \<le> a * 2 powi (- y)" "a * 2 powi (- y) < 2 ^ 53" for x y :: int
  proof -
    have "(2::real) powi (- x) = 2 powi (- y) * 2 powi (y - x)" by (simp add: powi_2_mult)
    moreover have "2 \<le> (2::real) powi (y - x)" using lt by (intro powi_2_ge_2) simp
    moreover have pos: "0 \<le> a * 2 powi (- y)"
    proof -
      have "(0::real) \<le> 2 ^ 52" by simp
      then show ?thesis using byy(1) by linarith
    qed
    ultimately have "a * 2 powi (- x) = (a * 2 powi (- y)) * 2 powi (y - x)"
      and "(a * 2 powi (- y)) * 2 \<le> (a * 2 powi (- y)) * 2 powi (y - x)"
      by (simp_all add: mult_left_mono)
    moreover have "(2::real) ^ 53 = 2 * 2 ^ 52" by simp
    ultimately show False using bx(2) byy(1) by linarith
  qed
  show ?thesis
  proof (rule ccontr)
    assume "e \<noteq> e'"
    then consider "e < e'" | "e' < e" by linarith
    then show False
      using less [of e e'] less [of e' e] assms by cases auto
  qed
qed

lemma round_f64_binade:
  assumes "2 ^ 52 * 2 powi e \<le> \<bar>q\<bar>" and "\<bar>q\<bar> < 2 ^ 53 * 2 powi e"
  shows "round_f64 q = sgn q * (real_of_int (rne (\<bar>q\<bar> * 2 powi (- e))) * 2 powi e)"
proof -
  have pe: "0 < (2::real) powi e" by (rule powi_2_pos)
  have inv: "(2::real) powi e * 2 powi (- e) = 1" by (simp add: powi_2_mult)
  have q0: "q \<noteq> 0"
  proof
    assume "q = 0"
    then have "2 ^ 52 * 2 powi e \<le> (0::real)" using assms(1) by simp
    moreover have "0 < 2 ^ 52 * (2::real) powi e" using pe by simp
    ultimately show False by linarith
  qed
  have b1: "2 ^ 52 \<le> \<bar>q\<bar> * 2 powi (- e)"
  proof -
    have "2 ^ 52 * 2 powi e * 2 powi (- e) \<le> \<bar>q\<bar> * 2 powi (- e)"
      using assms(1) powi_2_pos [of "- e"] by (intro mult_right_mono) simp_all
    then show ?thesis using inv by (simp add: mult.assoc)
  qed
  have b2: "\<bar>q\<bar> * 2 powi (- e) < 2 ^ 53"
  proof -
    have "\<bar>q\<bar> * 2 powi (- e) < 2 ^ 53 * 2 powi e * 2 powi (- e)"
      using assms(2) powi_2_pos [of "- e"] by (intro mult_strict_right_mono) simp_all
    then show ?thesis using inv by (simp add: mult.assoc)
  qed
  obtain e' where e': "2 ^ 52 \<le> \<bar>q\<bar> * 2 powi (- e')" "\<bar>q\<bar> * 2 powi (- e') < 2 ^ 53"
    "round_f64 q = sgn q * (real_of_int (rne (\<bar>q\<bar> * 2 powi (- e'))) * 2 powi e')"
    using round_f64_computed [OF q0] by blast
  have "e = e'" using binade_unique [OF b1 b2 e'(1,2)] .
  then show ?thesis using e'(3) by simp
qed

lemma rnd_0 [simp]: "rnd 0 = Fin 0"
  by (simp add: rnd_def round_subnormal_def rne_def)

lemma rne_cert: "\<bar>s - real_of_int m\<bar> < 1 / 2 \<Longrightarrow> rne s = m"
proof -
  assume a: "\<bar>s - real_of_int m\<bar> < 1 / 2"
  then have b: "real_of_int m - 1 / 2 < s" "s < real_of_int m + 1 / 2" by linarith+
  have "\<lfloor>s\<rfloor> = m \<or> \<lfloor>s\<rfloor> = m - 1" using b by linarith
  then show ?thesis
  proof
    assume f: "\<lfloor>s\<rfloor> = m"
    have "s - real_of_int m < 1 / 2" using b by linarith
    then show ?thesis unfolding rne_def Let_def f by simp
  next
    assume f: "\<lfloor>s\<rfloor> = m - 1"
    have "1 / 2 < s - real_of_int (m - 1)" using b by simp
    then show ?thesis unfolding rne_def Let_def f by simp
  qed
qed

lemma scale2_inverse: "scale2 (scale2 q (- e)) e = q"
proof -
  have "(2::real) powi (- e) * 2 powi e = 1" by (simp add: powi_2_mult)
  then show ?thesis by (simp add: scale2_powi mult.assoc)
qed

lemma powi_2_mono: "m \<le> n \<Longrightarrow> (2::real) powi m \<le> 2 powi n"
  by (rule power_int_increasing) simp_all

lemma rnd_normal:
  assumes "2 ^ 52 \<le> scale2 \<bar>q\<bar> (- e)" and "scale2 \<bar>q\<bar> (- e) < 2 ^ 53"
    and "- 1074 \<le> e" and "e \<le> 970"
  shows "rnd q = Fin (sgn q * scale2 (real_of_int (rne (scale2 \<bar>q\<bar> (- e)))) e)"
proof -
  define s where "s = scale2 \<bar>q\<bar> (- e)"
  define m where "m = rne s"
  have pe: "0 < (2::real) powi e" by (rule powi_2_pos)
  have q: "\<bar>q\<bar> = s * 2 powi e" using scale2_inverse [of "\<bar>q\<bar>" e] by (simp add: s_def scale2_powi)
  have b1: "2 ^ 52 * 2 powi e \<le> \<bar>q\<bar>"
    unfolding q using assms(1) pe by (intro mult_right_mono) (simp_all add: s_def)
  have b2: "\<bar>q\<bar> < 2 ^ 53 * 2 powi e"
    unfolding q using assms(2) pe by (intro mult_strict_right_mono) (simp_all add: s_def)
  have r: "round_f64 q = sgn q * scale2 (real_of_int m) e"
    using round_f64_binade [OF b1 b2] by (simp add: m_def s_def scale2_powi)
  have lo: "(2::real) powi (- 1074) \<le> 2 powi e" using assms(3) by (rule powi_2_mono)
  have hi: "(2::real) powi e \<le> 2 powi 970" using assms(4) by (rule powi_2_mono)
  have p1: "(2::real) ^ 52 * 2 powi (- 1074) = 1 / 2 ^ 1022"
  proof -
    have "(2::real) ^ 52 * 2 powi (- 1074) = 2 powi 52 * 2 powi (- 1074)" by (simp add: powi_2_52)
    also have "\<dots> = 2 powi (- 1022)" by (simp only: powi_2_mult) simp
    also have "\<dots> = 1 / 2 ^ 1022" by (simp add: power_int_def power_one_over)
    finally show ?thesis .
  qed
  have p2: "(2::real) ^ 53 * 2 powi 970 < 2 ^ 1024"
  proof -
    have "(2::real) ^ 53 * 2 powi 970 = 2 powi 53 * 2 powi 970" by (simp add: powi_2_53)
    also have "\<dots> = 2 powi 1023" by (simp only: powi_2_mult) simp
    also have "\<dots> = 2 ^ 1023" using powi_2_nat [of 1023] by simp
    finally show ?thesis by simp
  qed
  have notsub: "\<not> \<bar>q\<bar> < 1 / 2 ^ 1022"
  proof -
    have "(2::real) ^ 52 * 2 powi (- 1074) \<le> 2 ^ 52 * 2 powi e" using lo by simp
    then show ?thesis using b1 p1 by linarith
  qed
  have m2: "m \<le> 2 ^ 53"
  proof -
    have "s \<le> real_of_int (2 ^ 53)" using assms(2) by (simp add: s_def)
    from rne_le_int [OF this] show ?thesis by (simp add: m_def)
  qed
  have m1: "0 \<le> m"
  proof -
    have "real_of_int 0 \<le> s" using assms(1) by (simp add: s_def)
    from rne_mono_int [OF this] show ?thesis by (simp add: m_def)
  qed
  have "\<bar>round_f64 q\<bar> = real_of_int m * 2 powi e"
  proof -
    have "q \<noteq> 0" using notsub by auto
    then show ?thesis unfolding r using m1 pe by (simp add: abs_mult scale2_powi abs_sgn_eq)
  qed
  also have "\<dots> \<le> 2 ^ 53 * 2 powi 970"
  proof -
    have "real_of_int m \<le> 2 ^ 53" using m2 by (metis of_int_le_iff of_int_numeral of_int_power)
    then show ?thesis using hi m1 pe by (intro mult_mono) simp_all
  qed
  finally have small: "\<not> 2 ^ 1024 \<le> \<bar>round_f64 q\<bar>" using p2 by linarith
  show ?thesis unfolding rnd_def Let_def using notsub small r by (simp add: m_def s_def)
qed

lemma rnd_overflow:
  assumes "2 ^ 52 \<le> scale2 \<bar>q\<bar> (- e)" and "scale2 \<bar>q\<bar> (- e) < 2 ^ 53" and "972 \<le> e"
  shows "rnd q = (if 0 < q then PInf else NInf)"
proof -
  define s where "s = scale2 \<bar>q\<bar> (- e)"
  define m where "m = rne s"
  have pe: "0 < (2::real) powi e" by (rule powi_2_pos)
  have q: "\<bar>q\<bar> = s * 2 powi e" using scale2_inverse [of "\<bar>q\<bar>" e] by (simp add: s_def scale2_powi)
  have b1: "2 ^ 52 * 2 powi e \<le> \<bar>q\<bar>"
    unfolding q using assms(1) pe by (intro mult_right_mono) (simp_all add: s_def)
  have b2: "\<bar>q\<bar> < 2 ^ 53 * 2 powi e"
    unfolding q using assms(2) pe by (intro mult_strict_right_mono) (simp_all add: s_def)
  have r: "round_f64 q = sgn q * scale2 (real_of_int m) e"
    using round_f64_binade [OF b1 b2] by (simp add: m_def s_def scale2_powi)
  have lo: "(2::real) powi 972 \<le> 2 powi e" using assms(3) by (rule powi_2_mono)
  have p1: "(2::real) ^ 52 * 2 powi 972 = 2 ^ 1024"
  proof -
    have "(2::real) ^ 52 * 2 powi 972 = 2 powi 52 * 2 powi 972" by (simp add: powi_2_52)
    also have "\<dots> = 2 powi 1024" by (simp only: powi_2_mult) simp
    also have "\<dots> = 2 ^ 1024" using powi_2_nat [of 1024] by simp
    finally show ?thesis .
  qed
  have big: "(2::real) ^ 1024 \<le> 2 ^ 52 * 2 powi e" using lo p1 by simp
  have notsub: "\<not> \<bar>q\<bar> < 1 / 2 ^ 1022"
  proof -
    have "(1::real) / 2 ^ 1022 \<le> 1" by simp
    moreover have "(1::real) \<le> 2 ^ 1024" by simp
    ultimately show ?thesis using b1 big by linarith
  qed
  have m1: "2 ^ 52 \<le> m"
  proof -
    have "real_of_int (2 ^ 52) \<le> s" using assms(1) by (simp add: s_def)
    from rne_mono_int [OF this] show ?thesis by (simp add: m_def)
  qed
  have m1r: "(2::real) ^ 52 \<le> real_of_int m"
    using m1 by (metis of_int_le_iff of_int_numeral of_int_power)
  have "\<bar>round_f64 q\<bar> = real_of_int m * 2 powi e"
  proof -
    have "q \<noteq> 0" using notsub by auto
    moreover have "(0::real) \<le> 2 ^ 52" by simp
    then have "0 \<le> real_of_int m" using m1r by linarith
    moreover note this
    ultimately show ?thesis unfolding r using pe by (simp add: abs_mult scale2_powi abs_sgn_eq)
  qed
  moreover have "2 ^ 52 * 2 powi e \<le> real_of_int m * 2 powi e"
    using m1r pe by (intro mult_right_mono) simp_all
  ultimately have "2 ^ 1024 \<le> \<bar>round_f64 q\<bar>" using big by linarith
  then show ?thesis unfolding rnd_def Let_def using notsub by simp
qed

lemma rnd_int:
  assumes "\<bar>k\<bar> \<le> 2 ^ 53"
  shows "rnd (real_of_int k) = Fin (real_of_int k)"
proof (cases "k = 0")
  case True
  then show ?thesis by (simp add: rnd_0)
next
  case False
  define n where "n = \<bar>k\<bar>"
  define b where "b = bitlen n"
  have npos: "0 < n" using False by (simp add: n_def)
  have bb: "2 ^ (b - 1) \<le> n" "n < 2 ^ b" using bitlen_bounds [OF npos] by (simp_all add: b_def)
  have b1: "1 \<le> b"
  proof (rule ccontr)
    assume "\<not> 1 \<le> b"
    then have "b = 0" by simp
    then show False using bb(2) npos by simp
  qed
  have b54: "b \<le> 54"
  proof (rule ccontr)
    assume "\<not> b \<le> 54"
    then have "54 \<le> b - 1" by simp
    then have "(2::int) ^ 54 \<le> 2 ^ (b - 1)" by (intro power_increasing) simp_all
    then show False using bb(1) assms by (simp add: n_def)
  qed
  have absq: "\<bar>real_of_int k\<bar> = real_of_int n" by (simp add: n_def)
  have sgnq: "sgn (real_of_int k) * real_of_int n = real_of_int k"
    by (simp add: n_def sgn_if)
  show ?thesis
  proof (cases "b = 54")
    case True
    have "(2::int) ^ 53 \<le> n" using bb(1) True by simp
    then have n53: "n = 2 ^ 53" using assms by (simp add: n_def)
    have s: "scale2 \<bar>real_of_int k\<bar> (- 1) = 2 ^ 52" by (simp add: absq n53 scale2_def)
    have "rne (scale2 \<bar>real_of_int k\<bar> (- 1)) = 2 ^ 52"
      using rne_int [of "2 ^ 52"] by (simp add: s)
    then have "rnd (real_of_int k) = Fin (sgn (real_of_int k) * scale2 (real_of_int (2 ^ 52)) 1)"
      using rnd_normal [of "real_of_int k" 1] s by simp
    also have "scale2 (real_of_int (2 ^ 52)) 1 = real_of_int n" by (simp add: scale2_def n53)
    finally show ?thesis by (simp add: sgnq)
  next
    case False
    then have b53: "b \<le> 53" using b54 by simp
    define j where "j = 53 - b"
    have e: "- (int b - 53) = int j" using b53 by (simp add: j_def)
    have s: "scale2 \<bar>real_of_int k\<bar> (- (int b - 53)) = real_of_int (n * 2 ^ j)"
      unfolding e by (simp add: absq scale2_def)
    have lo: "(2::real) ^ 52 \<le> real_of_int (n * 2 ^ j)"
    proof -
      have "(2::int) ^ (b - 1) * 2 ^ j \<le> n * 2 ^ j" using bb(1) by (intro mult_right_mono) simp_all
      moreover have "(2::int) ^ (b - 1) * 2 ^ j = 2 ^ 52"
        using b1 b53 by (simp add: j_def flip: power_add)
      ultimately have "(2::int) ^ 52 \<le> n * 2 ^ j" by (simp only:)
      then have "real_of_int (2 ^ 52) \<le> real_of_int (n * 2 ^ j)" by (simp only: of_int_le_iff)
      then show ?thesis by simp
    qed
    have hi: "real_of_int (n * 2 ^ j) < 2 ^ 53"
    proof -
      have "n * 2 ^ j < 2 ^ b * 2 ^ j" using bb(2) by (intro mult_strict_right_mono) simp_all
      moreover have "(2::int) ^ b * 2 ^ j = 2 ^ 53" using b53 by (simp add: j_def flip: power_add)
      ultimately have "n * 2 ^ j < (2::int) ^ 53" by (simp only:)
      then have "real_of_int (n * 2 ^ j) < real_of_int (2 ^ 53)" by (simp only: of_int_less_iff)
      then show ?thesis by simp
    qed
    have r: "rne (scale2 \<bar>real_of_int k\<bar> (- (int b - 53))) = n * 2 ^ j"
      unfolding s by (rule rne_int)
    have lo': "2 ^ 52 \<le> scale2 \<bar>real_of_int k\<bar> (- (int b - 53))" unfolding s by (rule lo)
    have hi': "scale2 \<bar>real_of_int k\<bar> (- (int b - 53)) < 2 ^ 53" unfolding s by (rule hi)
    have e_lo: "- 1074 \<le> int b - 53" using b1 by simp
    have e_hi: "int b - 53 \<le> 970" using b53 by simp
    have "rnd (real_of_int k)
        = Fin (sgn (real_of_int k) * scale2 (real_of_int (n * 2 ^ j)) (int b - 53))"
      using rnd_normal [OF lo' hi' e_lo e_hi] by (simp only: r)
    also have "scale2 (real_of_int (n * 2 ^ j)) (int b - 53) = real_of_int n"
      using scale2_inverse [of "real_of_int n" "int b - 53"] s absq by simp
    finally show ?thesis by (simp add: sgnq)
  qed
qed

lemma fsqrt_normal:
  assumes "2 ^ 52 \<le> m" and "m < 2 ^ 53" and "- 1074 \<le> e" and "e \<le> 970"
    and "2 ^ 104 \<le> scale2 x (- (2 * e))"
    and "(real_of_int m - 1 / 2)\<^sup>2 < scale2 x (- (2 * e))"
    and "scale2 x (- (2 * e)) < (real_of_int m + 1 / 2)\<^sup>2"
  shows "fsqrt (Fin x) = Fin (scale2 (real_of_int m) e)"
proof -
  define y where "y = scale2 x (- (2 * e))"
  define s where "s = sqrt y"
  have mr: "(2::real) ^ 52 \<le> real_of_int m"
    using assms(1) by (metis of_int_le_iff of_int_numeral of_int_power)
  have mr2: "real_of_int m < 2 ^ 53"
    using assms(2) by (metis of_int_less_iff of_int_numeral of_int_power)
  have "(0::real) < 2 ^ 104" by simp
  then have ypos: "0 < y" using assms(5) unfolding y_def by linarith
  have pe: "0 < (2::real) powi (- (2 * e))" by (rule powi_2_pos)
  have xpos: "0 < x"
  proof (rule ccontr)
    assume "\<not> 0 < x"
    then have "x * 2 powi (- (2 * e)) \<le> 0" using pe by (simp add: mult_le_0_iff)
    then show False using ypos by (simp add: y_def scale2_powi)
  qed
  have sq: "sqrt ((2::real) powi (- (2 * e))) = 2 powi (- e)"
  proof -
    have "(2::real) powi (- (2 * e)) = 2 powi (- e) * 2 powi (- e)" by (simp add: powi_2_mult)
    moreover have "0 \<le> (2::real) powi (- e)" using powi_2_pos [of "- e"] by simp
    ultimately show ?thesis by (simp add: real_sqrt_mult)
  qed
  have s_eq: "s = scale2 (sqrt x) (- e)"
    by (simp add: s_def y_def scale2_powi real_sqrt_mult sq)
  have s_lo: "real_of_int m - 1 / 2 < s"
  proof -
    have "(1::real) \<le> 2 ^ 52" by simp
    then have "0 \<le> real_of_int m - 1 / 2" using mr by linarith
    then have "sqrt ((real_of_int m - 1 / 2)\<^sup>2) = real_of_int m - 1 / 2" by simp
    moreover have "sqrt ((real_of_int m - 1 / 2)\<^sup>2) < sqrt y"
      using assms(6) unfolding y_def by (simp only: real_sqrt_less_iff)
    ultimately show ?thesis by (simp add: s_def)
  qed
  have s_hi: "s < real_of_int m + 1 / 2"
  proof -
    have "(1::real) \<le> 2 ^ 52" by simp
    then have "0 \<le> real_of_int m + 1 / 2" using mr by linarith
    then have "sqrt ((real_of_int m + 1 / 2)\<^sup>2) = real_of_int m + 1 / 2" by simp
    moreover have "sqrt y < sqrt ((real_of_int m + 1 / 2)\<^sup>2)"
      using assms(7) unfolding y_def by (simp only: real_sqrt_less_iff)
    ultimately show ?thesis by (simp add: s_def)
  qed
  have s52: "2 ^ 52 \<le> s"
  proof -
    have "sqrt ((2 ^ 52)\<^sup>2) \<le> sqrt y"
      using assms(5) unfolding y_def by (simp only: real_sqrt_le_iff) simp
    then show ?thesis by (simp add: s_def)
  qed
  have s53: "s < 2 ^ 53"
  proof -
    have "real_of_int m + 1 \<le> 2 ^ 53"
    proof -
      have "m + 1 \<le> 2 ^ 53" using assms(2) by simp
      then have "real_of_int (m + 1) \<le> real_of_int (2 ^ 53)" by (simp only: of_int_le_iff)
      then show ?thesis by simp
    qed
    then show ?thesis using s_hi by linarith
  qed
  have "\<bar>s - real_of_int m\<bar> < 1 / 2" using s_lo s_hi by linarith
  then have "rne s = m" by (rule rne_cert)
  moreover have "\<bar>sqrt x\<bar> = sqrt x" using xpos by simp
  moreover have "sgn (sqrt x) = 1" using xpos by simp
  ultimately have "rnd (sqrt x) = Fin (scale2 (real_of_int m) e)"
    using rnd_normal [of "sqrt x" e] s52 s53 assms(3,4) by (simp add: s_eq)
  then show ?thesis using xpos by (simp add: fsqrt.simps)
qed


section \<open>The shoelace area in exact arithmetic\<close>

lemma fold_upt_sum:
  fixes g :: "nat \<Rightarrow> real"
  shows "fold (\<lambda>i a. a + g i) [0..<k] a0 = a0 + sum g {..<k}"
  by (induction k) simp_all

lemma calculatePolygonArea_shoelace: "calculatePolygonArea ps = \<bar>shoelace ps / 2\<bar>"
proof -
  have "fold (\<lambda>i area. area + p_x (ps ! i) * p_y (ps ! ((i + 1) mod length ps))
            - p_x (ps ! ((i + 1) mod length ps)) * p_y (ps ! i)) [0..<length ps] 0
      = fold (\<lambda>i a. a + edgeTerm ps i) [0..<length ps] 0"
    by (simp add: edgeTerm_def algebra_simps)
  then show ?thesis
    by (simp add: calculatePolygonArea_def Let_def fold_upt_sum shoelace_def)
qed

lemma edgeTerm_rotate1:
  assumes "i < length ps"
  shows "edgeTerm (rotate1 ps) i = edgeTerm ps ((i + 1) mod length ps)"
proof -
  have n: "0 < length ps" using assms by (cases ps) auto
  have j: "Suc i mod length ps < length ps" using n by (rule mod_less_divisor)
  have a: "rotate1 ps ! i = ps ! (Suc i mod length ps)"
    by (rule nth_rotate1 [OF assms])
  have b: "rotate1 ps ! (Suc i mod length ps) = ps ! (Suc (Suc i mod length ps) mod length ps)"
    by (rule nth_rotate1 [OF j])
  show ?thesis by (simp add: edgeTerm_def a b)
qed

lemma shoelace_rotate1: "shoelace (rotate1 ps) = shoelace ps"
proof (cases "length ps")
  case 0
  then show ?thesis by simp
next
  case (Suc m)
  have "shoelace (rotate1 ps) = (\<Sum>i<Suc m. edgeTerm ps ((i + 1) mod Suc m))"
    using Suc by (simp add: shoelace_def edgeTerm_rotate1 del: sum.lessThan_Suc)
  also have "\<dots> = (\<Sum>i<m. edgeTerm ps (Suc i)) + edgeTerm ps 0"
    by simp
  also have "\<dots> = (\<Sum>i<Suc m. edgeTerm ps i)"
    by (simp add: sum.lessThan_Suc_shift del: sum.lessThan_Suc)
  finally show ?thesis using Suc by (simp add: shoelace_def)
qed

lemma shoelace_rotate: "shoelace (rotate k ps) = shoelace ps"
  by (induction k) (simp_all add: shoelace_rotate1)

lemma edgeTerm_rev_inner:
  assumes "length ps = Suc m" and "i < m"
  shows "edgeTerm (rev ps) i = - edgeTerm ps (m - Suc i)"
proof -
  have a: "rev ps ! i = ps ! (m - i)" using assms by (simp add: rev_nth)
  have b: "rev ps ! Suc i = ps ! (m - Suc i)" using assms by (simp add: rev_nth)
  have c: "Suc (m - Suc i) = m - i" using assms(2) by simp
  show ?thesis using assms by (simp add: edgeTerm_def a b c)
qed

lemma edgeTerm_rev_last:
  assumes "length ps = Suc m"
  shows "edgeTerm (rev ps) m = - edgeTerm ps m"
proof -
  have a: "rev ps ! m = ps ! 0" using assms by (simp add: rev_nth)
  have b: "rev ps ! 0 = ps ! m" using assms by (simp add: rev_nth)
  show ?thesis using assms by (simp add: edgeTerm_def a b)
qed

lemma shoelace_rev: "shoelace (rev ps) = - shoelace ps"
proof (cases "length ps")
  case 0
  then show ?thesis by (simp add: shoelace_def)
next
  case (Suc m)
  have "shoelace (rev ps) = (\<Sum>i<m. edgeTerm (rev ps) i) + edgeTerm (rev ps) m"
    using Suc by (simp add: shoelace_def)
  also have "(\<Sum>i<m. edgeTerm (rev ps) i) = (\<Sum>i<m. - edgeTerm ps (m - Suc i))"
    by (rule sum.cong) (simp_all add: edgeTerm_rev_inner [OF Suc])
  also have "\<dots> = - (\<Sum>i<m. edgeTerm ps (m - Suc i))" by (simp add: sum_negf)
  also have "(\<Sum>i<m. edgeTerm ps (m - Suc i)) = (\<Sum>i<m. edgeTerm ps i)"
    by (rule sum.nat_diff_reindex)
  finally show ?thesis using Suc by (simp add: shoelace_def edgeTerm_rev_last [OF Suc])
qed

lemma area_small:
  assumes "length ps < 3"
  shows "calculatePolygonArea ps = 0"
proof -
  consider "ps = []" | v where "ps = [v]" | v w where "ps = [v, w]"
    using assms by (cases ps; cases "tl ps"; cases "tl (tl ps)") auto
  then show ?thesis
    by cases (simp_all add: calculatePolygonArea_shoelace shoelace_def edgeTerm_def)
qed

section \<open>The loops over row and col\<close>

lemma fle_Fin: "fle (Fin a) (Fin b) \<longleftrightarrow> a \<le> b"
  by (auto simp: fle_def)

lemma forLoop_upto:
  assumes "- (2 ^ 53) \<le> k" and "n < 2 ^ 53"
  shows "forLoop (\<lambda>v s. Some (g v s)) (Fin (real_of_int n)) (Fin (real_of_int k)) s
       = Some (fold (\<lambda>i. g (Fin (real_of_int i))) [k..n] s)"
  using assms
proof (induction "nat (n + 1 - k)" arbitrary: k s)
  case 0
  then have "n < k" by simp
  then show ?case by (subst forLoop.simps) (simp add: fle_Fin)
next
  case (Suc m)
  then have kn: "k \<le> n" by linarith
  have "\<bar>k + 1\<bar> \<le> 2 ^ 53" using Suc.prems kn by linarith
  from rnd_int [OF this] have next_k: "rnd (real_of_int k + 1) = Fin (real_of_int k + 1)"
    by simp
  have m: "m = nat (n + 1 - (k + 1))" using Suc.hyps(2) by linarith
  have lo: "- (2 ^ 53) \<le> k + 1" using Suc.prems by linarith
  have "forLoop (\<lambda>v s. Some (g v s)) (Fin (real_of_int n)) (Fin (real_of_int k)) s
      = forLoop (\<lambda>v s. Some (g v s)) (Fin (real_of_int n)) (Fin (real_of_int (k + 1)))
          (g (Fin (real_of_int k)) s)"
    by (subst forLoop.simps) (simp add: fle_Fin kn next_k)
  also have "\<dots> = Some (fold (\<lambda>i. g (Fin (real_of_int i))) [k + 1..n] (g (Fin (real_of_int k)) s))"
    by (rule Suc.hyps(1) [OF m lo Suc.prems(2)])
  also have "\<dots> = Some (fold (\<lambda>i. g (Fin (real_of_int i))) [k..n] s)"
    using kn by (simp add: upto_rec1)
  finally show ?case .
qed

lemma forLoop_skip: "\<not> fle v steps \<Longrightarrow> forLoop body steps v s = Some s"
  by (subst forLoop.simps) simp


lemma forLoop_upto_fun:
  assumes "- (2 ^ 53) \<le> k" and "n < 2 ^ 53"
  shows "forLoop (\<lambda>v s. Some (g v s)) (Fin (real_of_int n)) (Fin (real_of_int k))
       = (\<lambda>s. Some (fold (\<lambda>i. g (Fin (real_of_int i))) [k..n] s))"
  by (rule ext) (rule forLoop_upto [OF assms])

lemma fold_push: "fold (\<lambda>i. push (f i)) ks s = s @ List.map_filter f ks"
  by (induction ks arbitrary: s) (auto simp: push_def List.map_filter_def split: option.splits)

lemma fold_rows: "fold (\<lambda>i s. s @ f i) ks s = s @ concat (map f ks)"
  by (induction ks arbitrary: s) auto

lemma candidates_f64_bounded:
  assumes "n < 2 ^ 53"
  shows "candidates_f64 coarse polygon radius d rowHeight centerX centerY (Fin (real_of_int n))
           (angle, offX, offY)
       = Some (concat (map (\<lambda>row. List.map_filter (\<lambda>col.
            cellCircle_f64 coarse polygon radius angle (Fin (real_of_int row)) (Fin (real_of_int col))
              (candidatePoint_f64 d rowHeight centerX centerY angle offX offY
                 (Fin (real_of_int row)) (Fin (real_of_int col)))) [- n..n]) [- n..n]))"
proof -
  have lo: "- (2 ^ 53) \<le> - n" using assms by simp
  have neg: "fneg (Fin (real_of_int n)) = Fin (real_of_int (- n))" by simp
  show ?thesis
    unfolding candidates_f64_def prod.case neg
    by (simp only: forLoop_upto_fun [OF lo assms] forLoop_upto [OF lo assms] fold_push fold_rows
        append_Nil)
qed

lemma tryConfigs_Some:
  "(\<And>cfg. cfg \<in> set cfgs \<Longrightarrow> cand cfg = Some (f cfg)) \<Longrightarrow>
   tryConfigs cand cfgs s = Some (fold (\<lambda>cfg. keepBest (f cfg)) cfgs s)"
  by (induction cfgs arbitrary: s) auto

lemma tryConfigs_None: "cand cfg = None \<Longrightarrow> tryConfigs cand (cfg # cfgs) s = None"
  by simp


section \<open>The search in the binary64 reading\<close>

lemma rnd_big:
  assumes "2 ^ 53 \<le> \<bar>q\<bar>" and "rnd q = Fin a"
  shows "(0 < q \<longrightarrow> 2 ^ 53 \<le> a) \<and> (q < 0 \<longrightarrow> a \<le> - (2 ^ 53))"
proof -
  have q0: "q \<noteq> 0" using assms(1) by auto
  have "(1::real) / 2 ^ 1022 \<le> 1" by simp
  moreover have "(1::real) \<le> 2 ^ 53" by simp
  ultimately have notsub: "\<not> \<bar>q\<bar> < 1 / 2 ^ 1022" using assms(1) by linarith
  have a: "a = round_f64 q"
    using assms(2) notsub unfolding rnd_def Let_def by (simp split: if_splits)
  obtain e where e: "2 ^ 52 \<le> \<bar>q\<bar> * 2 powi (- e)" "\<bar>q\<bar> * 2 powi (- e) < 2 ^ 53"
    and r: "round_f64 q = sgn q * (real_of_int (rne (\<bar>q\<bar> * 2 powi (- e))) * 2 powi e)"
    using round_f64_computed [OF q0] by blast
  define m where "m = rne (\<bar>q\<bar> * 2 powi (- e))"
  have e1: "1 \<le> e"
  proof (rule ccontr)
    assume "\<not> 1 \<le> e"
    then have "0 \<le> - e" by simp
    then have "(2::real) powi 0 \<le> 2 powi (- e)" by (rule powi_2_mono)
    then have "1 \<le> (2::real) powi (- e)" by simp
    then have "\<bar>q\<bar> * 1 \<le> \<bar>q\<bar> * 2 powi (- e)" by (intro mult_left_mono) simp_all
    then show False using e(2) assms(1) by simp
  qed
  have p2: "2 \<le> (2::real) powi e" using e1 by (rule powi_2_ge_2)
  have "real_of_int (2 ^ 52) \<le> \<bar>q\<bar> * 2 powi (- e)" using e(1) by simp
  from rne_mono_int [OF this] have m52: "2 ^ 52 \<le> m" by (simp add: m_def)
  then have "real_of_int (2 ^ 52) \<le> real_of_int m" by (simp only: of_int_le_iff)
  then have mr: "(2::real) ^ 52 \<le> real_of_int m" by simp
  have "(2::real) ^ 52 * 2 \<le> real_of_int m * 2 powi e"
    using mr p2 by (intro mult_mono) simp_all
  then have big: "2 ^ 53 \<le> real_of_int m * 2 powi e" by simp
  show ?thesis unfolding a r m_def [symmetric] using big by (auto simp: sgn_if)
qed

lemma steps_integral:
  assumes "fadd (fceil x) (Fin 2) = Fin a" and "a < 2 ^ 53"
  shows "a < 0 \<or> a = real_of_int \<lfloor>a\<rfloor>"
proof (cases x)
  case (Fin b)
  define k where "k = \<lceil>b\<rceil> + 2"
  have r: "rnd (real_of_int k) = Fin a" using assms(1) Fin by (simp add: k_def)
  show ?thesis
  proof (cases "\<bar>k\<bar> \<le> 2 ^ 53")
    case True
    from rnd_int [OF this] r have "a = real_of_int k" by simp
    then show ?thesis by simp
  next
    case False
    then have "2 ^ 53 \<le> \<bar>real_of_int k\<bar>"
    proof -
      from False have "2 ^ 53 \<le> \<bar>k\<bar>" by simp
      then have "real_of_int (2 ^ 53) \<le> real_of_int \<bar>k\<bar>" by (simp only: of_int_le_iff)
      then show ?thesis by simp
    qed
    from rnd_big [OF this r] assms(2) have "a \<le> - (2 ^ 53)"
      by (cases "0 < real_of_int k") (use False in auto)
    then show ?thesis by (smt (verit) zero_less_power)
  qed
qed (use assms in auto)

lemma search_f64_scan:
  "search_f64 coarse polygon radius spacing
     = map_option snd (tryConfigs (scan_f64 coarse polygon radius spacing)
         (searchConfigs_f64 radius spacing) (0, []))"
proof -
  have "scan_f64 coarse polygon radius spacing
      = candidates_f64 (coarse (getBoundingBox_f64 polygon) radius) polygon radius
          (pitch_f64 radius spacing) (rowHeight_f64 radius spacing)
          (centerX_f64 polygon) (centerY_f64 polygon) (steps_f64 polygon radius spacing)"
    by (rule ext) (simp add: scan_f64_def)
  then show ?thesis
    by (simp add: search_f64_def Let_def searchConfigs_f64_def pitch_f64_def rowHeight_f64_def
        centerX_f64_def centerY_f64_def steps_f64_def diagonal_f64_def)
qed

lemma upto_neg_empty: "n < 0 \<Longrightarrow> [- n..n] = ([] :: int list)"
  by simp

lemma scan_f64_bounded:
  assumes "bounded_steps (steps_f64 polygon radius spacing)"
  shows "scan_f64 coarse polygon radius spacing cfg
       = Some (cells_f64 coarse polygon radius spacing (stepsInt (steps_f64 polygon radius spacing)) cfg)"
proof -
  obtain angle offX offY where cfg: "cfg = (angle, offX, offY)" by (cases cfg) auto
  show ?thesis
  proof (cases "steps_f64 polygon radius spacing")
    case (Fin a)
    then have a53: "a < 2 ^ 53" using assms by (simp add: bounded_steps_def)
    have "fadd (fceil (fdiv (diagonal_f64 polygon) (pitch_f64 radius spacing))) (Fin 2) = Fin a"
      using Fin by (simp add: steps_f64_def)
    from steps_integral [OF this a53] show ?thesis
    proof
      assume neg: "a < 0"
      then have "\<not> fle (fneg (Fin a)) (Fin a)" by (simp add: fle_Fin)
      then have "scan_f64 coarse polygon radius spacing cfg = Some []"
        by (simp add: scan_f64_def candidates_f64_def cfg Fin forLoop_skip)
      moreover have "\<lfloor>a\<rfloor> < 0" using neg by linarith
      then have "cells_f64 coarse polygon radius spacing \<lfloor>a\<rfloor> cfg = []"
        by (simp add: cells_f64_def)
      ultimately show ?thesis by (simp add: Fin stepsInt_def)
    next
      assume int: "a = real_of_int \<lfloor>a\<rfloor>"
      define n where "n = \<lfloor>a\<rfloor>"
      have an: "a = real_of_int n" using int by (simp add: n_def)
      have "real_of_int n < real_of_int (2 ^ 53)" using a53 an by simp
      then have n53: "n < 2 ^ 53" by (simp only: of_int_less_iff)
      have cell: "cell_f64 coarse polygon radius spacing (angle, offX, offY) row
          = (\<lambda>col. cellCircle_f64 (coarse (getBoundingBox_f64 polygon) radius) polygon radius angle
               (Fin (real_of_int row)) (Fin (real_of_int col))
               (candidatePoint_f64 (pitch_f64 radius spacing) (rowHeight_f64 radius spacing)
                  (centerX_f64 polygon) (centerY_f64 polygon) angle offX offY
                  (Fin (real_of_int row)) (Fin (real_of_int col))))" for row
        by (rule ext) (simp add: cell_f64_def cellPoint_f64_def)
      show ?thesis
        unfolding scan_f64_def Fin an cfg candidates_f64_bounded [OF n53]
        by (simp add: cells_f64_def cell stepsInt_def)
    qed
  next
    case PInf
    then show ?thesis using assms by (simp add: bounded_steps_def)
  next
    case NInf
    then show ?thesis
      by (simp add: scan_f64_def candidates_f64_def cfg forLoop_skip fle_def cells_f64_def
          stepsInt_def)
  next
    case NaN
    then show ?thesis
      by (simp add: scan_f64_def candidates_f64_def cfg forLoop_skip fle_def cells_f64_def
          stepsInt_def)
  qed
qed

lemma search_f64_bounded:
  assumes "bounded_steps (steps_f64 polygon radius spacing)"
  shows "search_f64 coarse polygon radius spacing
       = Some (snd (fold (\<lambda>cfg. keepBest
            (cells_f64 coarse polygon radius spacing (stepsInt (steps_f64 polygon radius spacing)) cfg))
            (searchConfigs_f64 radius spacing) (0, [])))"
  unfolding search_f64_scan
  by (subst tryConfigs_Some [where f = "cells_f64 coarse polygon radius spacing
        (stepsInt (steps_f64 polygon radius spacing))"])
     (simp_all add: scan_f64_bounded [OF assms])





lemma cell_f64_Some:
  "cell_f64 coarse polygon radius spacing cfg row col = Some c \<longleftrightarrow>
     (\<not> coarse (getBoundingBox_f64 polygon) radius (cellPoint_f64 polygon radius spacing cfg row col)
      \<and> strictCheck_f64 polygon radius (cellPoint_f64 polygon radius spacing cfg row col)
      \<and> c = \<lparr>c_x64 = p_x (cellPoint_f64 polygon radius spacing cfg row col),
              c_y64 = p_y (cellPoint_f64 polygon radius spacing cfg row col),
              c_r64 = radius,
              c_id64 = circle_id_f64 (fst cfg) (Fin (real_of_int row)) (Fin (real_of_int col))\<rparr>)"
  by (auto simp: cell_f64_def cellCircle_f64_def)

lemma cells_f64_mem:
  "c \<in> set (cells_f64 coarse polygon radius spacing n cfg)
   \<longleftrightarrow> (\<exists>row \<in> {- n..n}. \<exists>col \<in> {- n..n}.
         cell_f64 coarse polygon radius spacing cfg row col = Some c)"
  by (auto simp: cells_f64_def set_map_filter_iff)


lemma search_f64_length:
  assumes "search_f64 coarse polygon radius spacing = Some cs"
    and "bounded_steps (steps_f64 polygon radius spacing)"
    and "cfg \<in> set (searchConfigs_f64 radius spacing)"
  shows "length (cells_f64 coarse polygon radius spacing (stepsInt (steps_f64 polygon radius spacing)) cfg)
       \<le> length cs"
  using assms(1,3) unfolding search_f64_bounded [OF assms(2)]
  using fold_keepBest_length [of 0 "[]" "cells_f64 coarse polygon radius spacing
      (stepsInt (steps_f64 polygon radius spacing))" "searchConfigs_f64 radius spacing"]
  by auto



section \<open>What the search returns, binary64 reading\<close>





lemma searchConfigs_f64_origin: "(Fin 0, Fin 0, Fin 0) \<in> set (searchConfigs_f64 radius spacing)"
  by (simp add: searchConfigs_f64_def configs_f64_def)


lemma cells_f64_member:
  assumes "cell_f64 coarse polygon radius spacing cfg row col = Some c"
    and "\<bar>row\<bar> \<le> n" and "\<bar>col\<bar> \<le> n"
  shows "c \<in> set (cells_f64 coarse polygon radius spacing n cfg)"
proof -
  have "row \<in> {- n..n}" "col \<in> {- n..n}" using assms(2,3) by auto
  then show ?thesis unfolding cells_f64_mem using assms(1) by blast
qed

lemma search_f64_accepts:
  assumes "bounded_steps (steps_f64 polygon radius spacing)"
    and "cfg \<in> set (searchConfigs_f64 radius spacing)"
    and "cell_f64 coarse polygon radius spacing cfg row col = Some c"
    and "\<bar>row\<bar> \<le> stepsInt (steps_f64 polygon radius spacing)"
    and "\<bar>col\<bar> \<le> stepsInt (steps_f64 polygon radius spacing)"
  shows "search_f64 coarse polygon radius spacing \<noteq> None
       \<and> search_f64 coarse polygon radius spacing \<noteq> Some []"
proof -
  obtain cs where cs: "search_f64 coarse polygon radius spacing = Some cs"
    using search_f64_bounded [OF assms(1)] by simp
  have "c \<in> set (cells_f64 coarse polygon radius spacing
      (stepsInt (steps_f64 polygon radius spacing)) cfg)"
    by (rule cells_f64_member [OF assms(3,4,5)])
  then have "0 < length (cells_f64 coarse polygon radius spacing
      (stepsInt (steps_f64 polygon radius spacing)) cfg)" by (auto simp: length_greater_0_conv)
  with search_f64_length [OF cs assms(1,2)] have "cs \<noteq> []" by auto
  with cs show ?thesis by simp
qed

lemma scan_f64_member:
  assumes "bounded_steps (steps_f64 polygon radius spacing)"
    and "cell_f64 coarse polygon radius spacing cfg row col = Some c"
    and "\<bar>row\<bar> \<le> stepsInt (steps_f64 polygon radius spacing)"
    and "\<bar>col\<bar> \<le> stepsInt (steps_f64 polygon radius spacing)"
  shows "scan_f64 coarse polygon radius spacing cfg \<noteq> None
       \<and> c \<in> set (the (scan_f64 coarse polygon radius spacing cfg))"
  unfolding scan_f64_bounded [OF assms(1)]
  using cells_f64_member [OF assms(2,3,4)] by simp


lemma fabs_sign: "fabs v = NaN \<or> fge (fabs v) (Fin 0)"
  by (cases v) (simp_all add: fge_def fle_def)

lemma area_f64_sign:
  "calculatePolygonArea_f64 polygon = NaN \<or> fge (calculatePolygonArea_f64 polygon) (Fin 0)"
  unfolding calculatePolygonArea_f64_def Let_def by (rule fabs_sign)


lemma scan_f64_filtered:
  assumes "bounded_steps (steps_f64 polygon radius spacing)"
    and "c \<in> set (the (scan_f64 coarse polygon radius spacing cfg))"
  shows "\<not> coarse (getBoundingBox_f64 polygon) radius (center64 c)"
proof -
  from assms(2) obtain row col where "cell_f64 coarse polygon radius spacing cfg row col = Some c"
    unfolding scan_f64_bounded [OF assms(1)] option.sel cells_f64_mem by blast
  then show ?thesis unfolding cell_f64_Some
    by (cases "cellPoint_f64 polygon radius spacing cfg row col") (auto simp: center64_def)
qed


section \<open>Evaluations in binary64 arithmetic\<close>

text \<open>
  The calls evaluated below are traced operation by operation. Each lemma named
  \<open>..._roundings\<close> lists the roundings that one stage of a trace needs, every one
  certified from the definition of \<open>rnd\<close> through \<open>rnd_normal\<close>, \<open>rnd_overflow\<close> or
  \<open>fsqrt_normal\<close>; the other lemmas give the value of a source expression.
\<close>

lemma decimal_literals:
  "rnd (26 / 5) = Fin (5854679515581645 / 1125899906842624)"
  "rnd (12 / 5) = Fin (5404319552844595 / 2251799813685248)"
  "rnd (44 / 5) = Fin (2476979795053773 / 281474976710656)"
  "rnd (1 / 10) = Fin (3602879701896397 / 36028797018963968)"
  "rnd (1 / 1000) = Fin (1152921504606847 / 1152921504606846976)"
  "rnd (1 / 1000000000000000000000000000000) = Fin (178405961588245 / 178405961588244985132285746181186892047843328)"
  "rnd (- (11 / 10)) = Fin (- (2476979795053773 / 2251799813685248))"
  "rnd (11 / 10) = Fin (2476979795053773 / 2251799813685248)"
  "rnd (1 / 10000000000000000) = Fin (2028240960365167 / 20282409603651670423947251286016)"
  "rnd (1 / 1000000000000) = Fin (4951760157141521 / 4951760157141521099596496896)"
  "rnd (5000000005000001 / 10000000000) = Fin (536870912536871 / 1073741824)"
  "rnd (1 / 5) = Fin (3602879701896397 / 18014398509481984)"
  "rnd (3 / 10) = Fin (5404319552844595 / 18014398509481984)"
  "rnd (7 / 10) = Fin (3152519739159347 / 4503599627370496)"
proof -
  show "rnd (26 / 5) = Fin (5854679515581645 / 1125899906842624)"
    using rnd_normal [of "26 / 5" "- 50"] by (simp add: scale2_def rne_def Let_def)
  show "rnd (12 / 5) = Fin (5404319552844595 / 2251799813685248)"
    using rnd_normal [of "12 / 5" "- 51"] by (simp add: scale2_def rne_def Let_def)
  show "rnd (44 / 5) = Fin (2476979795053773 / 281474976710656)"
    using rnd_normal [of "44 / 5" "- 49"] by (simp add: scale2_def rne_def Let_def)
  show "rnd (1 / 10) = Fin (3602879701896397 / 36028797018963968)"
    using rnd_normal [of "1 / 10" "- 56"] by (simp add: scale2_def rne_def Let_def)
  show "rnd (1 / 1000) = Fin (1152921504606847 / 1152921504606846976)"
    using rnd_normal [of "1 / 1000" "- 62"] by (simp add: scale2_def rne_def Let_def)
  show "rnd (1 / 1000000000000000000000000000000) = Fin (178405961588245 / 178405961588244985132285746181186892047843328)"
    using rnd_normal [of "1 / 1000000000000000000000000000000" "- 152"] by (simp add: scale2_def rne_def Let_def)
  show "rnd (- (11 / 10)) = Fin (- (2476979795053773 / 2251799813685248))"
    using rnd_normal [of "- (11 / 10)" "- 52"] by (simp add: scale2_def rne_def Let_def)
  show "rnd (11 / 10) = Fin (2476979795053773 / 2251799813685248)"
    using rnd_normal [of "11 / 10" "- 52"] by (simp add: scale2_def rne_def Let_def)
  show "rnd (1 / 10000000000000000) = Fin (2028240960365167 / 20282409603651670423947251286016)"
    using rnd_normal [of "1 / 10000000000000000" "- 106"] by (simp add: scale2_def rne_def Let_def)
  show "rnd (1 / 1000000000000) = Fin (4951760157141521 / 4951760157141521099596496896)"
    using rnd_normal [of "1 / 1000000000000" "- 92"] by (simp add: scale2_def rne_def Let_def)
  show "rnd (5000000005000001 / 10000000000) = Fin (536870912536871 / 1073741824)"
    using rnd_normal [of "5000000005000001 / 10000000000" "- 34"] by (simp add: scale2_def rne_def Let_def)
  show "rnd (1 / 5) = Fin (3602879701896397 / 18014398509481984)"
    using rnd_normal [of "1 / 5" "- 55"] by (simp add: scale2_def rne_def Let_def)
  show "rnd (3 / 10) = Fin (5404319552844595 / 18014398509481984)"
    using rnd_normal [of "3 / 10" "- 54"] by (simp add: scale2_def rne_def Let_def)
  show "rnd (7 / 10) = Fin (3152519739159347 / 4503599627370496)"
    using rnd_normal [of "7 / 10" "- 53"] by (simp add: scale2_def rne_def Let_def)
qed

subsection \<open>sq11\<close>

lemma sq11_roundings:
  "rnd 2 = Fin 2"
  "rnd 3 = Fin 3"
  "fsqrt (Fin 3) = Fin (3900231685776981 / 2251799813685248)"
  "rnd (11700695057330943 / 2251799813685248) = Fin (45705840067699 / 8796093022208)"
  "rnd (45705840067699 / 17592186044416) = Fin (45705840067699 / 17592186044416)"
  "rnd 10 = Fin 10"
  "rnd 100 = Fin 100"
  "rnd 200 = Fin 200"
  "fsqrt (Fin 200) = Fin (124395540479019 / 8796093022208)"
  "rnd 5 = Fin 5"
  "rnd (41465180159673 / 8796093022208) = Fin (41465180159673 / 8796093022208)"
  "rnd 7 = Fin 7"
  "rnd (176855943800711 / 10133099161583616) = Fin (5030569068109113 / 288230376151711744)"
  "rnd 1 = Fin 1"
proof -
  show "rnd 2 = Fin 2"
    using rnd_normal [of "2" "- 51"] by (simp add: scale2_def rne_def Let_def)
  show "rnd 3 = Fin 3"
    using rnd_normal [of "3" "- 51"] by (simp add: scale2_def rne_def Let_def)
  show "fsqrt (Fin 3) = Fin (3900231685776981 / 2251799813685248)"
    using fsqrt_normal [of "7800463371553962" "- 52" "3"] by (simp add: scale2_def power2_eq_square)
  show "rnd (11700695057330943 / 2251799813685248) = Fin (45705840067699 / 8796093022208)"
    using rnd_normal [of "11700695057330943 / 2251799813685248" "- 50"] by (simp add: scale2_def rne_def Let_def)
  show "rnd (45705840067699 / 17592186044416) = Fin (45705840067699 / 17592186044416)"
    using rnd_normal [of "45705840067699 / 17592186044416" "- 51"] by (simp add: scale2_def rne_def Let_def)
  show "rnd 10 = Fin 10"
    using rnd_normal [of "10" "- 49"] by (simp add: scale2_def rne_def Let_def)
  show "rnd 100 = Fin 100"
    using rnd_normal [of "100" "- 46"] by (simp add: scale2_def rne_def Let_def)
  show "rnd 200 = Fin 200"
    using rnd_normal [of "200" "- 45"] by (simp add: scale2_def rne_def Let_def)
  show "fsqrt (Fin 200) = Fin (124395540479019 / 8796093022208)"
    using fsqrt_normal [of "7961314590657216" "- 49" "200"] by (simp add: scale2_def power2_eq_square)
  show "rnd 5 = Fin 5"
    using rnd_normal [of "5" "- 50"] by (simp add: scale2_def rne_def Let_def)
  show "rnd (41465180159673 / 8796093022208) = Fin (41465180159673 / 8796093022208)"
    using rnd_normal [of "41465180159673 / 8796093022208" "- 50"] by (simp add: scale2_def rne_def Let_def)
  show "rnd 7 = Fin 7"
    using rnd_normal [of "7" "- 50"] by (simp add: scale2_def rne_def Let_def)
  show "rnd (176855943800711 / 10133099161583616) = Fin (5030569068109113 / 288230376151711744)"
    using rnd_normal [of "176855943800711 / 10133099161583616" "- 58"] by (simp add: scale2_def rne_def Let_def)
  show "rnd 1 = Fin 1"
    using rnd_normal [of "1" "- 52"] by (simp add: scale2_def rne_def Let_def)
qed

lemma sq11_bounds: "getBoundingBox_f64 square10_f64 = \<lparr>minX64 = Fin 0, minY64 = Fin 0, maxX64 = Fin 10, maxY64 = Fin 10\<rparr>"
  by (simp add: getBoundingBox_f64_def square10_f64_def fmin_def fmax_def decimal_literals)

lemma sq11_pitch: "pitch_f64 (Fin 1) (Fin 1) = Fin 3"
  by (simp add: pitch_f64_def decimal_literals sq11_roundings)

lemma sq11_rowHeight: "rowHeight_f64 (Fin 1) (Fin 1) = Fin (45705840067699 / 17592186044416)"
  by (simp add: rowHeight_f64_def sq11_pitch decimal_literals sq11_roundings)

lemma sq11_center: "centerX_f64 square10_f64 = Fin 5" "centerY_f64 square10_f64 = Fin 5"
  by (simp_all add: centerX_f64_def centerY_f64_def sq11_bounds decimal_literals sq11_roundings)




lemma sq11_angle0: "fmul (Fin 0) (fdiv Math_PI (Fin 180)) = Fin 0" "Math_cos (Fin 0) = Fin 1" "Math_sin (Fin 0) = Fin 0"
  by (simp_all add: Math_PI_def decimal_literals sq11_roundings)

lemma sq11_cell_0_0_roundings:
  "rnd (3 / 2) = Fin (3 / 2)"
  using rnd_normal [of "3 / 2" "- 52"] by (simp add: scale2_def rne_def Let_def)

lemma sq11_cell_0_0_point: "cellPoint_f64 square10_f64 (Fin 1) (Fin 1) (Fin 0, Fin 0, Fin 0) 0 0 = \<lparr>p_x = Fin 5, p_y = Fin 5\<rparr>"
  by (simp add: cellPoint_f64_def candidatePoint_f64_def Let_def sq11_angle0 sq11_pitch sq11_rowHeight sq11_center fsub_def trunc0_def decimal_literals sq11_roundings sq11_cell_0_0_roundings)

lemma sq11_cell_0_0_coarse_roundings:
  "rnd (- 1) = Fin (- 1)"
  "rnd 11 = Fin 11"
proof -
  show "rnd (- 1) = Fin (- 1)"
    using rnd_normal [of "- 1" "- 52"] by (simp add: scale2_def rne_def Let_def)
  show "rnd 11 = Fin 11"
    using rnd_normal [of "11" "- 49"] by (simp add: scale2_def rne_def Let_def)
qed

lemma sq11_cell_0_0_coarse: "outsideBounds_f64 (getBoundingBox_f64 square10_f64) (Fin 1) \<lparr>p_x = Fin 5, p_y = Fin 5\<rparr> = False"
  by (simp add: outsideBounds_f64_def sq11_bounds fsub_def fgt_def decimal_literals sq11_roundings sq11_cell_0_0_roundings sq11_cell_0_0_coarse_roundings)

lemma sq11_cell_0_0_inside_roundings:
  "rnd (- 10) = Fin (- 10)"
  "rnd (- 50) = Fin (- 50)"
  "rnd (- 5) = Fin (- 5)"
proof -
  show "rnd (- 10) = Fin (- 10)"
    using rnd_normal [of "- 10" "- 49"] by (simp add: scale2_def rne_def Let_def)
  show "rnd (- 50) = Fin (- 50)"
    using rnd_normal [of "- 50" "- 47"] by (simp add: scale2_def rne_def Let_def)
  show "rnd (- 5) = Fin (- 5)"
    using rnd_normal [of "- 5" "- 50"] by (simp add: scale2_def rne_def Let_def)
qed

lemma sq11_cell_0_0_inside: "isPointInPolygon_f64 \<lparr>p_x = Fin 5, p_y = Fin 5\<rparr> square10_f64 = True"
  by (simp add: isPointInPolygon_f64_def ray_step_f64_def intersect_f64_def square10_f64_def upt_rec_numeral fsub_def fgt_def decimal_literals sq11_roundings sq11_cell_0_0_roundings sq11_cell_0_0_coarse_roundings sq11_cell_0_0_inside_roundings)

lemma sq11_cell_0_0_seg0_roundings:
  "rnd 50 = Fin 50"
  "rnd (1 / 2) = Fin (1 / 2)"
  "rnd 25 = Fin 25"
  "fsqrt (Fin 25) = Fin 5"
proof -
  show "rnd 50 = Fin 50"
    using rnd_normal [of "50" "- 47"] by (simp add: scale2_def rne_def Let_def)
  show "rnd (1 / 2) = Fin (1 / 2)"
    using rnd_normal [of "1 / 2" "- 53"] by (simp add: scale2_def rne_def Let_def)
  show "rnd 25 = Fin 25"
    using rnd_normal [of "25" "- 48"] by (simp add: scale2_def rne_def Let_def)
  show "fsqrt (Fin 25) = Fin 5"
    using fsqrt_normal [of "5629499534213120" "- 50" "25"] by (simp add: scale2_def power2_eq_square)
qed

lemma sq11_cell_0_0_seg0: "distanceToSegment_f64 \<lparr>p_x = Fin 5, p_y = Fin 5\<rparr> \<lparr>p_x = Fin 0, p_y = Fin 0\<rparr> \<lparr>p_x = Fin 10, p_y = Fin 0\<rparr> = Fin 5"
  by (simp add: distanceToSegment_f64_def dist2_f64_def Let_def fsub_def fmin_def fmax_def decimal_literals sq11_roundings sq11_cell_0_0_roundings sq11_cell_0_0_coarse_roundings sq11_cell_0_0_inside_roundings sq11_cell_0_0_seg0_roundings)

lemma sq11_cell_0_0_seg1: "distanceToSegment_f64 \<lparr>p_x = Fin 5, p_y = Fin 5\<rparr> \<lparr>p_x = Fin 10, p_y = Fin 0\<rparr> \<lparr>p_x = Fin 10, p_y = Fin 10\<rparr> = Fin 5"
  by (simp add: distanceToSegment_f64_def dist2_f64_def Let_def fsub_def fmin_def fmax_def decimal_literals sq11_roundings sq11_cell_0_0_roundings sq11_cell_0_0_coarse_roundings sq11_cell_0_0_inside_roundings sq11_cell_0_0_seg0_roundings)

lemma sq11_cell_0_0_seg2: "distanceToSegment_f64 \<lparr>p_x = Fin 5, p_y = Fin 5\<rparr> \<lparr>p_x = Fin 10, p_y = Fin 10\<rparr> \<lparr>p_x = Fin 0, p_y = Fin 10\<rparr> = Fin 5"
  by (simp add: distanceToSegment_f64_def dist2_f64_def Let_def fsub_def fmin_def fmax_def decimal_literals sq11_roundings sq11_cell_0_0_roundings sq11_cell_0_0_coarse_roundings sq11_cell_0_0_inside_roundings sq11_cell_0_0_seg0_roundings)

lemma sq11_cell_0_0_seg3: "distanceToSegment_f64 \<lparr>p_x = Fin 5, p_y = Fin 5\<rparr> \<lparr>p_x = Fin 0, p_y = Fin 10\<rparr> \<lparr>p_x = Fin 0, p_y = Fin 0\<rparr> = Fin 5"
  by (simp add: distanceToSegment_f64_def dist2_f64_def Let_def fsub_def fmin_def fmax_def decimal_literals sq11_roundings sq11_cell_0_0_roundings sq11_cell_0_0_coarse_roundings sq11_cell_0_0_inside_roundings sq11_cell_0_0_seg0_roundings)

lemma sq11_cell_0_0_clearance: "distanceToPolygonEdge_f64 \<lparr>p_x = Fin 5, p_y = Fin 5\<rparr> square10_f64 = Fin 5"
  by (simp add: distanceToPolygonEdge_f64_def square10_f64_def upt_rec_numeral Let_def fmin_def decimal_literals sq11_cell_0_0_seg0 sq11_cell_0_0_seg1 sq11_cell_0_0_seg2 sq11_cell_0_0_seg3)

lemma sq11_cell_0_0_strict: "strictCheck_f64 square10_f64 (Fin 1) \<lparr>p_x = Fin 5, p_y = Fin 5\<rparr> = True"
  by (simp add: strictCheck_f64_def sq11_cell_0_0_inside sq11_cell_0_0_clearance fge_def fle_def)

lemma sq11_cell_0_0_id: "circle_id_f64 (Fin 0) (Fin 0) (Fin 0) = ''0-0-0''"
  by code_simp


lemma sq11_cell_0_0_unfiltered: "cell_f64 noCoarse square10_f64 (Fin 1) (Fin 1) (Fin 0, Fin 0, Fin 0) 0 0 = Some \<lparr>c_x64 = Fin 5, c_y64 = Fin 5, c_r64 = Fin 1, c_id64 = ''0-0-0''\<rparr>"
  by (simp add: cell_f64_def cellCircle_f64_def noCoarse_def sq11_cell_0_0_point sq11_cell_0_0_coarse sq11_cell_0_0_strict sq11_cell_0_0_id)

subsection \<open>sq10\<close>

lemma sq10_roundings:
  "rnd 2 = Fin 2"
  "fsqrt (Fin 3) = Fin (3900231685776981 / 2251799813685248)"
  "rnd (3900231685776981 / 1125899906842624) = Fin (3900231685776981 / 1125899906842624)"
  "rnd (3900231685776981 / 2251799813685248) = Fin (3900231685776981 / 2251799813685248)"
  "rnd 10 = Fin 10"
  "rnd 100 = Fin 100"
  "rnd 200 = Fin 200"
  "fsqrt (Fin 200) = Fin (124395540479019 / 8796093022208)"
  "rnd 5 = Fin 5"
  "rnd (124395540479019 / 17592186044416) = Fin (124395540479019 / 17592186044416)"
  "rnd (176855943800711 / 10133099161583616) = Fin (5030569068109113 / 288230376151711744)"
  "rnd 1 = Fin 1"
proof -
  show "rnd 2 = Fin 2"
    using rnd_normal [of "2" "- 51"] by (simp add: scale2_def rne_def Let_def)
  show "fsqrt (Fin 3) = Fin (3900231685776981 / 2251799813685248)"
    using fsqrt_normal [of "7800463371553962" "- 52" "3"] by (simp add: scale2_def power2_eq_square)
  show "rnd (3900231685776981 / 1125899906842624) = Fin (3900231685776981 / 1125899906842624)"
    using rnd_normal [of "3900231685776981 / 1125899906842624" "- 51"] by (simp add: scale2_def rne_def Let_def)
  show "rnd (3900231685776981 / 2251799813685248) = Fin (3900231685776981 / 2251799813685248)"
    using rnd_normal [of "3900231685776981 / 2251799813685248" "- 52"] by (simp add: scale2_def rne_def Let_def)
  show "rnd 10 = Fin 10"
    using rnd_normal [of "10" "- 49"] by (simp add: scale2_def rne_def Let_def)
  show "rnd 100 = Fin 100"
    using rnd_normal [of "100" "- 46"] by (simp add: scale2_def rne_def Let_def)
  show "rnd 200 = Fin 200"
    using rnd_normal [of "200" "- 45"] by (simp add: scale2_def rne_def Let_def)
  show "fsqrt (Fin 200) = Fin (124395540479019 / 8796093022208)"
    using fsqrt_normal [of "7961314590657216" "- 49" "200"] by (simp add: scale2_def power2_eq_square)
  show "rnd 5 = Fin 5"
    using rnd_normal [of "5" "- 50"] by (simp add: scale2_def rne_def Let_def)
  show "rnd (124395540479019 / 17592186044416) = Fin (124395540479019 / 17592186044416)"
    using rnd_normal [of "124395540479019 / 17592186044416" "- 50"] by (simp add: scale2_def rne_def Let_def)
  show "rnd (176855943800711 / 10133099161583616) = Fin (5030569068109113 / 288230376151711744)"
    using rnd_normal [of "176855943800711 / 10133099161583616" "- 58"] by (simp add: scale2_def rne_def Let_def)
  show "rnd 1 = Fin 1"
    using rnd_normal [of "1" "- 52"] by (simp add: scale2_def rne_def Let_def)
qed

lemma sq10_bounds: "getBoundingBox_f64 square10_f64 = \<lparr>minX64 = Fin 0, minY64 = Fin 0, maxX64 = Fin 10, maxY64 = Fin 10\<rparr>"
  by (simp add: getBoundingBox_f64_def square10_f64_def fmin_def fmax_def decimal_literals)

lemma sq10_pitch: "pitch_f64 (Fin 1) (Fin 0) = Fin 2"
  by (simp add: pitch_f64_def decimal_literals sq10_roundings)

lemma sq10_rowHeight: "rowHeight_f64 (Fin 1) (Fin 0) = Fin (3900231685776981 / 2251799813685248)"
  by (simp add: rowHeight_f64_def sq10_pitch decimal_literals sq10_roundings)

lemma sq10_center: "centerX_f64 square10_f64 = Fin 5" "centerY_f64 square10_f64 = Fin 5"
  by (simp_all add: centerX_f64_def centerY_f64_def sq10_bounds decimal_literals sq10_roundings)




lemma sq10_angle0: "fmul (Fin 0) (fdiv Math_PI (Fin 180)) = Fin 0" "Math_cos (Fin 0) = Fin 1" "Math_sin (Fin 0) = Fin 0"
  by (simp_all add: Math_PI_def decimal_literals sq10_roundings)

lemma sq10_cell_m2_m2_roundings:
  "rnd (- 4) = Fin (- 4)"
  "rnd (- (3900231685776981 / 1125899906842624)) = Fin (- (3900231685776981 / 1125899906842624))"
  "rnd (1729267848436139 / 1125899906842624) = Fin (1729267848436139 / 1125899906842624)"
proof -
  show "rnd (- 4) = Fin (- 4)"
    using rnd_normal [of "- 4" "- 50"] by (simp add: scale2_def rne_def Let_def)
  show "rnd (- (3900231685776981 / 1125899906842624)) = Fin (- (3900231685776981 / 1125899906842624))"
    using rnd_normal [of "- (3900231685776981 / 1125899906842624)" "- 51"] by (simp add: scale2_def rne_def Let_def)
  show "rnd (1729267848436139 / 1125899906842624) = Fin (1729267848436139 / 1125899906842624)"
    using rnd_normal [of "1729267848436139 / 1125899906842624" "- 52"] by (simp add: scale2_def rne_def Let_def)
qed

lemma sq10_cell_m2_m2_point: "cellPoint_f64 square10_f64 (Fin 1) (Fin 0) (Fin 0, Fin 0, Fin 0) (- 2) (- 2) = \<lparr>p_x = Fin 1, p_y = Fin (1729267848436139 / 1125899906842624)\<rparr>"
  by (simp add: cellPoint_f64_def candidatePoint_f64_def Let_def sq10_angle0 sq10_pitch sq10_rowHeight sq10_center fsub_def trunc0_def decimal_literals sq10_roundings sq10_cell_m2_m2_roundings)

lemma sq10_cell_m2_m2_coarse_roundings:
  "rnd (- 1) = Fin (- 1)"
  "rnd 11 = Fin 11"
proof -
  show "rnd (- 1) = Fin (- 1)"
    using rnd_normal [of "- 1" "- 52"] by (simp add: scale2_def rne_def Let_def)
  show "rnd 11 = Fin 11"
    using rnd_normal [of "11" "- 49"] by (simp add: scale2_def rne_def Let_def)
qed

lemma sq10_cell_m2_m2_coarse: "outsideBounds_f64 (getBoundingBox_f64 square10_f64) (Fin 1) \<lparr>p_x = Fin 1, p_y = Fin (1729267848436139 / 1125899906842624)\<rparr> = False"
  by (simp add: outsideBounds_f64_def sq10_bounds fsub_def fgt_def decimal_literals sq10_roundings sq10_cell_m2_m2_roundings sq10_cell_m2_m2_coarse_roundings)

lemma sq10_cell_m2_m2_inside_roundings:
  "rnd (- 10) = Fin (- 10)"
  "rnd (- (8646339242180695 / 562949953421312)) = Fin (- (8646339242180695 / 562949953421312))"
  "rnd (- (9529731219990101 / 1125899906842624)) = Fin (- (2382432804997525 / 281474976710656))"
  "rnd (- (11912164024987625 / 140737488355328)) = Fin (- (1489020503123453 / 17592186044416))"
proof -
  show "rnd (- 10) = Fin (- 10)"
    using rnd_normal [of "- 10" "- 49"] by (simp add: scale2_def rne_def Let_def)
  show "rnd (- (8646339242180695 / 562949953421312)) = Fin (- (8646339242180695 / 562949953421312))"
    using rnd_normal [of "- (8646339242180695 / 562949953421312)" "- 49"] by (simp add: scale2_def rne_def Let_def)
  show "rnd (- (9529731219990101 / 1125899906842624)) = Fin (- (2382432804997525 / 281474976710656))"
    using rnd_normal [of "- (9529731219990101 / 1125899906842624)" "- 49"] by (simp add: scale2_def rne_def Let_def)
  show "rnd (- (11912164024987625 / 140737488355328)) = Fin (- (1489020503123453 / 17592186044416))"
    using rnd_normal [of "- (11912164024987625 / 140737488355328)" "- 46"] by (simp add: scale2_def rne_def Let_def)
qed

lemma sq10_cell_m2_m2_inside: "isPointInPolygon_f64 \<lparr>p_x = Fin 1, p_y = Fin (1729267848436139 / 1125899906842624)\<rparr> square10_f64 = True"
  by (simp add: isPointInPolygon_f64_def ray_step_f64_def intersect_f64_def square10_f64_def upt_rec_numeral fsub_def fgt_def decimal_literals sq10_roundings sq10_cell_m2_m2_roundings sq10_cell_m2_m2_coarse_roundings sq10_cell_m2_m2_inside_roundings)

lemma sq10_cell_m2_m2_seg0_roundings:
  "rnd (1 / 10) = Fin (3602879701896397 / 36028797018963968)"
  "rnd (18014398509481985 / 18014398509481984) = Fin 1"
  "rnd (2990367291634953404107961227321 / 1267650600228229401496703205376) = Fin (5311959390814553 / 2251799813685248)"
  "rnd (5311959390814553 / 2251799813685248) = Fin (5311959390814553 / 2251799813685248)"
  "fsqrt (Fin (5311959390814553 / 2251799813685248)) = Fin (1729267848436139 / 1125899906842624)"
proof -
  show "rnd (1 / 10) = Fin (3602879701896397 / 36028797018963968)"
    using rnd_normal [of "1 / 10" "- 56"] by (simp add: scale2_def rne_def Let_def)
  show "rnd (18014398509481985 / 18014398509481984) = Fin 1"
    using rnd_normal [of "18014398509481985 / 18014398509481984" "- 52"] by (simp add: scale2_def rne_def Let_def)
  show "rnd (2990367291634953404107961227321 / 1267650600228229401496703205376) = Fin (5311959390814553 / 2251799813685248)"
    using rnd_normal [of "2990367291634953404107961227321 / 1267650600228229401496703205376" "- 51"] by (simp add: scale2_def rne_def Let_def)
  show "rnd (5311959390814553 / 2251799813685248) = Fin (5311959390814553 / 2251799813685248)"
    using rnd_normal [of "5311959390814553 / 2251799813685248" "- 51"] by (simp add: scale2_def rne_def Let_def)
  show "fsqrt (Fin (5311959390814553 / 2251799813685248)) = Fin (1729267848436139 / 1125899906842624)"
    using fsqrt_normal [of "6917071393744556" "- 52" "5311959390814553 / 2251799813685248"] by (simp add: scale2_def power2_eq_square)
qed

lemma sq10_cell_m2_m2_seg0: "distanceToSegment_f64 \<lparr>p_x = Fin 1, p_y = Fin (1729267848436139 / 1125899906842624)\<rparr> \<lparr>p_x = Fin 0, p_y = Fin 0\<rparr> \<lparr>p_x = Fin 10, p_y = Fin 0\<rparr> = Fin (1729267848436139 / 1125899906842624)"
  by (simp add: distanceToSegment_f64_def dist2_f64_def Let_def fsub_def fmin_def fmax_def decimal_literals sq10_roundings sq10_cell_m2_m2_roundings sq10_cell_m2_m2_coarse_roundings sq10_cell_m2_m2_inside_roundings sq10_cell_m2_m2_seg0_roundings)

lemma sq10_cell_m2_m2_seg1_roundings:
  "rnd (- 9) = Fin (- 9)"
  "rnd (8646339242180695 / 562949953421312) = Fin (8646339242180695 / 562949953421312)"
  "rnd (1729267848436139 / 11258999068426240) = Fin (5533657114995645 / 36028797018963968)"
  "rnd (27668285574978225 / 18014398509481984) = Fin (1729267848436139 / 1125899906842624)"
  "rnd 81 = Fin 81"
  "fsqrt (Fin 81) = Fin 9"
proof -
  show "rnd (- 9) = Fin (- 9)"
    using rnd_normal [of "- 9" "- 49"] by (simp add: scale2_def rne_def Let_def)
  show "rnd (8646339242180695 / 562949953421312) = Fin (8646339242180695 / 562949953421312)"
    using rnd_normal [of "8646339242180695 / 562949953421312" "- 49"] by (simp add: scale2_def rne_def Let_def)
  show "rnd (1729267848436139 / 11258999068426240) = Fin (5533657114995645 / 36028797018963968)"
    using rnd_normal [of "1729267848436139 / 11258999068426240" "- 55"] by (simp add: scale2_def rne_def Let_def)
  show "rnd (27668285574978225 / 18014398509481984) = Fin (1729267848436139 / 1125899906842624)"
    using rnd_normal [of "27668285574978225 / 18014398509481984" "- 52"] by (simp add: scale2_def rne_def Let_def)
  show "rnd 81 = Fin 81"
    using rnd_normal [of "81" "- 46"] by (simp add: scale2_def rne_def Let_def)
  show "fsqrt (Fin 81) = Fin 9"
    using fsqrt_normal [of "5066549580791808" "- 49" "81"] by (simp add: scale2_def power2_eq_square)
qed

lemma sq10_cell_m2_m2_seg1: "distanceToSegment_f64 \<lparr>p_x = Fin 1, p_y = Fin (1729267848436139 / 1125899906842624)\<rparr> \<lparr>p_x = Fin 10, p_y = Fin 0\<rparr> \<lparr>p_x = Fin 10, p_y = Fin 10\<rparr> = Fin 9"
  by (simp add: distanceToSegment_f64_def dist2_f64_def Let_def fsub_def fmin_def fmax_def decimal_literals sq10_roundings sq10_cell_m2_m2_roundings sq10_cell_m2_m2_coarse_roundings sq10_cell_m2_m2_inside_roundings sq10_cell_m2_m2_seg0_roundings sq10_cell_m2_m2_seg1_roundings)

lemma sq10_cell_m2_m2_seg2_roundings:
  "rnd 90 = Fin 90"
  "rnd (9 / 10) = Fin (8106479329266893 / 9007199254740992)"
  "rnd (- (40532396646334465 / 4503599627370496)) = Fin (- 9)"
  "rnd (5675986070328374982615256125625 / 79228162514264337593543950336) = Fin (1260322084546045 / 17592186044416)"
  "rnd (1260322084546045 / 17592186044416) = Fin (1260322084546045 / 17592186044416)"
  "fsqrt (Fin (1260322084546045 / 17592186044416)) = Fin (2382432804997525 / 281474976710656)"
proof -
  show "rnd 90 = Fin 90"
    using rnd_normal [of "90" "- 46"] by (simp add: scale2_def rne_def Let_def)
  show "rnd (9 / 10) = Fin (8106479329266893 / 9007199254740992)"
    using rnd_normal [of "9 / 10" "- 53"] by (simp add: scale2_def rne_def Let_def)
  show "rnd (- (40532396646334465 / 4503599627370496)) = Fin (- 9)"
    using rnd_normal [of "- (40532396646334465 / 4503599627370496)" "- 49"] by (simp add: scale2_def rne_def Let_def)
  show "rnd (5675986070328374982615256125625 / 79228162514264337593543950336) = Fin (1260322084546045 / 17592186044416)"
    using rnd_normal [of "5675986070328374982615256125625 / 79228162514264337593543950336" "- 46"] by (simp add: scale2_def rne_def Let_def)
  show "rnd (1260322084546045 / 17592186044416) = Fin (1260322084546045 / 17592186044416)"
    using rnd_normal [of "1260322084546045 / 17592186044416" "- 46"] by (simp add: scale2_def rne_def Let_def)
  show "fsqrt (Fin (1260322084546045 / 17592186044416)) = Fin (2382432804997525 / 281474976710656)"
    using fsqrt_normal [of "4764865609995050" "- 49" "1260322084546045 / 17592186044416"] by (simp add: scale2_def power2_eq_square)
qed

lemma sq10_cell_m2_m2_seg2: "distanceToSegment_f64 \<lparr>p_x = Fin 1, p_y = Fin (1729267848436139 / 1125899906842624)\<rparr> \<lparr>p_x = Fin 10, p_y = Fin 10\<rparr> \<lparr>p_x = Fin 0, p_y = Fin 10\<rparr> = Fin (2382432804997525 / 281474976710656)"
  by (simp add: distanceToSegment_f64_def dist2_f64_def Let_def fsub_def fmin_def fmax_def decimal_literals sq10_roundings sq10_cell_m2_m2_roundings sq10_cell_m2_m2_coarse_roundings sq10_cell_m2_m2_inside_roundings sq10_cell_m2_m2_seg0_roundings sq10_cell_m2_m2_seg1_roundings sq10_cell_m2_m2_seg2_roundings)

lemma sq10_cell_m2_m2_seg3_roundings:
  "rnd (11912164024987625 / 140737488355328) = Fin (1489020503123453 / 17592186044416)"
  "rnd (1489020503123453 / 17592186044416) = Fin (1489020503123453 / 17592186044416)"
  "rnd (1489020503123453 / 1759218604441600) = Fin (7623784975992079 / 9007199254740992)"
  "rnd (- (38118924879960395 / 4503599627370496)) = Fin (- (4764865609995049 / 562949953421312))"
  "rnd (864633924218071 / 562949953421312) = Fin (864633924218071 / 562949953421312)"
  "rnd (- (3 / 1125899906842624)) = Fin (- (3 / 1125899906842624))"
  "rnd (9 / 1267650600228229401496703205376) = Fin (9 / 1267650600228229401496703205376)"
  "rnd (1267650600228229401496703205385 / 1267650600228229401496703205376) = Fin 1"
  "fsqrt (Fin 1) = Fin 1"
proof -
  show "rnd (11912164024987625 / 140737488355328) = Fin (1489020503123453 / 17592186044416)"
    using rnd_normal [of "11912164024987625 / 140737488355328" "- 46"] by (simp add: scale2_def rne_def Let_def)
  show "rnd (1489020503123453 / 17592186044416) = Fin (1489020503123453 / 17592186044416)"
    using rnd_normal [of "1489020503123453 / 17592186044416" "- 46"] by (simp add: scale2_def rne_def Let_def)
  show "rnd (1489020503123453 / 1759218604441600) = Fin (7623784975992079 / 9007199254740992)"
    using rnd_normal [of "1489020503123453 / 1759218604441600" "- 53"] by (simp add: scale2_def rne_def Let_def)
  show "rnd (- (38118924879960395 / 4503599627370496)) = Fin (- (4764865609995049 / 562949953421312))"
    using rnd_normal [of "- (38118924879960395 / 4503599627370496)" "- 49"] by (simp add: scale2_def rne_def Let_def)
  show "rnd (864633924218071 / 562949953421312) = Fin (864633924218071 / 562949953421312)"
    using rnd_normal [of "864633924218071 / 562949953421312" "- 52"] by (simp add: scale2_def rne_def Let_def)
  show "rnd (- (3 / 1125899906842624)) = Fin (- (3 / 1125899906842624))"
    using rnd_normal [of "- (3 / 1125899906842624)" "- 101"] by (simp add: scale2_def rne_def Let_def)
  show "rnd (9 / 1267650600228229401496703205376) = Fin (9 / 1267650600228229401496703205376)"
    using rnd_normal [of "9 / 1267650600228229401496703205376" "- 149"] by (simp add: scale2_def rne_def Let_def)
  show "rnd (1267650600228229401496703205385 / 1267650600228229401496703205376) = Fin 1"
    using rnd_normal [of "1267650600228229401496703205385 / 1267650600228229401496703205376" "- 52"] by (simp add: scale2_def rne_def Let_def)
  show "fsqrt (Fin 1) = Fin 1"
    using fsqrt_normal [of "4503599627370496" "- 52" "1"] by (simp add: scale2_def power2_eq_square)
qed

lemma sq10_cell_m2_m2_seg3: "distanceToSegment_f64 \<lparr>p_x = Fin 1, p_y = Fin (1729267848436139 / 1125899906842624)\<rparr> \<lparr>p_x = Fin 0, p_y = Fin 10\<rparr> \<lparr>p_x = Fin 0, p_y = Fin 0\<rparr> = Fin 1"
  by (simp add: distanceToSegment_f64_def dist2_f64_def Let_def fsub_def fmin_def fmax_def decimal_literals sq10_roundings sq10_cell_m2_m2_roundings sq10_cell_m2_m2_coarse_roundings sq10_cell_m2_m2_inside_roundings sq10_cell_m2_m2_seg0_roundings sq10_cell_m2_m2_seg1_roundings sq10_cell_m2_m2_seg2_roundings sq10_cell_m2_m2_seg3_roundings)

lemma sq10_cell_m2_m2_clearance: "distanceToPolygonEdge_f64 \<lparr>p_x = Fin 1, p_y = Fin (1729267848436139 / 1125899906842624)\<rparr> square10_f64 = Fin 1"
  by (simp add: distanceToPolygonEdge_f64_def square10_f64_def upt_rec_numeral Let_def fmin_def decimal_literals sq10_cell_m2_m2_seg0 sq10_cell_m2_m2_seg1 sq10_cell_m2_m2_seg2 sq10_cell_m2_m2_seg3)

lemma sq10_cell_m2_m2_strict: "strictCheck_f64 square10_f64 (Fin 1) \<lparr>p_x = Fin 1, p_y = Fin (1729267848436139 / 1125899906842624)\<rparr> = True"
  by (simp add: strictCheck_f64_def sq10_cell_m2_m2_inside sq10_cell_m2_m2_clearance fge_def fle_def)

lemma sq10_cell_m2_m2_id: "circle_id_f64 (Fin 0) (Fin (- 2)) (Fin (- 2)) = ''0--2--2''"
  by code_simp


lemma sq10_cell_m2_m2_unfiltered: "cell_f64 noCoarse square10_f64 (Fin 1) (Fin 0) (Fin 0, Fin 0, Fin 0) (- 2) (- 2) = Some \<lparr>c_x64 = Fin 1, c_y64 = Fin (1729267848436139 / 1125899906842624), c_r64 = Fin 1, c_id64 = ''0--2--2''\<rparr>"
  by (simp add: cell_f64_def cellCircle_f64_def noCoarse_def sq10_cell_m2_m2_point sq10_cell_m2_m2_coarse sq10_cell_m2_m2_strict sq10_cell_m2_m2_id)

lemma sq10_cell_m1_m1_roundings:
  "rnd (- 2) = Fin (- 2)"
  "rnd (- 3) = Fin (- 3)"
  "rnd (- (3900231685776981 / 2251799813685248)) = Fin (- (3900231685776981 / 2251799813685248))"
  "rnd (7358767382649259 / 2251799813685248) = Fin (7358767382649259 / 2251799813685248)"
proof -
  show "rnd (- 2) = Fin (- 2)"
    using rnd_normal [of "- 2" "- 51"] by (simp add: scale2_def rne_def Let_def)
  show "rnd (- 3) = Fin (- 3)"
    using rnd_normal [of "- 3" "- 51"] by (simp add: scale2_def rne_def Let_def)
  show "rnd (- (3900231685776981 / 2251799813685248)) = Fin (- (3900231685776981 / 2251799813685248))"
    using rnd_normal [of "- (3900231685776981 / 2251799813685248)" "- 52"] by (simp add: scale2_def rne_def Let_def)
  show "rnd (7358767382649259 / 2251799813685248) = Fin (7358767382649259 / 2251799813685248)"
    using rnd_normal [of "7358767382649259 / 2251799813685248" "- 51"] by (simp add: scale2_def rne_def Let_def)
qed

lemma sq10_cell_m1_m1_point: "cellPoint_f64 square10_f64 (Fin 1) (Fin 0) (Fin 0, Fin 0, Fin 0) (- 1) (- 1) = \<lparr>p_x = Fin 2, p_y = Fin (7358767382649259 / 2251799813685248)\<rparr>"
  by (simp add: cellPoint_f64_def candidatePoint_f64_def Let_def sq10_angle0 sq10_pitch sq10_rowHeight sq10_center fsub_def trunc0_def decimal_literals sq10_roundings sq10_cell_m2_m2_roundings sq10_cell_m2_m2_coarse_roundings sq10_cell_m2_m2_inside_roundings sq10_cell_m2_m2_seg0_roundings sq10_cell_m2_m2_seg1_roundings sq10_cell_m2_m2_seg2_roundings sq10_cell_m2_m2_seg3_roundings sq10_cell_m1_m1_roundings)

lemma sq10_cell_m1_m1_coarse: "outsideBounds_f64 (getBoundingBox_f64 square10_f64) (Fin 1) \<lparr>p_x = Fin 2, p_y = Fin (7358767382649259 / 2251799813685248)\<rparr> = False"
  by (simp add: outsideBounds_f64_def sq10_bounds fsub_def fgt_def decimal_literals sq10_roundings sq10_cell_m2_m2_roundings sq10_cell_m2_m2_coarse_roundings sq10_cell_m2_m2_inside_roundings sq10_cell_m2_m2_seg0_roundings sq10_cell_m2_m2_seg1_roundings sq10_cell_m2_m2_seg2_roundings sq10_cell_m2_m2_seg3_roundings sq10_cell_m1_m1_roundings)

lemma sq10_cell_m1_m1_inside_roundings:
  "rnd (- (36793836913246295 / 1125899906842624)) = Fin (- (4599229614155787 / 140737488355328))"
  "rnd (- (15159230754203221 / 2251799813685248)) = Fin (- (3789807688550805 / 562949953421312))"
  "rnd (- (18949038442754025 / 281474976710656)) = Fin (- (2368629805344253 / 35184372088832))"
proof -
  show "rnd (- (36793836913246295 / 1125899906842624)) = Fin (- (4599229614155787 / 140737488355328))"
    using rnd_normal [of "- (36793836913246295 / 1125899906842624)" "- 47"] by (simp add: scale2_def rne_def Let_def)
  show "rnd (- (15159230754203221 / 2251799813685248)) = Fin (- (3789807688550805 / 562949953421312))"
    using rnd_normal [of "- (15159230754203221 / 2251799813685248)" "- 50"] by (simp add: scale2_def rne_def Let_def)
  show "rnd (- (18949038442754025 / 281474976710656)) = Fin (- (2368629805344253 / 35184372088832))"
    using rnd_normal [of "- (18949038442754025 / 281474976710656)" "- 46"] by (simp add: scale2_def rne_def Let_def)
qed

lemma sq10_cell_m1_m1_inside: "isPointInPolygon_f64 \<lparr>p_x = Fin 2, p_y = Fin (7358767382649259 / 2251799813685248)\<rparr> square10_f64 = True"
  by (simp add: isPointInPolygon_f64_def ray_step_f64_def intersect_f64_def square10_f64_def upt_rec_numeral fsub_def fgt_def decimal_literals sq10_roundings sq10_cell_m2_m2_roundings sq10_cell_m2_m2_coarse_roundings sq10_cell_m2_m2_inside_roundings sq10_cell_m2_m2_seg0_roundings sq10_cell_m2_m2_seg1_roundings sq10_cell_m2_m2_seg2_roundings sq10_cell_m2_m2_seg3_roundings sq10_cell_m1_m1_roundings sq10_cell_m1_m1_inside_roundings)

lemma sq10_cell_m1_m1_seg0_roundings:
  "rnd 20 = Fin 20"
  "rnd (1 / 5) = Fin (3602879701896397 / 18014398509481984)"
  "rnd (18014398509481985 / 9007199254740992) = Fin 2"
  "rnd (54151457391942625827761413249081 / 5070602400912917605986812821504) = Fin (6012019481354283 / 562949953421312)"
  "rnd (6012019481354283 / 562949953421312) = Fin (6012019481354283 / 562949953421312)"
  "fsqrt (Fin (6012019481354283 / 562949953421312)) = Fin (7358767382649259 / 2251799813685248)"
proof -
  show "rnd 20 = Fin 20"
    using rnd_normal [of "20" "- 48"] by (simp add: scale2_def rne_def Let_def)
  show "rnd (1 / 5) = Fin (3602879701896397 / 18014398509481984)"
    using rnd_normal [of "1 / 5" "- 55"] by (simp add: scale2_def rne_def Let_def)
  show "rnd (18014398509481985 / 9007199254740992) = Fin 2"
    using rnd_normal [of "18014398509481985 / 9007199254740992" "- 51"] by (simp add: scale2_def rne_def Let_def)
  show "rnd (54151457391942625827761413249081 / 5070602400912917605986812821504) = Fin (6012019481354283 / 562949953421312)"
    using rnd_normal [of "54151457391942625827761413249081 / 5070602400912917605986812821504" "- 49"] by (simp add: scale2_def rne_def Let_def)
  show "rnd (6012019481354283 / 562949953421312) = Fin (6012019481354283 / 562949953421312)"
    using rnd_normal [of "6012019481354283 / 562949953421312" "- 49"] by (simp add: scale2_def rne_def Let_def)
  show "fsqrt (Fin (6012019481354283 / 562949953421312)) = Fin (7358767382649259 / 2251799813685248)"
    using fsqrt_normal [of "7358767382649259" "- 51" "6012019481354283 / 562949953421312"] by (simp add: scale2_def power2_eq_square)
qed

lemma sq10_cell_m1_m1_seg0: "distanceToSegment_f64 \<lparr>p_x = Fin 2, p_y = Fin (7358767382649259 / 2251799813685248)\<rparr> \<lparr>p_x = Fin 0, p_y = Fin 0\<rparr> \<lparr>p_x = Fin 10, p_y = Fin 0\<rparr> = Fin (7358767382649259 / 2251799813685248)"
  by (simp add: distanceToSegment_f64_def dist2_f64_def Let_def fsub_def fmin_def fmax_def decimal_literals sq10_roundings sq10_cell_m2_m2_roundings sq10_cell_m2_m2_coarse_roundings sq10_cell_m2_m2_inside_roundings sq10_cell_m2_m2_seg0_roundings sq10_cell_m2_m2_seg1_roundings sq10_cell_m2_m2_seg2_roundings sq10_cell_m2_m2_seg3_roundings sq10_cell_m1_m1_roundings sq10_cell_m1_m1_inside_roundings sq10_cell_m1_m1_seg0_roundings)

lemma sq10_cell_m1_m1_seg1_roundings:
  "rnd (- 8) = Fin (- 8)"
  "rnd (36793836913246295 / 1125899906842624) = Fin (4599229614155787 / 140737488355328)"
  "rnd (4599229614155787 / 140737488355328) = Fin (4599229614155787 / 140737488355328)"
  "rnd (4599229614155787 / 14073748835532800) = Fin (5887013906119407 / 18014398509481984)"
  "rnd (29435069530597035 / 9007199254740992) = Fin (7358767382649259 / 2251799813685248)"
  "rnd 64 = Fin 64"
  "fsqrt (Fin 64) = Fin 8"
proof -
  show "rnd (- 8) = Fin (- 8)"
    using rnd_normal [of "- 8" "- 49"] by (simp add: scale2_def rne_def Let_def)
  show "rnd (36793836913246295 / 1125899906842624) = Fin (4599229614155787 / 140737488355328)"
    using rnd_normal [of "36793836913246295 / 1125899906842624" "- 47"] by (simp add: scale2_def rne_def Let_def)
  show "rnd (4599229614155787 / 140737488355328) = Fin (4599229614155787 / 140737488355328)"
    using rnd_normal [of "4599229614155787 / 140737488355328" "- 47"] by (simp add: scale2_def rne_def Let_def)
  show "rnd (4599229614155787 / 14073748835532800) = Fin (5887013906119407 / 18014398509481984)"
    using rnd_normal [of "4599229614155787 / 14073748835532800" "- 54"] by (simp add: scale2_def rne_def Let_def)
  show "rnd (29435069530597035 / 9007199254740992) = Fin (7358767382649259 / 2251799813685248)"
    using rnd_normal [of "29435069530597035 / 9007199254740992" "- 51"] by (simp add: scale2_def rne_def Let_def)
  show "rnd 64 = Fin 64"
    using rnd_normal [of "64" "- 46"] by (simp add: scale2_def rne_def Let_def)
  show "fsqrt (Fin 64) = Fin 8"
    using fsqrt_normal [of "4503599627370496" "- 49" "64"] by (simp add: scale2_def power2_eq_square)
qed

lemma sq10_cell_m1_m1_seg1: "distanceToSegment_f64 \<lparr>p_x = Fin 2, p_y = Fin (7358767382649259 / 2251799813685248)\<rparr> \<lparr>p_x = Fin 10, p_y = Fin 0\<rparr> \<lparr>p_x = Fin 10, p_y = Fin 10\<rparr> = Fin 8"
  by (simp add: distanceToSegment_f64_def dist2_f64_def Let_def fsub_def fmin_def fmax_def decimal_literals sq10_roundings sq10_cell_m2_m2_roundings sq10_cell_m2_m2_coarse_roundings sq10_cell_m2_m2_inside_roundings sq10_cell_m2_m2_seg0_roundings sq10_cell_m2_m2_seg1_roundings sq10_cell_m2_m2_seg2_roundings sq10_cell_m2_m2_seg3_roundings sq10_cell_m1_m1_roundings sq10_cell_m1_m1_inside_roundings sq10_cell_m1_m1_seg0_roundings sq10_cell_m1_m1_seg1_roundings)

lemma sq10_cell_m1_m1_seg2_roundings:
  "rnd 80 = Fin 80"
  "rnd (4 / 5) = Fin (3602879701896397 / 4503599627370496)"
  "rnd (- (18014398509481985 / 2251799813685248)) = Fin (- 8)"
  "rnd (14362642316198795391481066148025 / 316912650057057350374175801344) = Fin (1594573619389949 / 35184372088832)"
  "rnd (1594573619389949 / 35184372088832) = Fin (1594573619389949 / 35184372088832)"
  "fsqrt (Fin (1594573619389949 / 35184372088832)) = Fin (3789807688550805 / 562949953421312)"
proof -
  show "rnd 80 = Fin 80"
    using rnd_normal [of "80" "- 46"] by (simp add: scale2_def rne_def Let_def)
  show "rnd (4 / 5) = Fin (3602879701896397 / 4503599627370496)"
    using rnd_normal [of "4 / 5" "- 53"] by (simp add: scale2_def rne_def Let_def)
  show "rnd (- (18014398509481985 / 2251799813685248)) = Fin (- 8)"
    using rnd_normal [of "- (18014398509481985 / 2251799813685248)" "- 49"] by (simp add: scale2_def rne_def Let_def)
  show "rnd (14362642316198795391481066148025 / 316912650057057350374175801344) = Fin (1594573619389949 / 35184372088832)"
    using rnd_normal [of "14362642316198795391481066148025 / 316912650057057350374175801344" "- 47"] by (simp add: scale2_def rne_def Let_def)
  show "rnd (1594573619389949 / 35184372088832) = Fin (1594573619389949 / 35184372088832)"
    using rnd_normal [of "1594573619389949 / 35184372088832" "- 47"] by (simp add: scale2_def rne_def Let_def)
  show "fsqrt (Fin (1594573619389949 / 35184372088832)) = Fin (3789807688550805 / 562949953421312)"
    using fsqrt_normal [of "7579615377101610" "- 50" "1594573619389949 / 35184372088832"] by (simp add: scale2_def power2_eq_square)
qed

lemma sq10_cell_m1_m1_seg2: "distanceToSegment_f64 \<lparr>p_x = Fin 2, p_y = Fin (7358767382649259 / 2251799813685248)\<rparr> \<lparr>p_x = Fin 10, p_y = Fin 10\<rparr> \<lparr>p_x = Fin 0, p_y = Fin 10\<rparr> = Fin (3789807688550805 / 562949953421312)"
  by (simp add: distanceToSegment_f64_def dist2_f64_def Let_def fsub_def fmin_def fmax_def decimal_literals sq10_roundings sq10_cell_m2_m2_roundings sq10_cell_m2_m2_coarse_roundings sq10_cell_m2_m2_inside_roundings sq10_cell_m2_m2_seg0_roundings sq10_cell_m2_m2_seg1_roundings sq10_cell_m2_m2_seg2_roundings sq10_cell_m2_m2_seg3_roundings sq10_cell_m1_m1_roundings sq10_cell_m1_m1_inside_roundings sq10_cell_m1_m1_seg0_roundings sq10_cell_m1_m1_seg1_roundings sq10_cell_m1_m1_seg2_roundings)

lemma sq10_cell_m1_m1_seg3_roundings:
  "rnd (18949038442754025 / 281474976710656) = Fin (2368629805344253 / 35184372088832)"
  "rnd (2368629805344253 / 35184372088832) = Fin (2368629805344253 / 35184372088832)"
  "rnd (2368629805344253 / 3518437208883200) = Fin (757961537710161 / 1125899906842624)"
  "rnd (- (3789807688550805 / 562949953421312)) = Fin (- (3789807688550805 / 562949953421312))"
  "rnd (1839691845662315 / 562949953421312) = Fin (1839691845662315 / 562949953421312)"
  "rnd (- (1 / 2251799813685248)) = Fin (- (1 / 2251799813685248))"
  "rnd 4 = Fin 4"
  "rnd (1 / 5070602400912917605986812821504) = Fin (1 / 5070602400912917605986812821504)"
  "rnd (20282409603651670423947251286017 / 5070602400912917605986812821504) = Fin 4"
  "fsqrt (Fin 4) = Fin 2"
proof -
  show "rnd (18949038442754025 / 281474976710656) = Fin (2368629805344253 / 35184372088832)"
    using rnd_normal [of "18949038442754025 / 281474976710656" "- 46"] by (simp add: scale2_def rne_def Let_def)
  show "rnd (2368629805344253 / 35184372088832) = Fin (2368629805344253 / 35184372088832)"
    using rnd_normal [of "2368629805344253 / 35184372088832" "- 46"] by (simp add: scale2_def rne_def Let_def)
  show "rnd (2368629805344253 / 3518437208883200) = Fin (757961537710161 / 1125899906842624)"
    using rnd_normal [of "2368629805344253 / 3518437208883200" "- 53"] by (simp add: scale2_def rne_def Let_def)
  show "rnd (- (3789807688550805 / 562949953421312)) = Fin (- (3789807688550805 / 562949953421312))"
    using rnd_normal [of "- (3789807688550805 / 562949953421312)" "- 50"] by (simp add: scale2_def rne_def Let_def)
  show "rnd (1839691845662315 / 562949953421312) = Fin (1839691845662315 / 562949953421312)"
    using rnd_normal [of "1839691845662315 / 562949953421312" "- 51"] by (simp add: scale2_def rne_def Let_def)
  show "rnd (- (1 / 2251799813685248)) = Fin (- (1 / 2251799813685248))"
    using rnd_normal [of "- (1 / 2251799813685248)" "- 103"] by (simp add: scale2_def rne_def Let_def)
  show "rnd 4 = Fin 4"
    using rnd_normal [of "4" "- 50"] by (simp add: scale2_def rne_def Let_def)
  show "rnd (1 / 5070602400912917605986812821504) = Fin (1 / 5070602400912917605986812821504)"
    using rnd_normal [of "1 / 5070602400912917605986812821504" "- 154"] by (simp add: scale2_def rne_def Let_def)
  show "rnd (20282409603651670423947251286017 / 5070602400912917605986812821504) = Fin 4"
    using rnd_normal [of "20282409603651670423947251286017 / 5070602400912917605986812821504" "- 50"] by (simp add: scale2_def rne_def Let_def)
  show "fsqrt (Fin 4) = Fin 2"
    using fsqrt_normal [of "4503599627370496" "- 51" "4"] by (simp add: scale2_def power2_eq_square)
qed

lemma sq10_cell_m1_m1_seg3: "distanceToSegment_f64 \<lparr>p_x = Fin 2, p_y = Fin (7358767382649259 / 2251799813685248)\<rparr> \<lparr>p_x = Fin 0, p_y = Fin 10\<rparr> \<lparr>p_x = Fin 0, p_y = Fin 0\<rparr> = Fin 2"
  by (simp add: distanceToSegment_f64_def dist2_f64_def Let_def fsub_def fmin_def fmax_def decimal_literals sq10_roundings sq10_cell_m2_m2_roundings sq10_cell_m2_m2_coarse_roundings sq10_cell_m2_m2_inside_roundings sq10_cell_m2_m2_seg0_roundings sq10_cell_m2_m2_seg1_roundings sq10_cell_m2_m2_seg2_roundings sq10_cell_m2_m2_seg3_roundings sq10_cell_m1_m1_roundings sq10_cell_m1_m1_inside_roundings sq10_cell_m1_m1_seg0_roundings sq10_cell_m1_m1_seg1_roundings sq10_cell_m1_m1_seg2_roundings sq10_cell_m1_m1_seg3_roundings)

lemma sq10_cell_m1_m1_clearance: "distanceToPolygonEdge_f64 \<lparr>p_x = Fin 2, p_y = Fin (7358767382649259 / 2251799813685248)\<rparr> square10_f64 = Fin 2"
  by (simp add: distanceToPolygonEdge_f64_def square10_f64_def upt_rec_numeral Let_def fmin_def decimal_literals sq10_cell_m1_m1_seg0 sq10_cell_m1_m1_seg1 sq10_cell_m1_m1_seg2 sq10_cell_m1_m1_seg3)

lemma sq10_cell_m1_m1_strict: "strictCheck_f64 square10_f64 (Fin 1) \<lparr>p_x = Fin 2, p_y = Fin (7358767382649259 / 2251799813685248)\<rparr> = True"
  by (simp add: strictCheck_f64_def sq10_cell_m1_m1_inside sq10_cell_m1_m1_clearance fge_def fle_def)

lemma sq10_cell_m1_m1_id: "circle_id_f64 (Fin 0) (Fin (- 1)) (Fin (- 1)) = ''0--1--1''"
  by code_simp


lemma sq10_cell_m1_m1_unfiltered: "cell_f64 noCoarse square10_f64 (Fin 1) (Fin 0) (Fin 0, Fin 0, Fin 0) (- 1) (- 1) = Some \<lparr>c_x64 = Fin 2, c_y64 = Fin (7358767382649259 / 2251799813685248), c_r64 = Fin 1, c_id64 = ''0--1--1''\<rparr>"
  by (simp add: cell_f64_def cellCircle_f64_def noCoarse_def sq10_cell_m1_m1_point sq10_cell_m1_m1_coarse sq10_cell_m1_m1_strict sq10_cell_m1_m1_id)

lemma sq10_cell_0_0_point: "cellPoint_f64 square10_f64 (Fin 1) (Fin 0) (Fin 0, Fin 0, Fin 0) 0 0 = \<lparr>p_x = Fin 5, p_y = Fin 5\<rparr>"
  by (simp add: cellPoint_f64_def candidatePoint_f64_def Let_def sq10_angle0 sq10_pitch sq10_rowHeight sq10_center fsub_def trunc0_def decimal_literals sq10_roundings sq10_cell_m2_m2_roundings sq10_cell_m2_m2_coarse_roundings sq10_cell_m2_m2_inside_roundings sq10_cell_m2_m2_seg0_roundings sq10_cell_m2_m2_seg1_roundings sq10_cell_m2_m2_seg2_roundings sq10_cell_m2_m2_seg3_roundings sq10_cell_m1_m1_roundings sq10_cell_m1_m1_inside_roundings sq10_cell_m1_m1_seg0_roundings sq10_cell_m1_m1_seg1_roundings sq10_cell_m1_m1_seg2_roundings sq10_cell_m1_m1_seg3_roundings)

lemma sq10_cell_0_0_coarse: "outsideBounds_f64 (getBoundingBox_f64 square10_f64) (Fin 1) \<lparr>p_x = Fin 5, p_y = Fin 5\<rparr> = False"
  by (simp add: outsideBounds_f64_def sq10_bounds fsub_def fgt_def decimal_literals sq10_roundings sq10_cell_m2_m2_roundings sq10_cell_m2_m2_coarse_roundings sq10_cell_m2_m2_inside_roundings sq10_cell_m2_m2_seg0_roundings sq10_cell_m2_m2_seg1_roundings sq10_cell_m2_m2_seg2_roundings sq10_cell_m2_m2_seg3_roundings sq10_cell_m1_m1_roundings sq10_cell_m1_m1_inside_roundings sq10_cell_m1_m1_seg0_roundings sq10_cell_m1_m1_seg1_roundings sq10_cell_m1_m1_seg2_roundings sq10_cell_m1_m1_seg3_roundings)

lemma sq10_cell_0_0_inside_roundings:
  "rnd (- 50) = Fin (- 50)"
  "rnd (- 5) = Fin (- 5)"
proof -
  show "rnd (- 50) = Fin (- 50)"
    using rnd_normal [of "- 50" "- 47"] by (simp add: scale2_def rne_def Let_def)
  show "rnd (- 5) = Fin (- 5)"
    using rnd_normal [of "- 5" "- 50"] by (simp add: scale2_def rne_def Let_def)
qed

lemma sq10_cell_0_0_inside: "isPointInPolygon_f64 \<lparr>p_x = Fin 5, p_y = Fin 5\<rparr> square10_f64 = True"
  by (simp add: isPointInPolygon_f64_def ray_step_f64_def intersect_f64_def square10_f64_def upt_rec_numeral fsub_def fgt_def decimal_literals sq10_roundings sq10_cell_m2_m2_roundings sq10_cell_m2_m2_coarse_roundings sq10_cell_m2_m2_inside_roundings sq10_cell_m2_m2_seg0_roundings sq10_cell_m2_m2_seg1_roundings sq10_cell_m2_m2_seg2_roundings sq10_cell_m2_m2_seg3_roundings sq10_cell_m1_m1_roundings sq10_cell_m1_m1_inside_roundings sq10_cell_m1_m1_seg0_roundings sq10_cell_m1_m1_seg1_roundings sq10_cell_m1_m1_seg2_roundings sq10_cell_m1_m1_seg3_roundings sq10_cell_0_0_inside_roundings)

lemma sq10_cell_0_0_seg0_roundings:
  "rnd 50 = Fin 50"
  "rnd (1 / 2) = Fin (1 / 2)"
  "rnd 25 = Fin 25"
  "fsqrt (Fin 25) = Fin 5"
proof -
  show "rnd 50 = Fin 50"
    using rnd_normal [of "50" "- 47"] by (simp add: scale2_def rne_def Let_def)
  show "rnd (1 / 2) = Fin (1 / 2)"
    using rnd_normal [of "1 / 2" "- 53"] by (simp add: scale2_def rne_def Let_def)
  show "rnd 25 = Fin 25"
    using rnd_normal [of "25" "- 48"] by (simp add: scale2_def rne_def Let_def)
  show "fsqrt (Fin 25) = Fin 5"
    using fsqrt_normal [of "5629499534213120" "- 50" "25"] by (simp add: scale2_def power2_eq_square)
qed

lemma sq10_cell_0_0_seg0: "distanceToSegment_f64 \<lparr>p_x = Fin 5, p_y = Fin 5\<rparr> \<lparr>p_x = Fin 0, p_y = Fin 0\<rparr> \<lparr>p_x = Fin 10, p_y = Fin 0\<rparr> = Fin 5"
  by (simp add: distanceToSegment_f64_def dist2_f64_def Let_def fsub_def fmin_def fmax_def decimal_literals sq10_roundings sq10_cell_m2_m2_roundings sq10_cell_m2_m2_coarse_roundings sq10_cell_m2_m2_inside_roundings sq10_cell_m2_m2_seg0_roundings sq10_cell_m2_m2_seg1_roundings sq10_cell_m2_m2_seg2_roundings sq10_cell_m2_m2_seg3_roundings sq10_cell_m1_m1_roundings sq10_cell_m1_m1_inside_roundings sq10_cell_m1_m1_seg0_roundings sq10_cell_m1_m1_seg1_roundings sq10_cell_m1_m1_seg2_roundings sq10_cell_m1_m1_seg3_roundings sq10_cell_0_0_inside_roundings sq10_cell_0_0_seg0_roundings)

lemma sq10_cell_0_0_seg1: "distanceToSegment_f64 \<lparr>p_x = Fin 5, p_y = Fin 5\<rparr> \<lparr>p_x = Fin 10, p_y = Fin 0\<rparr> \<lparr>p_x = Fin 10, p_y = Fin 10\<rparr> = Fin 5"
  by (simp add: distanceToSegment_f64_def dist2_f64_def Let_def fsub_def fmin_def fmax_def decimal_literals sq10_roundings sq10_cell_m2_m2_roundings sq10_cell_m2_m2_coarse_roundings sq10_cell_m2_m2_inside_roundings sq10_cell_m2_m2_seg0_roundings sq10_cell_m2_m2_seg1_roundings sq10_cell_m2_m2_seg2_roundings sq10_cell_m2_m2_seg3_roundings sq10_cell_m1_m1_roundings sq10_cell_m1_m1_inside_roundings sq10_cell_m1_m1_seg0_roundings sq10_cell_m1_m1_seg1_roundings sq10_cell_m1_m1_seg2_roundings sq10_cell_m1_m1_seg3_roundings sq10_cell_0_0_inside_roundings sq10_cell_0_0_seg0_roundings)

lemma sq10_cell_0_0_seg2: "distanceToSegment_f64 \<lparr>p_x = Fin 5, p_y = Fin 5\<rparr> \<lparr>p_x = Fin 10, p_y = Fin 10\<rparr> \<lparr>p_x = Fin 0, p_y = Fin 10\<rparr> = Fin 5"
  by (simp add: distanceToSegment_f64_def dist2_f64_def Let_def fsub_def fmin_def fmax_def decimal_literals sq10_roundings sq10_cell_m2_m2_roundings sq10_cell_m2_m2_coarse_roundings sq10_cell_m2_m2_inside_roundings sq10_cell_m2_m2_seg0_roundings sq10_cell_m2_m2_seg1_roundings sq10_cell_m2_m2_seg2_roundings sq10_cell_m2_m2_seg3_roundings sq10_cell_m1_m1_roundings sq10_cell_m1_m1_inside_roundings sq10_cell_m1_m1_seg0_roundings sq10_cell_m1_m1_seg1_roundings sq10_cell_m1_m1_seg2_roundings sq10_cell_m1_m1_seg3_roundings sq10_cell_0_0_inside_roundings sq10_cell_0_0_seg0_roundings)

lemma sq10_cell_0_0_seg3: "distanceToSegment_f64 \<lparr>p_x = Fin 5, p_y = Fin 5\<rparr> \<lparr>p_x = Fin 0, p_y = Fin 10\<rparr> \<lparr>p_x = Fin 0, p_y = Fin 0\<rparr> = Fin 5"
  by (simp add: distanceToSegment_f64_def dist2_f64_def Let_def fsub_def fmin_def fmax_def decimal_literals sq10_roundings sq10_cell_m2_m2_roundings sq10_cell_m2_m2_coarse_roundings sq10_cell_m2_m2_inside_roundings sq10_cell_m2_m2_seg0_roundings sq10_cell_m2_m2_seg1_roundings sq10_cell_m2_m2_seg2_roundings sq10_cell_m2_m2_seg3_roundings sq10_cell_m1_m1_roundings sq10_cell_m1_m1_inside_roundings sq10_cell_m1_m1_seg0_roundings sq10_cell_m1_m1_seg1_roundings sq10_cell_m1_m1_seg2_roundings sq10_cell_m1_m1_seg3_roundings sq10_cell_0_0_inside_roundings sq10_cell_0_0_seg0_roundings)

lemma sq10_cell_0_0_clearance: "distanceToPolygonEdge_f64 \<lparr>p_x = Fin 5, p_y = Fin 5\<rparr> square10_f64 = Fin 5"
  by (simp add: distanceToPolygonEdge_f64_def square10_f64_def upt_rec_numeral Let_def fmin_def decimal_literals sq10_cell_0_0_seg0 sq10_cell_0_0_seg1 sq10_cell_0_0_seg2 sq10_cell_0_0_seg3)

lemma sq10_cell_0_0_strict: "strictCheck_f64 square10_f64 (Fin 1) \<lparr>p_x = Fin 5, p_y = Fin 5\<rparr> = True"
  by (simp add: strictCheck_f64_def sq10_cell_0_0_inside sq10_cell_0_0_clearance fge_def fle_def)

lemma sq10_cell_0_0_id: "circle_id_f64 (Fin 0) (Fin 0) (Fin 0) = ''0-0-0''"
  by code_simp


lemma sq10_cell_0_0_unfiltered: "cell_f64 noCoarse square10_f64 (Fin 1) (Fin 0) (Fin 0, Fin 0, Fin 0) 0 0 = Some \<lparr>c_x64 = Fin 5, c_y64 = Fin 5, c_r64 = Fin 1, c_id64 = ''0-0-0''\<rparr>"
  by (simp add: cell_f64_def cellCircle_f64_def noCoarse_def sq10_cell_0_0_point sq10_cell_0_0_coarse sq10_cell_0_0_strict sq10_cell_0_0_id)

subsection \<open>sqm15\<close>

lemma sqm15_roundings:
  "rnd (- 2) = Fin (- 2)"
  "rnd 3 = Fin 3"
  "fsqrt (Fin 3) = Fin (3900231685776981 / 2251799813685248)"
  "rnd (11700695057330943 / 2251799813685248) = Fin (45705840067699 / 8796093022208)"
  "rnd (45705840067699 / 17592186044416) = Fin (45705840067699 / 17592186044416)"
  "rnd 10 = Fin 10"
  "rnd 100 = Fin 100"
  "rnd 200 = Fin 200"
  "fsqrt (Fin 200) = Fin (124395540479019 / 8796093022208)"
  "rnd 5 = Fin 5"
  "rnd (41465180159673 / 8796093022208) = Fin (41465180159673 / 8796093022208)"
  "rnd 7 = Fin 7"
  "rnd (176855943800711 / 10133099161583616) = Fin (5030569068109113 / 288230376151711744)"
  "rnd 1 = Fin 1"
proof -
  show "rnd (- 2) = Fin (- 2)"
    using rnd_normal [of "- 2" "- 51"] by (simp add: scale2_def rne_def Let_def)
  show "rnd 3 = Fin 3"
    using rnd_normal [of "3" "- 51"] by (simp add: scale2_def rne_def Let_def)
  show "fsqrt (Fin 3) = Fin (3900231685776981 / 2251799813685248)"
    using fsqrt_normal [of "7800463371553962" "- 52" "3"] by (simp add: scale2_def power2_eq_square)
  show "rnd (11700695057330943 / 2251799813685248) = Fin (45705840067699 / 8796093022208)"
    using rnd_normal [of "11700695057330943 / 2251799813685248" "- 50"] by (simp add: scale2_def rne_def Let_def)
  show "rnd (45705840067699 / 17592186044416) = Fin (45705840067699 / 17592186044416)"
    using rnd_normal [of "45705840067699 / 17592186044416" "- 51"] by (simp add: scale2_def rne_def Let_def)
  show "rnd 10 = Fin 10"
    using rnd_normal [of "10" "- 49"] by (simp add: scale2_def rne_def Let_def)
  show "rnd 100 = Fin 100"
    using rnd_normal [of "100" "- 46"] by (simp add: scale2_def rne_def Let_def)
  show "rnd 200 = Fin 200"
    using rnd_normal [of "200" "- 45"] by (simp add: scale2_def rne_def Let_def)
  show "fsqrt (Fin 200) = Fin (124395540479019 / 8796093022208)"
    using fsqrt_normal [of "7961314590657216" "- 49" "200"] by (simp add: scale2_def power2_eq_square)
  show "rnd 5 = Fin 5"
    using rnd_normal [of "5" "- 50"] by (simp add: scale2_def rne_def Let_def)
  show "rnd (41465180159673 / 8796093022208) = Fin (41465180159673 / 8796093022208)"
    using rnd_normal [of "41465180159673 / 8796093022208" "- 50"] by (simp add: scale2_def rne_def Let_def)
  show "rnd 7 = Fin 7"
    using rnd_normal [of "7" "- 50"] by (simp add: scale2_def rne_def Let_def)
  show "rnd (176855943800711 / 10133099161583616) = Fin (5030569068109113 / 288230376151711744)"
    using rnd_normal [of "176855943800711 / 10133099161583616" "- 58"] by (simp add: scale2_def rne_def Let_def)
  show "rnd 1 = Fin 1"
    using rnd_normal [of "1" "- 52"] by (simp add: scale2_def rne_def Let_def)
qed

lemma sqm15_bounds: "getBoundingBox_f64 square10_f64 = \<lparr>minX64 = Fin 0, minY64 = Fin 0, maxX64 = Fin 10, maxY64 = Fin 10\<rparr>"
  by (simp add: getBoundingBox_f64_def square10_f64_def fmin_def fmax_def decimal_literals)

lemma sqm15_pitch: "pitch_f64 (Fin (- 1)) (Fin 5) = Fin 3"
  by (simp add: pitch_f64_def decimal_literals sqm15_roundings)

lemma sqm15_rowHeight: "rowHeight_f64 (Fin (- 1)) (Fin 5) = Fin (45705840067699 / 17592186044416)"
  by (simp add: rowHeight_f64_def sqm15_pitch decimal_literals sqm15_roundings)

lemma sqm15_center: "centerX_f64 square10_f64 = Fin 5" "centerY_f64 square10_f64 = Fin 5"
  by (simp_all add: centerX_f64_def centerY_f64_def sqm15_bounds decimal_literals sqm15_roundings)




lemma sqm15_angle0: "fmul (Fin 0) (fdiv Math_PI (Fin 180)) = Fin 0" "Math_cos (Fin 0) = Fin 1" "Math_sin (Fin 0) = Fin 0"
  by (simp_all add: Math_PI_def decimal_literals sqm15_roundings)

lemma sqm15_cell_0_0_roundings:
  "rnd (3 / 2) = Fin (3 / 2)"
  using rnd_normal [of "3 / 2" "- 52"] by (simp add: scale2_def rne_def Let_def)

lemma sqm15_cell_0_0_point: "cellPoint_f64 square10_f64 (Fin (- 1)) (Fin 5) (Fin 0, Fin 0, Fin 0) 0 0 = \<lparr>p_x = Fin 5, p_y = Fin 5\<rparr>"
  by (simp add: cellPoint_f64_def candidatePoint_f64_def Let_def sqm15_angle0 sqm15_pitch sqm15_rowHeight sqm15_center fsub_def trunc0_def decimal_literals sqm15_roundings sqm15_cell_0_0_roundings)

lemma sqm15_cell_0_0_coarse_roundings:
  "rnd 9 = Fin 9"
  using rnd_normal [of "9" "- 49"] by (simp add: scale2_def rne_def Let_def)

lemma sqm15_cell_0_0_coarse: "outsideBounds_f64 (getBoundingBox_f64 square10_f64) (Fin (- 1)) \<lparr>p_x = Fin 5, p_y = Fin 5\<rparr> = False"
  by (simp add: outsideBounds_f64_def sqm15_bounds fsub_def fgt_def decimal_literals sqm15_roundings sqm15_cell_0_0_roundings sqm15_cell_0_0_coarse_roundings)

lemma sqm15_cell_0_0_inside_roundings:
  "rnd (- 10) = Fin (- 10)"
  "rnd (- 50) = Fin (- 50)"
  "rnd (- 5) = Fin (- 5)"
proof -
  show "rnd (- 10) = Fin (- 10)"
    using rnd_normal [of "- 10" "- 49"] by (simp add: scale2_def rne_def Let_def)
  show "rnd (- 50) = Fin (- 50)"
    using rnd_normal [of "- 50" "- 47"] by (simp add: scale2_def rne_def Let_def)
  show "rnd (- 5) = Fin (- 5)"
    using rnd_normal [of "- 5" "- 50"] by (simp add: scale2_def rne_def Let_def)
qed

lemma sqm15_cell_0_0_inside: "isPointInPolygon_f64 \<lparr>p_x = Fin 5, p_y = Fin 5\<rparr> square10_f64 = True"
  by (simp add: isPointInPolygon_f64_def ray_step_f64_def intersect_f64_def square10_f64_def upt_rec_numeral fsub_def fgt_def decimal_literals sqm15_roundings sqm15_cell_0_0_roundings sqm15_cell_0_0_coarse_roundings sqm15_cell_0_0_inside_roundings)

lemma sqm15_cell_0_0_seg0_roundings:
  "rnd 50 = Fin 50"
  "rnd (1 / 2) = Fin (1 / 2)"
  "rnd 25 = Fin 25"
  "fsqrt (Fin 25) = Fin 5"
proof -
  show "rnd 50 = Fin 50"
    using rnd_normal [of "50" "- 47"] by (simp add: scale2_def rne_def Let_def)
  show "rnd (1 / 2) = Fin (1 / 2)"
    using rnd_normal [of "1 / 2" "- 53"] by (simp add: scale2_def rne_def Let_def)
  show "rnd 25 = Fin 25"
    using rnd_normal [of "25" "- 48"] by (simp add: scale2_def rne_def Let_def)
  show "fsqrt (Fin 25) = Fin 5"
    using fsqrt_normal [of "5629499534213120" "- 50" "25"] by (simp add: scale2_def power2_eq_square)
qed

lemma sqm15_cell_0_0_seg0: "distanceToSegment_f64 \<lparr>p_x = Fin 5, p_y = Fin 5\<rparr> \<lparr>p_x = Fin 0, p_y = Fin 0\<rparr> \<lparr>p_x = Fin 10, p_y = Fin 0\<rparr> = Fin 5"
  by (simp add: distanceToSegment_f64_def dist2_f64_def Let_def fsub_def fmin_def fmax_def decimal_literals sqm15_roundings sqm15_cell_0_0_roundings sqm15_cell_0_0_coarse_roundings sqm15_cell_0_0_inside_roundings sqm15_cell_0_0_seg0_roundings)

lemma sqm15_cell_0_0_seg1: "distanceToSegment_f64 \<lparr>p_x = Fin 5, p_y = Fin 5\<rparr> \<lparr>p_x = Fin 10, p_y = Fin 0\<rparr> \<lparr>p_x = Fin 10, p_y = Fin 10\<rparr> = Fin 5"
  by (simp add: distanceToSegment_f64_def dist2_f64_def Let_def fsub_def fmin_def fmax_def decimal_literals sqm15_roundings sqm15_cell_0_0_roundings sqm15_cell_0_0_coarse_roundings sqm15_cell_0_0_inside_roundings sqm15_cell_0_0_seg0_roundings)

lemma sqm15_cell_0_0_seg2: "distanceToSegment_f64 \<lparr>p_x = Fin 5, p_y = Fin 5\<rparr> \<lparr>p_x = Fin 10, p_y = Fin 10\<rparr> \<lparr>p_x = Fin 0, p_y = Fin 10\<rparr> = Fin 5"
  by (simp add: distanceToSegment_f64_def dist2_f64_def Let_def fsub_def fmin_def fmax_def decimal_literals sqm15_roundings sqm15_cell_0_0_roundings sqm15_cell_0_0_coarse_roundings sqm15_cell_0_0_inside_roundings sqm15_cell_0_0_seg0_roundings)

lemma sqm15_cell_0_0_seg3: "distanceToSegment_f64 \<lparr>p_x = Fin 5, p_y = Fin 5\<rparr> \<lparr>p_x = Fin 0, p_y = Fin 10\<rparr> \<lparr>p_x = Fin 0, p_y = Fin 0\<rparr> = Fin 5"
  by (simp add: distanceToSegment_f64_def dist2_f64_def Let_def fsub_def fmin_def fmax_def decimal_literals sqm15_roundings sqm15_cell_0_0_roundings sqm15_cell_0_0_coarse_roundings sqm15_cell_0_0_inside_roundings sqm15_cell_0_0_seg0_roundings)

lemma sqm15_cell_0_0_clearance: "distanceToPolygonEdge_f64 \<lparr>p_x = Fin 5, p_y = Fin 5\<rparr> square10_f64 = Fin 5"
  by (simp add: distanceToPolygonEdge_f64_def square10_f64_def upt_rec_numeral Let_def fmin_def decimal_literals sqm15_cell_0_0_seg0 sqm15_cell_0_0_seg1 sqm15_cell_0_0_seg2 sqm15_cell_0_0_seg3)

lemma sqm15_cell_0_0_strict: "strictCheck_f64 square10_f64 (Fin (- 1)) \<lparr>p_x = Fin 5, p_y = Fin 5\<rparr> = True"
  by (simp add: strictCheck_f64_def sqm15_cell_0_0_inside sqm15_cell_0_0_clearance fge_def fle_def)

lemma sqm15_cell_0_0_id: "circle_id_f64 (Fin 0) (Fin 0) (Fin 0) = ''0-0-0''"
  by code_simp


lemma sqm15_cell_0_0_unfiltered: "cell_f64 noCoarse square10_f64 (Fin (- 1)) (Fin 5) (Fin 0, Fin 0, Fin 0) 0 0 = Some \<lparr>c_x64 = Fin 5, c_y64 = Fin 5, c_r64 = Fin (- 1), c_id64 = ''0-0-0''\<rparr>"
  by (simp add: cell_f64_def cellCircle_f64_def noCoarse_def sqm15_cell_0_0_point sqm15_cell_0_0_coarse sqm15_cell_0_0_strict sqm15_cell_0_0_id)

subsection \<open>sq1m2\<close>

lemma sq1m2_roundings:
  "rnd 2 = Fin 2"
  "fsqrt (Fin 3) = Fin (3900231685776981 / 2251799813685248)"
  "rnd 10 = Fin 10"
  "rnd 100 = Fin 100"
  "rnd 200 = Fin 200"
  "fsqrt (Fin 200) = Fin (124395540479019 / 8796093022208)"
  "rnd 5 = Fin 5"
  "rnd (176855943800711 / 10133099161583616) = Fin (5030569068109113 / 288230376151711744)"
  "rnd 1 = Fin 1"
proof -
  show "rnd 2 = Fin 2"
    using rnd_normal [of "2" "- 51"] by (simp add: scale2_def rne_def Let_def)
  show "fsqrt (Fin 3) = Fin (3900231685776981 / 2251799813685248)"
    using fsqrt_normal [of "7800463371553962" "- 52" "3"] by (simp add: scale2_def power2_eq_square)
  show "rnd 10 = Fin 10"
    using rnd_normal [of "10" "- 49"] by (simp add: scale2_def rne_def Let_def)
  show "rnd 100 = Fin 100"
    using rnd_normal [of "100" "- 46"] by (simp add: scale2_def rne_def Let_def)
  show "rnd 200 = Fin 200"
    using rnd_normal [of "200" "- 45"] by (simp add: scale2_def rne_def Let_def)
  show "fsqrt (Fin 200) = Fin (124395540479019 / 8796093022208)"
    using fsqrt_normal [of "7961314590657216" "- 49" "200"] by (simp add: scale2_def power2_eq_square)
  show "rnd 5 = Fin 5"
    using rnd_normal [of "5" "- 50"] by (simp add: scale2_def rne_def Let_def)
  show "rnd (176855943800711 / 10133099161583616) = Fin (5030569068109113 / 288230376151711744)"
    using rnd_normal [of "176855943800711 / 10133099161583616" "- 58"] by (simp add: scale2_def rne_def Let_def)
  show "rnd 1 = Fin 1"
    using rnd_normal [of "1" "- 52"] by (simp add: scale2_def rne_def Let_def)
qed

lemma sq1m2_bounds: "getBoundingBox_f64 square10_f64 = \<lparr>minX64 = Fin 0, minY64 = Fin 0, maxX64 = Fin 10, maxY64 = Fin 10\<rparr>"
  by (simp add: getBoundingBox_f64_def square10_f64_def fmin_def fmax_def decimal_literals)

lemma sq1m2_pitch: "pitch_f64 (Fin 1) (Fin (- 2)) = Fin 0"
  by (simp add: pitch_f64_def decimal_literals sq1m2_roundings)

lemma sq1m2_rowHeight: "rowHeight_f64 (Fin 1) (Fin (- 2)) = Fin 0"
  by (simp add: rowHeight_f64_def sq1m2_pitch decimal_literals sq1m2_roundings)

lemma sq1m2_center: "centerX_f64 square10_f64 = Fin 5" "centerY_f64 square10_f64 = Fin 5"
  by (simp_all add: centerX_f64_def centerY_f64_def sq1m2_bounds decimal_literals sq1m2_roundings)

lemma sq1m2_diagonal: "diagonal_f64 square10_f64 = Fin (124395540479019 / 8796093022208)"
  by (simp add: diagonal_f64_def sq1m2_bounds fsub_def decimal_literals sq1m2_roundings)

lemma sq1m2_steps: "steps_f64 square10_f64 (Fin 1) (Fin (- 2)) = PInf"
  by (simp add: steps_f64_def sq1m2_diagonal sq1m2_pitch signedInf_def decimal_literals sq1m2_roundings)

subsection \<open>sqtiny\<close>

lemma sqtiny_roundings:
  "rnd (2028240960365167 / 10141204801825835211973625643008) = Fin (2028240960365167 / 10141204801825835211973625643008)"
  "rnd (6084722881095501 / 20282409603651670423947251286016) = Fin (6084722881095501 / 20282409603651670423947251286016)"
  "fsqrt (Fin 3) = Fin (3900231685776981 / 2251799813685248)"
  "rnd (23731828980020874580025648462481 / 45671926166590716193865151022383844364247891968) = Fin (658690573752143 / 1267650600228229401496703205376)"
  "rnd (658690573752143 / 2535301200456458802993406410752) = Fin (658690573752143 / 2535301200456458802993406410752)"
  "rnd 10 = Fin 10"
  "rnd 100 = Fin 100"
  "rnd 200 = Fin 200"
  "fsqrt (Fin 200) = Fin (124395540479019 / 8796093022208)"
  "rnd 5 = Fin 5"
  "rnd (95612195796968348994769514397696 / 2028240960365167) = Fin 47140452079103168"
  "rnd 47140452079103170 = Fin 47140452079103168"
  "rnd (176855943800711 / 10133099161583616) = Fin (5030569068109113 / 288230376151711744)"
  "rnd 1 = Fin 1"
  "rnd (- 47140452079103167) = Fin (- 47140452079103168)"
proof -
  show "rnd (2028240960365167 / 10141204801825835211973625643008) = Fin (2028240960365167 / 10141204801825835211973625643008)"
    using rnd_normal [of "2028240960365167 / 10141204801825835211973625643008" "- 105"] by (simp add: scale2_def rne_def Let_def)
  show "rnd (6084722881095501 / 20282409603651670423947251286016) = Fin (6084722881095501 / 20282409603651670423947251286016)"
    using rnd_normal [of "6084722881095501 / 20282409603651670423947251286016" "- 104"] by (simp add: scale2_def rne_def Let_def)
  show "fsqrt (Fin 3) = Fin (3900231685776981 / 2251799813685248)"
    using fsqrt_normal [of "7800463371553962" "- 52" "3"] by (simp add: scale2_def power2_eq_square)
  show "rnd (23731828980020874580025648462481 / 45671926166590716193865151022383844364247891968) = Fin (658690573752143 / 1267650600228229401496703205376)"
    using rnd_normal [of "23731828980020874580025648462481 / 45671926166590716193865151022383844364247891968" "- 103"] by (simp add: scale2_def rne_def Let_def)
  show "rnd (658690573752143 / 2535301200456458802993406410752) = Fin (658690573752143 / 2535301200456458802993406410752)"
    using rnd_normal [of "658690573752143 / 2535301200456458802993406410752" "- 104"] by (simp add: scale2_def rne_def Let_def)
  show "rnd 10 = Fin 10"
    using rnd_normal [of "10" "- 49"] by (simp add: scale2_def rne_def Let_def)
  show "rnd 100 = Fin 100"
    using rnd_normal [of "100" "- 46"] by (simp add: scale2_def rne_def Let_def)
  show "rnd 200 = Fin 200"
    using rnd_normal [of "200" "- 45"] by (simp add: scale2_def rne_def Let_def)
  show "fsqrt (Fin 200) = Fin (124395540479019 / 8796093022208)"
    using fsqrt_normal [of "7961314590657216" "- 49" "200"] by (simp add: scale2_def power2_eq_square)
  show "rnd 5 = Fin 5"
    using rnd_normal [of "5" "- 50"] by (simp add: scale2_def rne_def Let_def)
  show "rnd (95612195796968348994769514397696 / 2028240960365167) = Fin 47140452079103168"
    using rnd_normal [of "95612195796968348994769514397696 / 2028240960365167" "3"] by (simp add: scale2_def rne_def Let_def)
  show "rnd 47140452079103170 = Fin 47140452079103168"
    using rnd_normal [of "47140452079103170" "3"] by (simp add: scale2_def rne_def Let_def)
  show "rnd (176855943800711 / 10133099161583616) = Fin (5030569068109113 / 288230376151711744)"
    using rnd_normal [of "176855943800711 / 10133099161583616" "- 58"] by (simp add: scale2_def rne_def Let_def)
  show "rnd 1 = Fin 1"
    using rnd_normal [of "1" "- 52"] by (simp add: scale2_def rne_def Let_def)
  show "rnd (- 47140452079103167) = Fin (- 47140452079103168)"
    using rnd_normal [of "- 47140452079103167" "3"] by (simp add: scale2_def rne_def Let_def)
qed

lemma sqtiny_bounds: "getBoundingBox_f64 square10_f64 = \<lparr>minX64 = Fin 0, minY64 = Fin 0, maxX64 = Fin 10, maxY64 = Fin 10\<rparr>"
  by (simp add: getBoundingBox_f64_def square10_f64_def fmin_def fmax_def decimal_literals)

lemma sqtiny_pitch: "pitch_f64 (Fin (2028240960365167 / 20282409603651670423947251286016)) (Fin (2028240960365167 / 20282409603651670423947251286016)) = Fin (6084722881095501 / 20282409603651670423947251286016)"
  by (simp add: pitch_f64_def decimal_literals sqtiny_roundings)

lemma sqtiny_rowHeight: "rowHeight_f64 (Fin (2028240960365167 / 20282409603651670423947251286016)) (Fin (2028240960365167 / 20282409603651670423947251286016)) = Fin (658690573752143 / 2535301200456458802993406410752)"
  by (simp add: rowHeight_f64_def sqtiny_pitch decimal_literals sqtiny_roundings)

lemma sqtiny_center: "centerX_f64 square10_f64 = Fin 5" "centerY_f64 square10_f64 = Fin 5"
  by (simp_all add: centerX_f64_def centerY_f64_def sqtiny_bounds decimal_literals sqtiny_roundings)




subsection \<open>seg\<close>

lemma seg_roundings:
  "rnd (2028240960365167 / 10141204801825835211973625643008) = Fin (2028240960365167 / 10141204801825835211973625643008)"
  "rnd (10141204801825837240214586008175 / 10141204801825835211973625643008) = Fin (4503599627370497 / 4503599627370496)"
  "fsqrt (Fin 3) = Fin (3900231685776981 / 2251799813685248)"
  "rnd (17565081966723816975671401129557 / 10141204801825835211973625643008) = Fin (1950115842888491 / 1125899906842624)"
  "rnd (1950115842888491 / 2251799813685248) = Fin (1950115842888491 / 2251799813685248)"
  "rnd (4053239664633447 / 1125899906842624) = Fin (4053239664633447 / 1125899906842624)"
  "rnd (82866233143617123 / 36028797018963968) = Fin (2589569785738035 / 1125899906842624)"
  "rnd (16428751778957857907284871101809 / 1267650600228229401496703205376) = Fin (3647915698170103 / 281474976710656)"
  "rnd (6705871675207332498089645661225 / 1267650600228229401496703205376) = Fin (744501313399685 / 140737488355328)"
  "rnd (5136918324969473 / 281474976710656) = Fin (5136918324969473 / 281474976710656)"
  "fsqrt (Fin (5136918324969473 / 281474976710656)) = Fin (1202461627614505 / 281474976710656)"
  "rnd (15762598695796737 / 1125899906842624) = Fin 14"
  "rnd 7 = Fin 7"
  "rnd (90071992547409917 / 36028797018963968) = Fin (5 / 2)"
  "rnd (5 / 4) = Fin (5 / 4)"
  "rnd (19239386041832080 / 4503599627370497) = Fin (4809846510458019 / 1125899906842624)"
  "rnd (176855943800711 / 10133099161583616) = Fin (5030569068109113 / 288230376151711744)"
  "rnd 1 = Fin 1"
proof -
  show "rnd (2028240960365167 / 10141204801825835211973625643008) = Fin (2028240960365167 / 10141204801825835211973625643008)"
    using rnd_normal [of "2028240960365167 / 10141204801825835211973625643008" "- 105"] by (simp add: scale2_def rne_def Let_def)
  show "rnd (10141204801825837240214586008175 / 10141204801825835211973625643008) = Fin (4503599627370497 / 4503599627370496)"
    using rnd_normal [of "10141204801825837240214586008175 / 10141204801825835211973625643008" "- 52"] by (simp add: scale2_def rne_def Let_def)
  show "fsqrt (Fin 3) = Fin (3900231685776981 / 2251799813685248)"
    using fsqrt_normal [of "7800463371553962" "- 52" "3"] by (simp add: scale2_def power2_eq_square)
  show "rnd (17565081966723816975671401129557 / 10141204801825835211973625643008) = Fin (1950115842888491 / 1125899906842624)"
    using rnd_normal [of "17565081966723816975671401129557 / 10141204801825835211973625643008" "- 52"] by (simp add: scale2_def rne_def Let_def)
  show "rnd (1950115842888491 / 2251799813685248) = Fin (1950115842888491 / 2251799813685248)"
    using rnd_normal [of "1950115842888491 / 2251799813685248" "- 53"] by (simp add: scale2_def rne_def Let_def)
  show "rnd (4053239664633447 / 1125899906842624) = Fin (4053239664633447 / 1125899906842624)"
    using rnd_normal [of "4053239664633447 / 1125899906842624" "- 51"] by (simp add: scale2_def rne_def Let_def)
  show "rnd (82866233143617123 / 36028797018963968) = Fin (2589569785738035 / 1125899906842624)"
    using rnd_normal [of "82866233143617123 / 36028797018963968" "- 51"] by (simp add: scale2_def rne_def Let_def)
  show "rnd (16428751778957857907284871101809 / 1267650600228229401496703205376) = Fin (3647915698170103 / 281474976710656)"
    using rnd_normal [of "16428751778957857907284871101809 / 1267650600228229401496703205376" "- 49"] by (simp add: scale2_def rne_def Let_def)
  show "rnd (6705871675207332498089645661225 / 1267650600228229401496703205376) = Fin (744501313399685 / 140737488355328)"
    using rnd_normal [of "6705871675207332498089645661225 / 1267650600228229401496703205376" "- 50"] by (simp add: scale2_def rne_def Let_def)
  show "rnd (5136918324969473 / 281474976710656) = Fin (5136918324969473 / 281474976710656)"
    using rnd_normal [of "5136918324969473 / 281474976710656" "- 48"] by (simp add: scale2_def rne_def Let_def)
  show "fsqrt (Fin (5136918324969473 / 281474976710656)) = Fin (1202461627614505 / 281474976710656)"
    using fsqrt_normal [of "4809846510458020" "- 50" "5136918324969473 / 281474976710656"] by (simp add: scale2_def power2_eq_square)
  show "rnd (15762598695796737 / 1125899906842624) = Fin 14"
    using rnd_normal [of "15762598695796737 / 1125899906842624" "- 49"] by (simp add: scale2_def rne_def Let_def)
  show "rnd 7 = Fin 7"
    using rnd_normal [of "7" "- 50"] by (simp add: scale2_def rne_def Let_def)
  show "rnd (90071992547409917 / 36028797018963968) = Fin (5 / 2)"
    using rnd_normal [of "90071992547409917 / 36028797018963968" "- 51"] by (simp add: scale2_def rne_def Let_def)
  show "rnd (5 / 4) = Fin (5 / 4)"
    using rnd_normal [of "5 / 4" "- 52"] by (simp add: scale2_def rne_def Let_def)
  show "rnd (19239386041832080 / 4503599627370497) = Fin (4809846510458019 / 1125899906842624)"
    using rnd_normal [of "19239386041832080 / 4503599627370497" "- 50"] by (simp add: scale2_def rne_def Let_def)
  show "rnd (176855943800711 / 10133099161583616) = Fin (5030569068109113 / 288230376151711744)"
    using rnd_normal [of "176855943800711 / 10133099161583616" "- 58"] by (simp add: scale2_def rne_def Let_def)
  show "rnd 1 = Fin 1"
    using rnd_normal [of "1" "- 52"] by (simp add: scale2_def rne_def Let_def)
qed

lemma seg_bounds: "getBoundingBox_f64 segment_f64 = \<lparr>minX64 = Fin (5854679515581645 / 1125899906842624), minY64 = Fin (3602879701896397 / 36028797018963968), maxX64 = Fin (2476979795053773 / 281474976710656), maxY64 = Fin (5404319552844595 / 2251799813685248)\<rparr>"
  by (simp add: getBoundingBox_f64_def segment_f64_def fmin_def fmax_def decimal_literals)

lemma seg_pitch: "pitch_f64 (Fin (2028240960365167 / 20282409603651670423947251286016)) (Fin 1) = Fin (4503599627370497 / 4503599627370496)"
  by (simp add: pitch_f64_def decimal_literals seg_roundings)

lemma seg_rowHeight: "rowHeight_f64 (Fin (2028240960365167 / 20282409603651670423947251286016)) (Fin 1) = Fin (1950115842888491 / 2251799813685248)"
  by (simp add: rowHeight_f64_def seg_pitch decimal_literals seg_roundings)

lemma seg_center: "centerX_f64 segment_f64 = Fin 7" "centerY_f64 segment_f64 = Fin (5 / 4)"
  by (simp_all add: centerX_f64_def centerY_f64_def seg_bounds decimal_literals seg_roundings)

lemma seg_diagonal: "diagonal_f64 segment_f64 = Fin (1202461627614505 / 281474976710656)"
  by (simp add: diagonal_f64_def seg_bounds fsub_def decimal_literals seg_roundings)

lemma seg_steps: "steps_f64 segment_f64 (Fin (2028240960365167 / 20282409603651670423947251286016)) (Fin 1) = Fin 7"
  by (simp add: steps_f64_def seg_diagonal seg_pitch signedInf_def decimal_literals seg_roundings)

lemma seg_bounded: "bounded_steps (steps_f64 segment_f64 (Fin (2028240960365167 / 20282409603651670423947251286016)) (Fin 1))" "stepsInt (steps_f64 segment_f64 (Fin (2028240960365167 / 20282409603651670423947251286016)) (Fin 1)) = 7"
  by (simp_all add: seg_steps bounded_steps_def stepsInt_def)

lemma seg_angle0: "fmul (Fin 0) (fdiv Math_PI (Fin 180)) = Fin 0" "Math_cos (Fin 0) = Fin 1" "Math_sin (Fin 0) = Fin 0"
  by (simp_all add: Math_PI_def decimal_literals seg_roundings)

lemma seg_cell_0_0_roundings:
  "rnd (4503599627370497 / 9007199254740992) = Fin (4503599627370497 / 9007199254740992)"
  using rnd_normal [of "4503599627370497 / 9007199254740992" "- 53"] by (simp add: scale2_def rne_def Let_def)

lemma seg_cell_0_0_point: "cellPoint_f64 segment_f64 (Fin (2028240960365167 / 20282409603651670423947251286016)) (Fin 1) (Fin 0, Fin 0, Fin 0) 0 0 = \<lparr>p_x = Fin 7, p_y = Fin (5 / 4)\<rparr>"
  by (simp add: cellPoint_f64_def candidatePoint_f64_def Let_def seg_angle0 seg_pitch seg_rowHeight seg_center fsub_def trunc0_def decimal_literals seg_roundings seg_cell_0_0_roundings)

lemma seg_cell_0_0_coarse_roundings:
  "rnd (105468529938988687779164448218513 / 20282409603651670423947251286016) = Fin (5854679515581645 / 1125899906842624)"
  "rnd (178485204512134716170495579267695 / 20282409603651670423947251286016) = Fin (2476979795053773 / 281474976710656)"
  "rnd (2028240960365165126743755447697 / 20282409603651670423947251286016) = Fin (7205759403792787 / 72057594037927936)"
  "rnd (48677783048764009244274512503407 / 20282409603651670423947251286016) = Fin (5404319552844595 / 2251799813685248)"
proof -
  show "rnd (105468529938988687779164448218513 / 20282409603651670423947251286016) = Fin (5854679515581645 / 1125899906842624)"
    using rnd_normal [of "105468529938988687779164448218513 / 20282409603651670423947251286016" "- 50"] by (simp add: scale2_def rne_def Let_def)
  show "rnd (178485204512134716170495579267695 / 20282409603651670423947251286016) = Fin (2476979795053773 / 281474976710656)"
    using rnd_normal [of "178485204512134716170495579267695 / 20282409603651670423947251286016" "- 49"] by (simp add: scale2_def rne_def Let_def)
  show "rnd (2028240960365165126743755447697 / 20282409603651670423947251286016) = Fin (7205759403792787 / 72057594037927936)"
    using rnd_normal [of "2028240960365165126743755447697 / 20282409603651670423947251286016" "- 56"] by (simp add: scale2_def rne_def Let_def)
  show "rnd (48677783048764009244274512503407 / 20282409603651670423947251286016) = Fin (5404319552844595 / 2251799813685248)"
    using rnd_normal [of "48677783048764009244274512503407 / 20282409603651670423947251286016" "- 51"] by (simp add: scale2_def rne_def Let_def)
qed

lemma seg_cell_0_0_coarse: "outsideBounds_f64 (getBoundingBox_f64 segment_f64) (Fin (2028240960365167 / 20282409603651670423947251286016)) \<lparr>p_x = Fin 7, p_y = Fin (5 / 4)\<rparr> = False"
  by (simp add: outsideBounds_f64_def seg_bounds fsub_def fgt_def decimal_literals seg_roundings seg_cell_0_0_roundings seg_cell_0_0_coarse_roundings)

lemma seg_cell_0_0_inside_roundings:
  "rnd (- (2589569785738035 / 2251799813685248)) = Fin (- (2589569785738035 / 2251799813685248))"
  "rnd (- (10496146969889740187486641056645 / 2535301200456458802993406410752)) = Fin (- (291326600895529 / 70368744177664))"
  "rnd (- (82866233143617123 / 36028797018963968)) = Fin (- (2589569785738035 / 1125899906842624))"
  "rnd (4661225614328464 / 2589569785738035) = Fin (8106479329266895 / 4503599627370496)"
  "rnd (31525197391593475 / 4503599627370496) = Fin (7881299347898369 / 1125899906842624)"
  "rnd (- (4053239664633447 / 1125899906842624)) = Fin (- (4053239664633447 / 1125899906842624))"
  "rnd (41433116571808563 / 36028797018963968) = Fin (2589569785738035 / 2251799813685248)"
  "rnd (- (4661225614328464 / 2589569785738035)) = Fin (- (8106479329266895 / 4503599627370496))"
  "rnd (31525197391593473 / 4503599627370496) = Fin 7"
proof -
  show "rnd (- (2589569785738035 / 2251799813685248)) = Fin (- (2589569785738035 / 2251799813685248))"
    using rnd_normal [of "- (2589569785738035 / 2251799813685248)" "- 52"] by (simp add: scale2_def rne_def Let_def)
  show "rnd (- (10496146969889740187486641056645 / 2535301200456458802993406410752)) = Fin (- (291326600895529 / 70368744177664))"
    using rnd_normal [of "- (10496146969889740187486641056645 / 2535301200456458802993406410752)" "- 50"] by (simp add: scale2_def rne_def Let_def)
  show "rnd (- (82866233143617123 / 36028797018963968)) = Fin (- (2589569785738035 / 1125899906842624))"
    using rnd_normal [of "- (82866233143617123 / 36028797018963968)" "- 51"] by (simp add: scale2_def rne_def Let_def)
  show "rnd (4661225614328464 / 2589569785738035) = Fin (8106479329266895 / 4503599627370496)"
    using rnd_normal [of "4661225614328464 / 2589569785738035" "- 52"] by (simp add: scale2_def rne_def Let_def)
  show "rnd (31525197391593475 / 4503599627370496) = Fin (7881299347898369 / 1125899906842624)"
    using rnd_normal [of "31525197391593475 / 4503599627370496" "- 50"] by (simp add: scale2_def rne_def Let_def)
  show "rnd (- (4053239664633447 / 1125899906842624)) = Fin (- (4053239664633447 / 1125899906842624))"
    using rnd_normal [of "- (4053239664633447 / 1125899906842624)" "- 51"] by (simp add: scale2_def rne_def Let_def)
  show "rnd (41433116571808563 / 36028797018963968) = Fin (2589569785738035 / 2251799813685248)"
    using rnd_normal [of "41433116571808563 / 36028797018963968" "- 52"] by (simp add: scale2_def rne_def Let_def)
  show "rnd (- (4661225614328464 / 2589569785738035)) = Fin (- (8106479329266895 / 4503599627370496))"
    using rnd_normal [of "- (4661225614328464 / 2589569785738035)" "- 52"] by (simp add: scale2_def rne_def Let_def)
  show "rnd (31525197391593473 / 4503599627370496) = Fin 7"
    using rnd_normal [of "31525197391593473 / 4503599627370496" "- 50"] by (simp add: scale2_def rne_def Let_def)
qed

lemma seg_cell_0_0_inside: "isPointInPolygon_f64 \<lparr>p_x = Fin 7, p_y = Fin (5 / 4)\<rparr> segment_f64 = True"
  by (simp add: isPointInPolygon_f64_def ray_step_f64_def intersect_f64_def segment_f64_def upt_rec_numeral fsub_def fgt_def decimal_literals seg_roundings seg_cell_0_0_roundings seg_cell_0_0_coarse_roundings seg_cell_0_0_inside_roundings)

lemma seg_cell_0_0_seg0_roundings:
  "rnd (2026619832316723 / 1125899906842624) = Fin (2026619832316723 / 1125899906842624)"
  "rnd (8214375889478926927022603234181 / 1267650600228229401496703205376) = Fin (1823957849085051 / 281474976710656)"
  "rnd (6705871675207332498089645661225 / 2535301200456458802993406410752) = Fin (744501313399685 / 281474976710656)"
  "rnd (73 / 8) = Fin (73 / 8)"
  "rnd (2568459162484736 / 5136918324969473) = Fin (4503599627370495 / 9007199254740992)"
  "rnd (18254168643286502030472637946265 / 10141204801825835211973625643008) = Fin (2026619832316723 / 1125899906842624)"
  "rnd (- (11662385522099707003479958277325 / 10141204801825835211973625643008)) = Fin (- (5179139571476069 / 4503599627370496))"
  "rnd (5629499534213121 / 4503599627370496) = Fin (5629499534213121 / 4503599627370496)"
  "rnd (- (1 / 4503599627370496)) = Fin (- (1 / 4503599627370496))"
  "rnd (1 / 20282409603651670423947251286016) = Fin (1 / 20282409603651670423947251286016)"
  "fsqrt (Fin (1 / 20282409603651670423947251286016)) = Fin (1 / 4503599627370496)"
proof -
  show "rnd (2026619832316723 / 1125899906842624) = Fin (2026619832316723 / 1125899906842624)"
    using rnd_normal [of "2026619832316723 / 1125899906842624" "- 52"] by (simp add: scale2_def rne_def Let_def)
  show "rnd (8214375889478926927022603234181 / 1267650600228229401496703205376) = Fin (1823957849085051 / 281474976710656)"
    using rnd_normal [of "8214375889478926927022603234181 / 1267650600228229401496703205376" "- 50"] by (simp add: scale2_def rne_def Let_def)
  show "rnd (6705871675207332498089645661225 / 2535301200456458802993406410752) = Fin (744501313399685 / 281474976710656)"
    using rnd_normal [of "6705871675207332498089645661225 / 2535301200456458802993406410752" "- 51"] by (simp add: scale2_def rne_def Let_def)
  show "rnd (73 / 8) = Fin (73 / 8)"
    using rnd_normal [of "73 / 8" "- 49"] by (simp add: scale2_def rne_def Let_def)
  show "rnd (2568459162484736 / 5136918324969473) = Fin (4503599627370495 / 9007199254740992)"
    using rnd_normal [of "2568459162484736 / 5136918324969473" "- 54"] by (simp add: scale2_def rne_def Let_def)
  show "rnd (18254168643286502030472637946265 / 10141204801825835211973625643008) = Fin (2026619832316723 / 1125899906842624)"
    using rnd_normal [of "18254168643286502030472637946265 / 10141204801825835211973625643008" "- 52"] by (simp add: scale2_def rne_def Let_def)
  show "rnd (- (11662385522099707003479958277325 / 10141204801825835211973625643008)) = Fin (- (5179139571476069 / 4503599627370496))"
    using rnd_normal [of "- (11662385522099707003479958277325 / 10141204801825835211973625643008)" "- 52"] by (simp add: scale2_def rne_def Let_def)
  show "rnd (5629499534213121 / 4503599627370496) = Fin (5629499534213121 / 4503599627370496)"
    using rnd_normal [of "5629499534213121 / 4503599627370496" "- 52"] by (simp add: scale2_def rne_def Let_def)
  show "rnd (- (1 / 4503599627370496)) = Fin (- (1 / 4503599627370496))"
    using rnd_normal [of "- (1 / 4503599627370496)" "- 104"] by (simp add: scale2_def rne_def Let_def)
  show "rnd (1 / 20282409603651670423947251286016) = Fin (1 / 20282409603651670423947251286016)"
    using rnd_normal [of "1 / 20282409603651670423947251286016" "- 156"] by (simp add: scale2_def rne_def Let_def)
  show "fsqrt (Fin (1 / 20282409603651670423947251286016)) = Fin (1 / 4503599627370496)"
    using fsqrt_normal [of "4503599627370496" "- 104" "1 / 20282409603651670423947251286016"] by (simp add: scale2_def power2_eq_square)
qed

lemma seg_cell_0_0_seg0: "distanceToSegment_f64 \<lparr>p_x = Fin 7, p_y = Fin (5 / 4)\<rparr> \<lparr>p_x = Fin (5854679515581645 / 1125899906842624), p_y = Fin (5404319552844595 / 2251799813685248)\<rparr> \<lparr>p_x = Fin (2476979795053773 / 281474976710656), p_y = Fin (3602879701896397 / 36028797018963968)\<rparr> = Fin (1 / 4503599627370496)"
  by (simp add: distanceToSegment_f64_def dist2_f64_def Let_def fsub_def fmin_def fmax_def decimal_literals seg_roundings seg_cell_0_0_roundings seg_cell_0_0_coarse_roundings seg_cell_0_0_inside_roundings seg_cell_0_0_seg0_roundings)

lemma seg_cell_0_0_seg1_roundings:
  "rnd (- (506654958079181 / 281474976710656)) = Fin (- (506654958079181 / 281474976710656))"
  "rnd (2053593972369732745065566966907 / 316912650057057350374175801344) = Fin (7295831396340207 / 1125899906842624)"
  "rnd (10273836649938947 / 1125899906842624) = Fin (2568459162484737 / 281474976710656)"
  "rnd (2568459162484737 / 5136918324969473) = Fin (4503599627370497 / 9007199254740992)"
  "rnd (- (18254168643286510136951967213159 / 10141204801825835211973625643008)) = Fin (- (506654958079181 / 281474976710656))"
  "rnd (11662385522099712182619529753395 / 10141204801825835211973625643008) = Fin (5179139571476071 / 4503599627370496)"
  "rnd (45035996273704965 / 36028797018963968) = Fin (5629499534213121 / 4503599627370496)"
proof -
  show "rnd (- (506654958079181 / 281474976710656)) = Fin (- (506654958079181 / 281474976710656))"
    using rnd_normal [of "- (506654958079181 / 281474976710656)" "- 52"] by (simp add: scale2_def rne_def Let_def)
  show "rnd (2053593972369732745065566966907 / 316912650057057350374175801344) = Fin (7295831396340207 / 1125899906842624)"
    using rnd_normal [of "2053593972369732745065566966907 / 316912650057057350374175801344" "- 50"] by (simp add: scale2_def rne_def Let_def)
  show "rnd (10273836649938947 / 1125899906842624) = Fin (2568459162484737 / 281474976710656)"
    using rnd_normal [of "10273836649938947 / 1125899906842624" "- 49"] by (simp add: scale2_def rne_def Let_def)
  show "rnd (2568459162484737 / 5136918324969473) = Fin (4503599627370497 / 9007199254740992)"
    using rnd_normal [of "2568459162484737 / 5136918324969473" "- 53"] by (simp add: scale2_def rne_def Let_def)
  show "rnd (- (18254168643286510136951967213159 / 10141204801825835211973625643008)) = Fin (- (506654958079181 / 281474976710656))"
    using rnd_normal [of "- (18254168643286510136951967213159 / 10141204801825835211973625643008)" "- 52"] by (simp add: scale2_def rne_def Let_def)
  show "rnd (11662385522099712182619529753395 / 10141204801825835211973625643008) = Fin (5179139571476071 / 4503599627370496)"
    using rnd_normal [of "11662385522099712182619529753395 / 10141204801825835211973625643008" "- 52"] by (simp add: scale2_def rne_def Let_def)
  show "rnd (45035996273704965 / 36028797018963968) = Fin (5629499534213121 / 4503599627370496)"
    using rnd_normal [of "45035996273704965 / 36028797018963968" "- 52"] by (simp add: scale2_def rne_def Let_def)
qed

lemma seg_cell_0_0_seg1: "distanceToSegment_f64 \<lparr>p_x = Fin 7, p_y = Fin (5 / 4)\<rparr> \<lparr>p_x = Fin (2476979795053773 / 281474976710656), p_y = Fin (3602879701896397 / 36028797018963968)\<rparr> \<lparr>p_x = Fin (5854679515581645 / 1125899906842624), p_y = Fin (5404319552844595 / 2251799813685248)\<rparr> = Fin (1 / 4503599627370496)"
  by (simp add: distanceToSegment_f64_def dist2_f64_def Let_def fsub_def fmin_def fmax_def decimal_literals seg_roundings seg_cell_0_0_roundings seg_cell_0_0_coarse_roundings seg_cell_0_0_inside_roundings seg_cell_0_0_seg0_roundings seg_cell_0_0_seg1_roundings)

lemma seg_cell_0_0_clearance: "distanceToPolygonEdge_f64 \<lparr>p_x = Fin 7, p_y = Fin (5 / 4)\<rparr> segment_f64 = Fin (1 / 4503599627370496)"
  by (simp add: distanceToPolygonEdge_f64_def segment_f64_def upt_rec_numeral Let_def fmin_def decimal_literals seg_cell_0_0_seg0 seg_cell_0_0_seg1)

lemma seg_cell_0_0_strict: "strictCheck_f64 segment_f64 (Fin (2028240960365167 / 20282409603651670423947251286016)) \<lparr>p_x = Fin 7, p_y = Fin (5 / 4)\<rparr> = True"
  by (simp add: strictCheck_f64_def seg_cell_0_0_inside seg_cell_0_0_clearance fge_def fle_def)

lemma seg_cell_0_0_id: "circle_id_f64 (Fin 0) (Fin 0) (Fin 0) = ''0-0-0''"
  by code_simp

lemma seg_cell_0_0_filtered: "cell_f64 outsideBounds_f64 segment_f64 (Fin (2028240960365167 / 20282409603651670423947251286016)) (Fin 1) (Fin 0, Fin 0, Fin 0) 0 0 = Some \<lparr>c_x64 = Fin 7, c_y64 = Fin (5 / 4), c_r64 = Fin (2028240960365167 / 20282409603651670423947251286016), c_id64 = ''0-0-0''\<rparr>"
  by (simp add: cell_f64_def cellCircle_f64_def noCoarse_def seg_cell_0_0_point seg_cell_0_0_coarse seg_cell_0_0_strict seg_cell_0_0_id)

lemma seg_cell_0_0_unfiltered: "cell_f64 noCoarse segment_f64 (Fin (2028240960365167 / 20282409603651670423947251286016)) (Fin 1) (Fin 0, Fin 0, Fin 0) 0 0 = Some \<lparr>c_x64 = Fin 7, c_y64 = Fin (5 / 4), c_r64 = Fin (2028240960365167 / 20282409603651670423947251286016), c_id64 = ''0-0-0''\<rparr>"
  by (simp add: cell_f64_def cellCircle_f64_def noCoarse_def seg_cell_0_0_point seg_cell_0_0_coarse seg_cell_0_0_strict seg_cell_0_0_id)

subsection \<open>sliver\<close>

lemma sliver_roundings:
  "rnd (4951760157141521 / 2475880078570760549798248448) = Fin (4951760157141521 / 2475880078570760549798248448)"
  "rnd (1237940040523320522050449466845713 / 2475880078570760549798248448) = Fin (536870912536871 / 1073741824)"
  "fsqrt (Fin 3) = Fin (3900231685776981 / 2251799813685248)"
  "rnd (2093920944248306503451445566451 / 2417851639229258349412352) = Fin (1859775395239455 / 2147483648)"
  "rnd (1859775395239455 / 4294967296) = Fin (1859775395239455 / 4294967296)"
  "rnd (1152921505759768480606847 / 1152921504606846976) = Fin (8589934600589935 / 8589934592)"
  "rnd (2476979795053773 / 1125899906842624) = Fin (2476979795053773 / 1125899906842624)"
  "rnd (73786976442412166136850023304225 / 73786976294838206464) = Fin (8192000016384001 / 8192)"
  "rnd (6135428905104631294035961535529 / 1267650600228229401496703205376) = Fin (5449355549118301 / 1125899906842624)"
  "rnd (1125899909099873306673319773 / 1125899906842624) = Fin (4096000008211825 / 4096)"
  "fsqrt (Fin (4096000008211825 / 4096)) = Fin (8589934600610723 / 8589934592)"
  "rnd (- (1152921503453925471393153 / 1152921504606846976)) = Fin (- (8589934583410065 / 8589934592))"
  "rnd (- (8589934583410065 / 17179869184)) = Fin (- (8589934583410065 / 17179869184))"
  "rnd (8589934600610723 / 4294967300294968) = Fin (2251799813690697 / 1125899906842624)"
  "rnd 5 = Fin 5"
  "rnd (176855943800711 / 10133099161583616) = Fin (5030569068109113 / 288230376151711744)"
  "rnd 1 = Fin 1"
proof -
  show "rnd (4951760157141521 / 2475880078570760549798248448) = Fin (4951760157141521 / 2475880078570760549798248448)"
    using rnd_normal [of "4951760157141521 / 2475880078570760549798248448" "- 91"] by (simp add: scale2_def rne_def Let_def)
  show "rnd (1237940040523320522050449466845713 / 2475880078570760549798248448) = Fin (536870912536871 / 1073741824)"
    using rnd_normal [of "1237940040523320522050449466845713 / 2475880078570760549798248448" "- 34"] by (simp add: scale2_def rne_def Let_def)
  show "fsqrt (Fin 3) = Fin (3900231685776981 / 2251799813685248)"
    using fsqrt_normal [of "7800463371553962" "- 52" "3"] by (simp add: scale2_def power2_eq_square)
  show "rnd (2093920944248306503451445566451 / 2417851639229258349412352) = Fin (1859775395239455 / 2147483648)"
    using rnd_normal [of "2093920944248306503451445566451 / 2417851639229258349412352" "- 33"] by (simp add: scale2_def rne_def Let_def)
  show "rnd (1859775395239455 / 4294967296) = Fin (1859775395239455 / 4294967296)"
    using rnd_normal [of "1859775395239455 / 4294967296" "- 34"] by (simp add: scale2_def rne_def Let_def)
  show "rnd (1152921505759768480606847 / 1152921504606846976) = Fin (8589934600589935 / 8589934592)"
    using rnd_normal [of "1152921505759768480606847 / 1152921504606846976" "- 33"] by (simp add: scale2_def rne_def Let_def)
  show "rnd (2476979795053773 / 1125899906842624) = Fin (2476979795053773 / 1125899906842624)"
    using rnd_normal [of "2476979795053773 / 1125899906842624" "- 51"] by (simp add: scale2_def rne_def Let_def)
  show "rnd (73786976442412166136850023304225 / 73786976294838206464) = Fin (8192000016384001 / 8192)"
    using rnd_normal [of "73786976442412166136850023304225 / 73786976294838206464" "- 13"] by (simp add: scale2_def rne_def Let_def)
  show "rnd (6135428905104631294035961535529 / 1267650600228229401496703205376) = Fin (5449355549118301 / 1125899906842624)"
    using rnd_normal [of "6135428905104631294035961535529 / 1267650600228229401496703205376" "- 50"] by (simp add: scale2_def rne_def Let_def)
  show "rnd (1125899909099873306673319773 / 1125899906842624) = Fin (4096000008211825 / 4096)"
    using rnd_normal [of "1125899909099873306673319773 / 1125899906842624" "- 13"] by (simp add: scale2_def rne_def Let_def)
  show "fsqrt (Fin (4096000008211825 / 4096)) = Fin (8589934600610723 / 8589934592)"
    using fsqrt_normal [of "8589934600610723" "- 33" "4096000008211825 / 4096"] by (simp add: scale2_def power2_eq_square)
  show "rnd (- (1152921503453925471393153 / 1152921504606846976)) = Fin (- (8589934583410065 / 8589934592))"
    using rnd_normal [of "- (1152921503453925471393153 / 1152921504606846976)" "- 33"] by (simp add: scale2_def rne_def Let_def)
  show "rnd (- (8589934583410065 / 17179869184)) = Fin (- (8589934583410065 / 17179869184))"
    using rnd_normal [of "- (8589934583410065 / 17179869184)" "- 34"] by (simp add: scale2_def rne_def Let_def)
  show "rnd (8589934600610723 / 4294967300294968) = Fin (2251799813690697 / 1125899906842624)"
    using rnd_normal [of "8589934600610723 / 4294967300294968" "- 51"] by (simp add: scale2_def rne_def Let_def)
  show "rnd 5 = Fin 5"
    using rnd_normal [of "5" "- 50"] by (simp add: scale2_def rne_def Let_def)
  show "rnd (176855943800711 / 10133099161583616) = Fin (5030569068109113 / 288230376151711744)"
    using rnd_normal [of "176855943800711 / 10133099161583616" "- 58"] by (simp add: scale2_def rne_def Let_def)
  show "rnd 1 = Fin 1"
    using rnd_normal [of "1" "- 52"] by (simp add: scale2_def rne_def Let_def)
qed

lemma sliver_bounds: "getBoundingBox_f64 sliver_f64 = \<lparr>minX64 = Fin (- 1000000), minY64 = Fin (- (2476979795053773 / 2251799813685248)), maxX64 = Fin (1152921504606847 / 1152921504606846976), maxY64 = Fin (2476979795053773 / 2251799813685248)\<rparr>"
  by (simp add: getBoundingBox_f64_def sliver_f64_def fmin_def fmax_def decimal_literals)

lemma sliver_pitch: "pitch_f64 (Fin (4951760157141521 / 4951760157141521099596496896)) (Fin (536870912536871 / 1073741824)) = Fin (536870912536871 / 1073741824)"
  by (simp add: pitch_f64_def decimal_literals sliver_roundings)

lemma sliver_rowHeight: "rowHeight_f64 (Fin (4951760157141521 / 4951760157141521099596496896)) (Fin (536870912536871 / 1073741824)) = Fin (1859775395239455 / 4294967296)"
  by (simp add: rowHeight_f64_def sliver_pitch decimal_literals sliver_roundings)

lemma sliver_center: "centerX_f64 sliver_f64 = Fin (- (8589934583410065 / 17179869184))" "centerY_f64 sliver_f64 = Fin 0"
  by (simp_all add: centerX_f64_def centerY_f64_def sliver_bounds decimal_literals sliver_roundings)

lemma sliver_diagonal: "diagonal_f64 sliver_f64 = Fin (8589934600610723 / 8589934592)"
  by (simp add: diagonal_f64_def sliver_bounds fsub_def decimal_literals sliver_roundings)

lemma sliver_steps: "steps_f64 sliver_f64 (Fin (4951760157141521 / 4951760157141521099596496896)) (Fin (536870912536871 / 1073741824)) = Fin 5"
  by (simp add: steps_f64_def sliver_diagonal sliver_pitch signedInf_def decimal_literals sliver_roundings)

lemma sliver_bounded: "bounded_steps (steps_f64 sliver_f64 (Fin (4951760157141521 / 4951760157141521099596496896)) (Fin (536870912536871 / 1073741824)))" "stepsInt (steps_f64 sliver_f64 (Fin (4951760157141521 / 4951760157141521099596496896)) (Fin (536870912536871 / 1073741824))) = 5"
  by (simp_all add: sliver_steps bounded_steps_def stepsInt_def)

lemma sliver_angle0: "fmul (Fin 0) (fdiv Math_PI (Fin 180)) = Fin 0" "Math_cos (Fin 0) = Fin 1" "Math_sin (Fin 0) = Fin 0"
  by (simp_all add: Math_PI_def decimal_literals sliver_roundings)

lemma sliver_cell_0_1_roundings:
  "rnd (536870912536871 / 1073741824) = Fin (536870912536871 / 1073741824)"
  "rnd (536870912536871 / 2147483648) = Fin (536870912536871 / 2147483648)"
  "rnd (17179871 / 17179869184) = Fin (17179871 / 17179869184)"
proof -
  show "rnd (536870912536871 / 1073741824) = Fin (536870912536871 / 1073741824)"
    using rnd_normal [of "536870912536871 / 1073741824" "- 34"] by (simp add: scale2_def rne_def Let_def)
  show "rnd (536870912536871 / 2147483648) = Fin (536870912536871 / 2147483648)"
    using rnd_normal [of "536870912536871 / 2147483648" "- 35"] by (simp add: scale2_def rne_def Let_def)
  show "rnd (17179871 / 17179869184) = Fin (17179871 / 17179869184)"
    using rnd_normal [of "17179871 / 17179869184" "- 62"] by (simp add: scale2_def rne_def Let_def)
qed

lemma sliver_cell_0_1_point: "cellPoint_f64 sliver_f64 (Fin (4951760157141521 / 4951760157141521099596496896)) (Fin (536870912536871 / 1073741824)) (Fin 0, Fin 0, Fin 0) 0 1 = \<lparr>p_x = Fin (17179871 / 17179869184), p_y = Fin 0\<rparr>"
  by (simp add: cellPoint_f64_def candidatePoint_f64_def Let_def sliver_angle0 sliver_pitch sliver_rowHeight sliver_center fsub_def trunc0_def decimal_literals sliver_roundings sliver_cell_0_1_roundings)

lemma sliver_cell_0_1_coarse_roundings:
  "rnd (- (4951760157141521104548257053141521 / 4951760157141521099596496896)) = Fin (- 1000000)"
  "rnd (4951760162093281359817233 / 4951760157141521099596496896) = Fin (2305843011519537 / 2305843009213693952)"
  "rnd (- (5446936172860625409517939217 / 4951760157141521099596496896)) = Fin (- (2476979795056025 / 2251799813685248))"
  "rnd (5446936172860625409517939217 / 4951760157141521099596496896) = Fin (2476979795056025 / 2251799813685248)"
proof -
  show "rnd (- (4951760157141521104548257053141521 / 4951760157141521099596496896)) = Fin (- 1000000)"
    using rnd_normal [of "- (4951760157141521104548257053141521 / 4951760157141521099596496896)" "- 33"] by (simp add: scale2_def rne_def Let_def)
  show "rnd (4951760162093281359817233 / 4951760157141521099596496896) = Fin (2305843011519537 / 2305843009213693952)"
    using rnd_normal [of "4951760162093281359817233 / 4951760157141521099596496896" "- 62"] by (simp add: scale2_def rne_def Let_def)
  show "rnd (- (5446936172860625409517939217 / 4951760157141521099596496896)) = Fin (- (2476979795056025 / 2251799813685248))"
    using rnd_normal [of "- (5446936172860625409517939217 / 4951760157141521099596496896)" "- 52"] by (simp add: scale2_def rne_def Let_def)
  show "rnd (5446936172860625409517939217 / 4951760157141521099596496896) = Fin (2476979795056025 / 2251799813685248)"
    using rnd_normal [of "5446936172860625409517939217 / 4951760157141521099596496896" "- 52"] by (simp add: scale2_def rne_def Let_def)
qed

lemma sliver_cell_0_1_coarse: "outsideBounds_f64 (getBoundingBox_f64 sliver_f64) (Fin (4951760157141521 / 4951760157141521099596496896)) \<lparr>p_x = Fin (17179871 / 17179869184), p_y = Fin 0\<rparr> = True"
  by (simp add: outsideBounds_f64_def sliver_bounds fsub_def fgt_def decimal_literals sliver_roundings sliver_cell_0_1_roundings sliver_cell_0_1_coarse_roundings)

lemma sliver_cell_0_1_inside_roundings:
  "rnd (- (1152921505759768480606847 / 1152921504606846976)) = Fin (- (8589934600589935 / 8589934592))"
  "rnd (- (178405961588245 / 178405961588244985132285746181186892047843328)) = Fin (- (178405961588245 / 178405961588244985132285746181186892047843328))"
  "rnd (1532495542398384599726561314075 / 1532495540865888858358347027150309183618739122183602176) = Fin (2722258938089767 / 2722258935367507707706996859454145691648)"
  "rnd (196246557747069499491146823651994693999829483 / 178405961588244985132285746181186892047843328) = Fin (2476979795053773 / 2251799813685248)"
  "rnd (2722258938089767 / 2994484828904258720262860468325395202048) = Fin (2474780852808879 / 2722258935367507707706996859454145691648)"
  "rnd (2722258935367507764377869434742697135 / 2722258935367507707706996859454145691648) = Fin (1152921504606847 / 1152921504606846976)"
  "rnd (2476979795053773 / 2251799813685248) = Fin (2476979795053773 / 2251799813685248)"
  "rnd (21277094446494570628640847574755 / 19342813113834066795298816) = Fin (4724464030324465 / 4294967296)"
  "rnd (196246557747069499491146823652351505923005973 / 178405961588244985132285746181186892047843328) = Fin (2476979795053773 / 2251799813685248)"
  "rnd (2476979797530753105920 / 2476979795053773) = Fin (536870912536871 / 536870912)"
  "rnd (536871 / 536870912) = Fin (536871 / 536870912)"
  "rnd (- (2476979795053773 / 2251799813685248)) = Fin (- (2476979795053773 / 2251799813685248))"
  "rnd (- (2476979795053773 / 1125899906842624)) = Fin (- (2476979795053773 / 1125899906842624))"
  "rnd (- 1000000) = Fin (- 1000000)"
proof -
  show "rnd (- (1152921505759768480606847 / 1152921504606846976)) = Fin (- (8589934600589935 / 8589934592))"
    using rnd_normal [of "- (1152921505759768480606847 / 1152921504606846976)" "- 33"] by (simp add: scale2_def rne_def Let_def)
  show "rnd (- (178405961588245 / 178405961588244985132285746181186892047843328)) = Fin (- (178405961588245 / 178405961588244985132285746181186892047843328))"
    using rnd_normal [of "- (178405961588245 / 178405961588244985132285746181186892047843328)" "- 152"] by (simp add: scale2_def rne_def Let_def)
  show "rnd (1532495542398384599726561314075 / 1532495540865888858358347027150309183618739122183602176) = Fin (2722258938089767 / 2722258935367507707706996859454145691648)"
    using rnd_normal [of "1532495542398384599726561314075 / 1532495540865888858358347027150309183618739122183602176" "- 132"] by (simp add: scale2_def rne_def Let_def)
  show "rnd (196246557747069499491146823651994693999829483 / 178405961588244985132285746181186892047843328) = Fin (2476979795053773 / 2251799813685248)"
    using rnd_normal [of "196246557747069499491146823651994693999829483 / 178405961588244985132285746181186892047843328" "- 52"] by (simp add: scale2_def rne_def Let_def)
  show "rnd (2722258938089767 / 2994484828904258720262860468325395202048) = Fin (2474780852808879 / 2722258935367507707706996859454145691648)"
    using rnd_normal [of "2722258938089767 / 2994484828904258720262860468325395202048" "- 132"] by (simp add: scale2_def rne_def Let_def)
  show "rnd (2722258935367507764377869434742697135 / 2722258935367507707706996859454145691648) = Fin (1152921504606847 / 1152921504606846976)"
    using rnd_normal [of "2722258935367507764377869434742697135 / 2722258935367507707706996859454145691648" "- 62"] by (simp add: scale2_def rne_def Let_def)
  show "rnd (2476979795053773 / 2251799813685248) = Fin (2476979795053773 / 2251799813685248)"
    using rnd_normal [of "2476979795053773 / 2251799813685248" "- 52"] by (simp add: scale2_def rne_def Let_def)
  show "rnd (21277094446494570628640847574755 / 19342813113834066795298816) = Fin (4724464030324465 / 4294967296)"
    using rnd_normal [of "21277094446494570628640847574755 / 19342813113834066795298816" "- 32"] by (simp add: scale2_def rne_def Let_def)
  show "rnd (196246557747069499491146823652351505923005973 / 178405961588244985132285746181186892047843328) = Fin (2476979795053773 / 2251799813685248)"
    using rnd_normal [of "196246557747069499491146823652351505923005973 / 178405961588244985132285746181186892047843328" "- 52"] by (simp add: scale2_def rne_def Let_def)
  show "rnd (2476979797530753105920 / 2476979795053773) = Fin (536870912536871 / 536870912)"
    using rnd_normal [of "2476979797530753105920 / 2476979795053773" "- 33"] by (simp add: scale2_def rne_def Let_def)
  show "rnd (536871 / 536870912) = Fin (536871 / 536870912)"
    using rnd_normal [of "536871 / 536870912" "- 62"] by (simp add: scale2_def rne_def Let_def)
  show "rnd (- (2476979795053773 / 2251799813685248)) = Fin (- (2476979795053773 / 2251799813685248))"
    using rnd_normal [of "- (2476979795053773 / 2251799813685248)" "- 52"] by (simp add: scale2_def rne_def Let_def)
  show "rnd (- (2476979795053773 / 1125899906842624)) = Fin (- (2476979795053773 / 1125899906842624))"
    using rnd_normal [of "- (2476979795053773 / 1125899906842624)" "- 51"] by (simp add: scale2_def rne_def Let_def)
  show "rnd (- 1000000) = Fin (- 1000000)"
    using rnd_normal [of "- 1000000" "- 33"] by (simp add: scale2_def rne_def Let_def)
qed

lemma sliver_cell_0_1_inside: "isPointInPolygon_f64 \<lparr>p_x = Fin (17179871 / 17179869184), p_y = Fin 0\<rparr> sliver_f64 = True"
  by (simp add: isPointInPolygon_f64_def ray_step_f64_def intersect_f64_def sliver_f64_def upt_rec_numeral fsub_def fgt_def decimal_literals sliver_roundings sliver_cell_0_1_roundings sliver_cell_0_1_coarse_roundings sliver_cell_0_1_inside_roundings)

lemma sliver_cell_0_1_seg0_roundings:
  "rnd (6135428905104631294035961535529 / 5070602400912917605986812821504) = Fin (5449355549118301 / 4503599627370496)"
  "rnd (4503599636383145160045924189 / 4503599627370496) = Fin (8192000016393913 / 8192)"
  "rnd (121869697 / 1152921504606846976) = Fin (121869697 / 1152921504606846976)"
  "rnd (- (1046852727023711399699695 / 9903520314283042199192993792)) = Fin (- (7799660615799661 / 73786976294838206464))"
  "rnd (- (196246557747069499491146823652351505923005973 / 178405961588244985132285746181186892047843328)) = Fin (- (2476979795053773 / 2251799813685248))"
  "rnd (441907962171222398282259698385 / 401734511064747568885490523085290650630550748445698208825344) = Fin (6279889847906225 / 5708990770823839524233143877797980545530986496)"
  "rnd (- (603469510570979102823972417715819298099279 / 5708990770823839524233143877797980545530986496)) = Fin (- (7799660615799661 / 73786976294838206464))"
  "rnd (- (7799660615799661 / 73786976442501447419888660381696)) = Fin (- (8575817522616231 / 81129638414606681695789005144064))"
  "rnd (1152921504606847 / 1152921504606846976) = Fin (1152921504606847 / 1152921504606846976)"
  "rnd (178405961588245 / 178405961588244985132285746181186892047843328) = Fin (178405961588245 / 178405961588244985132285746181186892047843328)"
  "rnd (14852223046871809 / 1329227995784915872903807060280344576) = Fin (58016496276843 / 5192296858534827628530496329220096)"
  "rnd (31828687130226350402922180025 / 31828687130226345097944463881396533766429193651030253916189694521162207808802136034115584) = Fin (7237005577332263 / 7237005577332262213973186563042994240829374041602535252466099000494570602496)"
  "rnd (80863193798836019147826733462150214279573307339481851431 / 7237005577332262213973186563042994240829374041602535252466099000494570602496) = Fin (58016496276843 / 5192296858534827628530496329220096)"
  "fsqrt (Fin (58016496276843 / 5192296858534827628530496329220096)) = Fin (121869697 / 1152921504606846976)"
proof -
  show "rnd (6135428905104631294035961535529 / 5070602400912917605986812821504) = Fin (5449355549118301 / 4503599627370496)"
    using rnd_normal [of "6135428905104631294035961535529 / 5070602400912917605986812821504" "- 52"] by (simp add: scale2_def rne_def Let_def)
  show "rnd (4503599636383145160045924189 / 4503599627370496) = Fin (8192000016393913 / 8192)"
    using rnd_normal [of "4503599636383145160045924189 / 4503599627370496" "- 13"] by (simp add: scale2_def rne_def Let_def)
  show "rnd (121869697 / 1152921504606846976) = Fin (121869697 / 1152921504606846976)"
    using rnd_normal [of "121869697 / 1152921504606846976" "- 86"] by (simp add: scale2_def rne_def Let_def)
  show "rnd (- (1046852727023711399699695 / 9903520314283042199192993792)) = Fin (- (7799660615799661 / 73786976294838206464))"
    using rnd_normal [of "- (1046852727023711399699695 / 9903520314283042199192993792)" "- 66"] by (simp add: scale2_def rne_def Let_def)
  show "rnd (- (196246557747069499491146823652351505923005973 / 178405961588244985132285746181186892047843328)) = Fin (- (2476979795053773 / 2251799813685248))"
    using rnd_normal [of "- (196246557747069499491146823652351505923005973 / 178405961588244985132285746181186892047843328)" "- 52"] by (simp add: scale2_def rne_def Let_def)
  show "rnd (441907962171222398282259698385 / 401734511064747568885490523085290650630550748445698208825344) = Fin (6279889847906225 / 5708990770823839524233143877797980545530986496)"
    using rnd_normal [of "441907962171222398282259698385 / 401734511064747568885490523085290650630550748445698208825344" "- 152"] by (simp add: scale2_def rne_def Let_def)
  show "rnd (- (603469510570979102823972417715819298099279 / 5708990770823839524233143877797980545530986496)) = Fin (- (7799660615799661 / 73786976294838206464))"
    using rnd_normal [of "- (603469510570979102823972417715819298099279 / 5708990770823839524233143877797980545530986496)" "- 66"] by (simp add: scale2_def rne_def Let_def)
  show "rnd (- (7799660615799661 / 73786976442501447419888660381696)) = Fin (- (8575817522616231 / 81129638414606681695789005144064))"
    using rnd_normal [of "- (7799660615799661 / 73786976442501447419888660381696)" "- 106"] by (simp add: scale2_def rne_def Let_def)
  show "rnd (1152921504606847 / 1152921504606846976) = Fin (1152921504606847 / 1152921504606846976)"
    using rnd_normal [of "1152921504606847 / 1152921504606846976" "- 62"] by (simp add: scale2_def rne_def Let_def)
  show "rnd (178405961588245 / 178405961588244985132285746181186892047843328) = Fin (178405961588245 / 178405961588244985132285746181186892047843328)"
    using rnd_normal [of "178405961588245 / 178405961588244985132285746181186892047843328" "- 152"] by (simp add: scale2_def rne_def Let_def)
  show "rnd (14852223046871809 / 1329227995784915872903807060280344576) = Fin (58016496276843 / 5192296858534827628530496329220096)"
    using rnd_normal [of "14852223046871809 / 1329227995784915872903807060280344576" "- 119"] by (simp add: scale2_def rne_def Let_def)
  show "rnd (31828687130226350402922180025 / 31828687130226345097944463881396533766429193651030253916189694521162207808802136034115584) = Fin (7237005577332263 / 7237005577332262213973186563042994240829374041602535252466099000494570602496)"
    using rnd_normal [of "31828687130226350402922180025 / 31828687130226345097944463881396533766429193651030253916189694521162207808802136034115584" "- 252"] by (simp add: scale2_def rne_def Let_def)
  show "rnd (80863193798836019147826733462150214279573307339481851431 / 7237005577332262213973186563042994240829374041602535252466099000494570602496) = Fin (58016496276843 / 5192296858534827628530496329220096)"
    using rnd_normal [of "80863193798836019147826733462150214279573307339481851431 / 7237005577332262213973186563042994240829374041602535252466099000494570602496" "- 119"] by (simp add: scale2_def rne_def Let_def)
  show "fsqrt (Fin (58016496276843 / 5192296858534827628530496329220096)) = Fin (121869697 / 1152921504606846976)"
    using fsqrt_normal [of "8178536921694208" "- 86" "58016496276843 / 5192296858534827628530496329220096"] by (simp add: scale2_def power2_eq_square)
qed

lemma sliver_cell_0_1_seg0: "distanceToSegment_f64 \<lparr>p_x = Fin (17179871 / 17179869184), p_y = Fin 0\<rparr> \<lparr>p_x = Fin (1152921504606847 / 1152921504606846976), p_y = Fin (178405961588245 / 178405961588244985132285746181186892047843328)\<rparr> \<lparr>p_x = Fin (- 1000000), p_y = Fin (- (2476979795053773 / 2251799813685248))\<rparr> = Fin (121869697 / 1152921504606846976)"
  by (simp add: distanceToSegment_f64_def dist2_f64_def Let_def fsub_def fmin_def fmax_def decimal_literals sliver_roundings sliver_cell_0_1_roundings sliver_cell_0_1_coarse_roundings sliver_cell_0_1_inside_roundings sliver_cell_0_1_seg0_roundings)

lemma sliver_cell_0_1_seg1_roundings:
  "rnd (5449355549118301 / 1125899906842624) = Fin (5449355549118301 / 1125899906842624)"
  "rnd (17179869201179871 / 17179869184) = Fin (536870912536871 / 536870912)"
  "rnd (6135428905104631294035961535529 / 2535301200456458802993406410752) = Fin (5449355549118301 / 2251799813685248)"
  "rnd (5449355549118301 / 2251799813685248) = Fin (5449355549118301 / 2251799813685248)"
  "rnd (1 / 2) = Fin (1 / 2)"
  "rnd (288230376728172591080934470641 / 288230376151711744) = Fin (8192000016384003 / 8192)"
  "rnd (8192000016384003 / 8192) = Fin (8192000016384003 / 8192)"
  "fsqrt (Fin (8192000016384003 / 8192)) = Fin (536870912536871 / 536870912)"
proof -
  show "rnd (5449355549118301 / 1125899906842624) = Fin (5449355549118301 / 1125899906842624)"
    using rnd_normal [of "5449355549118301 / 1125899906842624" "- 50"] by (simp add: scale2_def rne_def Let_def)
  show "rnd (17179869201179871 / 17179869184) = Fin (536870912536871 / 536870912)"
    using rnd_normal [of "17179869201179871 / 17179869184" "- 33"] by (simp add: scale2_def rne_def Let_def)
  show "rnd (6135428905104631294035961535529 / 2535301200456458802993406410752) = Fin (5449355549118301 / 2251799813685248)"
    using rnd_normal [of "6135428905104631294035961535529 / 2535301200456458802993406410752" "- 51"] by (simp add: scale2_def rne_def Let_def)
  show "rnd (5449355549118301 / 2251799813685248) = Fin (5449355549118301 / 2251799813685248)"
    using rnd_normal [of "5449355549118301 / 2251799813685248" "- 51"] by (simp add: scale2_def rne_def Let_def)
  show "rnd (1 / 2) = Fin (1 / 2)"
    using rnd_normal [of "1 / 2" "- 53"] by (simp add: scale2_def rne_def Let_def)
  show "rnd (288230376728172591080934470641 / 288230376151711744) = Fin (8192000016384003 / 8192)"
    using rnd_normal [of "288230376728172591080934470641 / 288230376151711744" "- 13"] by (simp add: scale2_def rne_def Let_def)
  show "rnd (8192000016384003 / 8192) = Fin (8192000016384003 / 8192)"
    using rnd_normal [of "8192000016384003 / 8192" "- 13"] by (simp add: scale2_def rne_def Let_def)
  show "fsqrt (Fin (8192000016384003 / 8192)) = Fin (536870912536871 / 536870912)"
    using fsqrt_normal [of "8589934600589936" "- 33" "8192000016384003 / 8192"] by (simp add: scale2_def power2_eq_square)
qed

lemma sliver_cell_0_1_seg1: "distanceToSegment_f64 \<lparr>p_x = Fin (17179871 / 17179869184), p_y = Fin 0\<rparr> \<lparr>p_x = Fin (- 1000000), p_y = Fin (- (2476979795053773 / 2251799813685248))\<rparr> \<lparr>p_x = Fin (- 1000000), p_y = Fin (2476979795053773 / 2251799813685248)\<rparr> = Fin (536870912536871 / 536870912)"
  by (simp add: distanceToSegment_f64_def dist2_f64_def Let_def fsub_def fmin_def fmax_def decimal_literals sliver_roundings sliver_cell_0_1_roundings sliver_cell_0_1_coarse_roundings sliver_cell_0_1_inside_roundings sliver_cell_0_1_seg0_roundings sliver_cell_0_1_seg1_roundings)

lemma sliver_cell_0_1_seg2_roundings:
  "rnd (4611686027650760920424038993385 / 4611686018427387904) = Fin (4096000008192001 / 4096)"
  "rnd (- (196246557747069499491146823651994693999829483 / 178405961588244985132285746181186892047843328)) = Fin (- (2476979795053773 / 2251799813685248))"
  "rnd (4503599636383145709801738077 / 4503599627370496) = Fin (4096000008196957 / 4096)"
  "rnd (8192000016393914 / 8192000016393913) = Fin (4503599627370497 / 4503599627370496)"
  "rnd (8589934600589935 / 8589934592) = Fin (8589934600589935 / 8589934592)"
  "rnd (8589935 / 8589934592) = Fin (8589935 / 8589934592)"
  "rnd (1 / 17179869184) = Fin (1 / 17179869184)"
  "rnd (1 / 295147905179352825856) = Fin (1 / 295147905179352825856)"
  "fsqrt (Fin (1 / 295147905179352825856)) = Fin (1 / 17179869184)"
proof -
  show "rnd (4611686027650760920424038993385 / 4611686018427387904) = Fin (4096000008192001 / 4096)"
    using rnd_normal [of "4611686027650760920424038993385 / 4611686018427387904" "- 13"] by (simp add: scale2_def rne_def Let_def)
  show "rnd (- (196246557747069499491146823651994693999829483 / 178405961588244985132285746181186892047843328)) = Fin (- (2476979795053773 / 2251799813685248))"
    using rnd_normal [of "- (196246557747069499491146823651994693999829483 / 178405961588244985132285746181186892047843328)" "- 52"] by (simp add: scale2_def rne_def Let_def)
  show "rnd (4503599636383145709801738077 / 4503599627370496) = Fin (4096000008196957 / 4096)"
    using rnd_normal [of "4503599636383145709801738077 / 4503599627370496" "- 13"] by (simp add: scale2_def rne_def Let_def)
  show "rnd (8192000016393914 / 8192000016393913) = Fin (4503599627370497 / 4503599627370496)"
    using rnd_normal [of "8192000016393914 / 8192000016393913" "- 52"] by (simp add: scale2_def rne_def Let_def)
  show "rnd (8589934600589935 / 8589934592) = Fin (8589934600589935 / 8589934592)"
    using rnd_normal [of "8589934600589935 / 8589934592" "- 33"] by (simp add: scale2_def rne_def Let_def)
  show "rnd (8589935 / 8589934592) = Fin (8589935 / 8589934592)"
    using rnd_normal [of "8589935 / 8589934592" "- 62"] by (simp add: scale2_def rne_def Let_def)
  show "rnd (1 / 17179869184) = Fin (1 / 17179869184)"
    using rnd_normal [of "1 / 17179869184" "- 86"] by (simp add: scale2_def rne_def Let_def)
  show "rnd (1 / 295147905179352825856) = Fin (1 / 295147905179352825856)"
    using rnd_normal [of "1 / 295147905179352825856" "- 120"] by (simp add: scale2_def rne_def Let_def)
  show "fsqrt (Fin (1 / 295147905179352825856)) = Fin (1 / 17179869184)"
    using fsqrt_normal [of "4503599627370496" "- 86" "1 / 295147905179352825856"] by (simp add: scale2_def power2_eq_square)
qed

lemma sliver_cell_0_1_seg2: "distanceToSegment_f64 \<lparr>p_x = Fin (17179871 / 17179869184), p_y = Fin 0\<rparr> \<lparr>p_x = Fin (- 1000000), p_y = Fin (2476979795053773 / 2251799813685248)\<rparr> \<lparr>p_x = Fin (1152921504606847 / 1152921504606846976), p_y = Fin (178405961588245 / 178405961588244985132285746181186892047843328)\<rparr> = Fin (1 / 17179869184)"
  by (simp add: distanceToSegment_f64_def dist2_f64_def Let_def fsub_def fmin_def fmax_def decimal_literals sliver_roundings sliver_cell_0_1_roundings sliver_cell_0_1_coarse_roundings sliver_cell_0_1_inside_roundings sliver_cell_0_1_seg0_roundings sliver_cell_0_1_seg1_roundings sliver_cell_0_1_seg2_roundings)

lemma sliver_cell_0_1_clearance: "distanceToPolygonEdge_f64 \<lparr>p_x = Fin (17179871 / 17179869184), p_y = Fin 0\<rparr> sliver_f64 = Fin (1 / 17179869184)"
  by (simp add: distanceToPolygonEdge_f64_def sliver_f64_def upt_rec_numeral Let_def fmin_def decimal_literals sliver_cell_0_1_seg0 sliver_cell_0_1_seg1 sliver_cell_0_1_seg2)

lemma sliver_cell_0_1_strict: "strictCheck_f64 sliver_f64 (Fin (4951760157141521 / 4951760157141521099596496896)) \<lparr>p_x = Fin (17179871 / 17179869184), p_y = Fin 0\<rparr> = True"
  by (simp add: strictCheck_f64_def sliver_cell_0_1_inside sliver_cell_0_1_clearance fge_def fle_def)

lemma sliver_cell_0_1_id: "circle_id_f64 (Fin 0) (Fin 0) (Fin 1) = ''0-0-1''"
  by code_simp

lemma sliver_cell_0_1_filtered: "cell_f64 outsideBounds_f64 sliver_f64 (Fin (4951760157141521 / 4951760157141521099596496896)) (Fin (536870912536871 / 1073741824)) (Fin 0, Fin 0, Fin 0) 0 1 = None"
  by (simp add: cell_f64_def cellCircle_f64_def noCoarse_def sliver_cell_0_1_point sliver_cell_0_1_coarse sliver_cell_0_1_strict sliver_cell_0_1_id)

lemma sliver_cell_0_1_unfiltered: "cell_f64 noCoarse sliver_f64 (Fin (4951760157141521 / 4951760157141521099596496896)) (Fin (536870912536871 / 1073741824)) (Fin 0, Fin 0, Fin 0) 0 1 = Some \<lparr>c_x64 = Fin (17179871 / 17179869184), c_y64 = Fin 0, c_r64 = Fin (4951760157141521 / 4951760157141521099596496896), c_id64 = ''0-0-1''\<rparr>"
  by (simp add: cell_f64_def cellCircle_f64_def noCoarse_def sliver_cell_0_1_point sliver_cell_0_1_coarse sliver_cell_0_1_strict sliver_cell_0_1_id)

subsection \<open>flat\<close>

lemma flat_roundings:
  "rnd 2 = Fin 2"
  "rnd 3 = Fin 3"
  "fsqrt (Fin 3) = Fin (3900231685776981 / 2251799813685248)"
  "rnd (11700695057330943 / 2251799813685248) = Fin (45705840067699 / 8796093022208)"
  "rnd (45705840067699 / 17592186044416) = Fin (45705840067699 / 17592186044416)"
  "rnd 4 = Fin 4"
  "fsqrt (Fin 4) = Fin 2"
  "rnd 1 = Fin 1"
  "rnd (2 / 3) = Fin (6004799503160661 / 9007199254740992)"
  "rnd (176855943800711 / 10133099161583616) = Fin (5030569068109113 / 288230376151711744)"
proof -
  show "rnd 2 = Fin 2"
    using rnd_normal [of "2" "- 51"] by (simp add: scale2_def rne_def Let_def)
  show "rnd 3 = Fin 3"
    using rnd_normal [of "3" "- 51"] by (simp add: scale2_def rne_def Let_def)
  show "fsqrt (Fin 3) = Fin (3900231685776981 / 2251799813685248)"
    using fsqrt_normal [of "7800463371553962" "- 52" "3"] by (simp add: scale2_def power2_eq_square)
  show "rnd (11700695057330943 / 2251799813685248) = Fin (45705840067699 / 8796093022208)"
    using rnd_normal [of "11700695057330943 / 2251799813685248" "- 50"] by (simp add: scale2_def rne_def Let_def)
  show "rnd (45705840067699 / 17592186044416) = Fin (45705840067699 / 17592186044416)"
    using rnd_normal [of "45705840067699 / 17592186044416" "- 51"] by (simp add: scale2_def rne_def Let_def)
  show "rnd 4 = Fin 4"
    using rnd_normal [of "4" "- 50"] by (simp add: scale2_def rne_def Let_def)
  show "fsqrt (Fin 4) = Fin 2"
    using fsqrt_normal [of "4503599627370496" "- 51" "4"] by (simp add: scale2_def power2_eq_square)
  show "rnd 1 = Fin 1"
    using rnd_normal [of "1" "- 52"] by (simp add: scale2_def rne_def Let_def)
  show "rnd (2 / 3) = Fin (6004799503160661 / 9007199254740992)"
    using rnd_normal [of "2 / 3" "- 53"] by (simp add: scale2_def rne_def Let_def)
  show "rnd (176855943800711 / 10133099161583616) = Fin (5030569068109113 / 288230376151711744)"
    using rnd_normal [of "176855943800711 / 10133099161583616" "- 58"] by (simp add: scale2_def rne_def Let_def)
qed

lemma flat_bounds: "getBoundingBox_f64 flat_f64 = \<lparr>minX64 = Fin 0, minY64 = Fin 0, maxX64 = Fin 2, maxY64 = Fin 0\<rparr>"
  by (simp add: getBoundingBox_f64_def flat_f64_def fmin_def fmax_def decimal_literals)

lemma flat_pitch: "pitch_f64 (Fin 1) (Fin 1) = Fin 3"
  by (simp add: pitch_f64_def decimal_literals flat_roundings)

lemma flat_rowHeight: "rowHeight_f64 (Fin 1) (Fin 1) = Fin (45705840067699 / 17592186044416)"
  by (simp add: rowHeight_f64_def flat_pitch decimal_literals flat_roundings)

lemma flat_center: "centerX_f64 flat_f64 = Fin 1" "centerY_f64 flat_f64 = Fin 0"
  by (simp_all add: centerX_f64_def centerY_f64_def flat_bounds decimal_literals flat_roundings)




subsection \<open>calculatePolygonArea\<close>

lemma segment_int_roundings:
  "rnd 9007199254740994 = Fin 9007199254740994"
  "rnd 1 = Fin 1"
  "rnd 9007199254740993 = Fin 9007199254740992"
  "rnd (- 2) = Fin (- 2)"
  "rnd (- 1) = Fin (- 1)"
proof -
  show "rnd 9007199254740994 = Fin 9007199254740994"
    using rnd_normal [of "9007199254740994" "1"] by (simp add: scale2_def rne_def Let_def)
  show "rnd 1 = Fin 1"
    using rnd_normal [of "1" "- 52"] by (simp add: scale2_def rne_def Let_def)
  show "rnd 9007199254740993 = Fin 9007199254740992"
    using rnd_normal [of "9007199254740993" "1"] by (simp add: scale2_def rne_def Let_def)
  show "rnd (- 2) = Fin (- 2)"
    using rnd_normal [of "- 2" "- 51"] by (simp add: scale2_def rne_def Let_def)
  show "rnd (- 1) = Fin (- 1)"
    using rnd_normal [of "- 1" "- 52"] by (simp add: scale2_def rne_def Let_def)
qed

lemma segment_int_area: "calculatePolygonArea_f64 segment_int = Fin 1"
  by (simp add: calculatePolygonArea_f64_def segment_int_def upt_rec_numeral Let_def fsub_def decimal_literals segment_int_roundings)

lemma segment_dec_roundings:
  "rnd (12980742146337070512478121581609 / 1298074214633706907132624082305024) = Fin (1441151880758559 / 144115188075855872)"
  "rnd (1441151880758559 / 144115188075855872) = Fin (1441151880758559 / 144115188075855872)"
  "rnd (3602879701896397 / 36028797018963968) = Fin (3602879701896397 / 36028797018963968)"
  "rnd (- (12970366926827029 / 144115188075855872)) = Fin (- (3242591731706757 / 36028797018963968))"
  "rnd (45035996273705 / 4503599627370496) = Fin (45035996273705 / 4503599627370496)"
  "rnd (1 / 144115188075855872) = Fin (1 / 144115188075855872)"
  "rnd (1 / 288230376151711744) = Fin (1 / 288230376151711744)"
proof -
  show "rnd (12980742146337070512478121581609 / 1298074214633706907132624082305024) = Fin (1441151880758559 / 144115188075855872)"
    using rnd_normal [of "12980742146337070512478121581609 / 1298074214633706907132624082305024" "- 59"] by (simp add: scale2_def rne_def Let_def)
  show "rnd (1441151880758559 / 144115188075855872) = Fin (1441151880758559 / 144115188075855872)"
    using rnd_normal [of "1441151880758559 / 144115188075855872" "- 59"] by (simp add: scale2_def rne_def Let_def)
  show "rnd (3602879701896397 / 36028797018963968) = Fin (3602879701896397 / 36028797018963968)"
    using rnd_normal [of "3602879701896397 / 36028797018963968" "- 56"] by (simp add: scale2_def rne_def Let_def)
  show "rnd (- (12970366926827029 / 144115188075855872)) = Fin (- (3242591731706757 / 36028797018963968))"
    using rnd_normal [of "- (12970366926827029 / 144115188075855872)" "- 56"] by (simp add: scale2_def rne_def Let_def)
  show "rnd (45035996273705 / 4503599627370496) = Fin (45035996273705 / 4503599627370496)"
    using rnd_normal [of "45035996273705 / 4503599627370496" "- 59"] by (simp add: scale2_def rne_def Let_def)
  show "rnd (1 / 144115188075855872) = Fin (1 / 144115188075855872)"
    using rnd_normal [of "1 / 144115188075855872" "- 109"] by (simp add: scale2_def rne_def Let_def)
  show "rnd (1 / 288230376151711744) = Fin (1 / 288230376151711744)"
    using rnd_normal [of "1 / 288230376151711744" "- 110"] by (simp add: scale2_def rne_def Let_def)
qed

lemma segment_dec_area: "calculatePolygonArea_f64 segment_dec = Fin (1 / 288230376151711744)"
  by (simp add: calculatePolygonArea_f64_def segment_dec_def upt_rec_numeral Let_def fsub_def decimal_literals segment_dec_roundings)

lemma triangle_int_roundings:
  "rnd 9007199254740992 = Fin 9007199254740992"
  "rnd 1 = Fin 1"
  "rnd 9007199254740991 = Fin 9007199254740991"
  "rnd 2 = Fin 2"
  "rnd 9007199254740993 = Fin 9007199254740992"
  "rnd 3 = Fin 3"
  "rnd 9007199254740989 = Fin 9007199254740989"
  "rnd 18014398509481984 = Fin 18014398509481984"
  "rnd (- 9007199254740992) = Fin (- 9007199254740992)"
  "rnd (- 4503599627370496) = Fin (- 4503599627370496)"
  "rnd (- 1) = Fin (- 1)"
  "rnd (- 18014398509481982) = Fin (- 18014398509481982)"
  "rnd (- 9007199254740990) = Fin (- 9007199254740990)"
  "rnd (- 9007199254740991) = Fin (- 9007199254740991)"
  "rnd (- (9007199254740991 / 2)) = Fin (- (9007199254740991 / 2))"
  "rnd 9007199254740994 = Fin 9007199254740994"
  "rnd (9007199254740991 / 2) = Fin (9007199254740991 / 2)"
proof -
  show "rnd 9007199254740992 = Fin 9007199254740992"
    using rnd_normal [of "9007199254740992" "1"] by (simp add: scale2_def rne_def Let_def)
  show "rnd 1 = Fin 1"
    using rnd_normal [of "1" "- 52"] by (simp add: scale2_def rne_def Let_def)
  show "rnd 9007199254740991 = Fin 9007199254740991"
    using rnd_normal [of "9007199254740991" "0"] by (simp add: scale2_def rne_def Let_def)
  show "rnd 2 = Fin 2"
    using rnd_normal [of "2" "- 51"] by (simp add: scale2_def rne_def Let_def)
  show "rnd 9007199254740993 = Fin 9007199254740992"
    using rnd_normal [of "9007199254740993" "1"] by (simp add: scale2_def rne_def Let_def)
  show "rnd 3 = Fin 3"
    using rnd_normal [of "3" "- 51"] by (simp add: scale2_def rne_def Let_def)
  show "rnd 9007199254740989 = Fin 9007199254740989"
    using rnd_normal [of "9007199254740989" "0"] by (simp add: scale2_def rne_def Let_def)
  show "rnd 18014398509481984 = Fin 18014398509481984"
    using rnd_normal [of "18014398509481984" "2"] by (simp add: scale2_def rne_def Let_def)
  show "rnd (- 9007199254740992) = Fin (- 9007199254740992)"
    using rnd_normal [of "- 9007199254740992" "1"] by (simp add: scale2_def rne_def Let_def)
  show "rnd (- 4503599627370496) = Fin (- 4503599627370496)"
    using rnd_normal [of "- 4503599627370496" "0"] by (simp add: scale2_def rne_def Let_def)
  show "rnd (- 1) = Fin (- 1)"
    using rnd_normal [of "- 1" "- 52"] by (simp add: scale2_def rne_def Let_def)
  show "rnd (- 18014398509481982) = Fin (- 18014398509481982)"
    using rnd_normal [of "- 18014398509481982" "1"] by (simp add: scale2_def rne_def Let_def)
  show "rnd (- 9007199254740990) = Fin (- 9007199254740990)"
    using rnd_normal [of "- 9007199254740990" "0"] by (simp add: scale2_def rne_def Let_def)
  show "rnd (- 9007199254740991) = Fin (- 9007199254740991)"
    using rnd_normal [of "- 9007199254740991" "0"] by (simp add: scale2_def rne_def Let_def)
  show "rnd (- (9007199254740991 / 2)) = Fin (- (9007199254740991 / 2))"
    using rnd_normal [of "- (9007199254740991 / 2)" "- 1"] by (simp add: scale2_def rne_def Let_def)
  show "rnd 9007199254740994 = Fin 9007199254740994"
    using rnd_normal [of "9007199254740994" "1"] by (simp add: scale2_def rne_def Let_def)
  show "rnd (9007199254740991 / 2) = Fin (9007199254740991 / 2)"
    using rnd_normal [of "9007199254740991 / 2" "- 1"] by (simp add: scale2_def rne_def Let_def)
qed

lemma triangle_int_area: "calculatePolygonArea_f64 triangle_int = Fin 4503599627370496"
  by (simp add: calculatePolygonArea_f64_def triangle_int_def upt_rec_numeral Let_def fsub_def decimal_literals triangle_int_roundings)

lemma triangle_int_area_rotate: "calculatePolygonArea_f64 (rotate 1 triangle_int) = Fin (9007199254740991 / 2)"
  by (simp add: calculatePolygonArea_f64_def triangle_int_def upt_rec_numeral Let_def fsub_def decimal_literals triangle_int_roundings)

lemma triangle_int_area_rev: "calculatePolygonArea_f64 (rev triangle_int) = Fin (9007199254740991 / 2)"
  by (simp add: calculatePolygonArea_f64_def triangle_int_def upt_rec_numeral Let_def fsub_def decimal_literals triangle_int_roundings)

lemma triangle_dec_roundings:
  "rnd (12980742146337070512478121581609 / 649037107316853453566312041152512) = Fin (1441151880758559 / 72057594037927936)"
  "rnd (1441151880758559 / 72057594037927936) = Fin (1441151880758559 / 72057594037927936)"
  "rnd (12980742146337070512478121581609 / 1298074214633706907132624082305024) = Fin (1441151880758559 / 144115188075855872)"
  "rnd (1441151880758559 / 144115188075855872) = Fin (1441151880758559 / 144115188075855872)"
  "rnd (11358149378044935347338468172759 / 162259276829213363391578010288128) = Fin (5044031582654955 / 72057594037927936)"
  "rnd (11529215046068469 / 144115188075855872) = Fin (2882303761517117 / 36028797018963968)"
  "rnd (19471113219505603967277331424215 / 324518553658426726783156020576256) = Fin (1080863910568919 / 18014398509481984)"
  "rnd (720575940379279 / 36028797018963968) = Fin (720575940379279 / 36028797018963968)"
  "rnd (19471113219505603967277331424215 / 649037107316853453566312041152512) = Fin (1080863910568919 / 36028797018963968)"
  "rnd (900719925474099 / 18014398509481984) = Fin (900719925474099 / 18014398509481984)"
  "rnd (- (1441151880758559 / 72057594037927936)) = Fin (- (1441151880758559 / 72057594037927936))"
  "rnd (- (1441151880758559 / 144115188075855872)) = Fin (- (1441151880758559 / 144115188075855872))"
  "rnd (5044031582654955 / 72057594037927936) = Fin (5044031582654955 / 72057594037927936)"
  "rnd (720575940379279 / 72057594037927936) = Fin (720575940379279 / 72057594037927936)"
  "rnd (2882303761517117 / 72057594037927936) = Fin (2882303761517117 / 72057594037927936)"
  "rnd (- (1080863910568919 / 36028797018963968)) = Fin (- (1080863910568919 / 36028797018963968))"
  "rnd (- (720575940379279 / 72057594037927936)) = Fin (- (720575940379279 / 72057594037927936))"
  "rnd (- (2882303761517117 / 144115188075855872)) = Fin (- (2882303761517117 / 144115188075855872))"
  "rnd (- (2882303761517117 / 288230376151711744)) = Fin (- (2882303761517117 / 288230376151711744))"
  "rnd (1080863910568919 / 18014398509481984) = Fin (1080863910568919 / 18014398509481984)"
  "rnd (1 / 144115188075855872) = Fin (1 / 144115188075855872)"
  "rnd (7205759403792793 / 144115188075855872) = Fin (7205759403792793 / 144115188075855872)"
  "rnd (2882303761517117 / 144115188075855872) = Fin (2882303761517117 / 144115188075855872)"
  "rnd (2882303761517117 / 288230376151711744) = Fin (2882303761517117 / 288230376151711744)"
proof -
  show "rnd (12980742146337070512478121581609 / 649037107316853453566312041152512) = Fin (1441151880758559 / 72057594037927936)"
    using rnd_normal [of "12980742146337070512478121581609 / 649037107316853453566312041152512" "- 58"] by (simp add: scale2_def rne_def Let_def)
  show "rnd (1441151880758559 / 72057594037927936) = Fin (1441151880758559 / 72057594037927936)"
    using rnd_normal [of "1441151880758559 / 72057594037927936" "- 58"] by (simp add: scale2_def rne_def Let_def)
  show "rnd (12980742146337070512478121581609 / 1298074214633706907132624082305024) = Fin (1441151880758559 / 144115188075855872)"
    using rnd_normal [of "12980742146337070512478121581609 / 1298074214633706907132624082305024" "- 59"] by (simp add: scale2_def rne_def Let_def)
  show "rnd (1441151880758559 / 144115188075855872) = Fin (1441151880758559 / 144115188075855872)"
    using rnd_normal [of "1441151880758559 / 144115188075855872" "- 59"] by (simp add: scale2_def rne_def Let_def)
  show "rnd (11358149378044935347338468172759 / 162259276829213363391578010288128) = Fin (5044031582654955 / 72057594037927936)"
    using rnd_normal [of "11358149378044935347338468172759 / 162259276829213363391578010288128" "- 56"] by (simp add: scale2_def rne_def Let_def)
  show "rnd (11529215046068469 / 144115188075855872) = Fin (2882303761517117 / 36028797018963968)"
    using rnd_normal [of "11529215046068469 / 144115188075855872" "- 56"] by (simp add: scale2_def rne_def Let_def)
  show "rnd (19471113219505603967277331424215 / 324518553658426726783156020576256) = Fin (1080863910568919 / 18014398509481984)"
    using rnd_normal [of "19471113219505603967277331424215 / 324518553658426726783156020576256" "- 57"] by (simp add: scale2_def rne_def Let_def)
  show "rnd (720575940379279 / 36028797018963968) = Fin (720575940379279 / 36028797018963968)"
    using rnd_normal [of "720575940379279 / 36028797018963968" "- 58"] by (simp add: scale2_def rne_def Let_def)
  show "rnd (19471113219505603967277331424215 / 649037107316853453566312041152512) = Fin (1080863910568919 / 36028797018963968)"
    using rnd_normal [of "19471113219505603967277331424215 / 649037107316853453566312041152512" "- 58"] by (simp add: scale2_def rne_def Let_def)
  show "rnd (900719925474099 / 18014398509481984) = Fin (900719925474099 / 18014398509481984)"
    using rnd_normal [of "900719925474099 / 18014398509481984" "- 57"] by (simp add: scale2_def rne_def Let_def)
  show "rnd (- (1441151880758559 / 72057594037927936)) = Fin (- (1441151880758559 / 72057594037927936))"
    using rnd_normal [of "- (1441151880758559 / 72057594037927936)" "- 58"] by (simp add: scale2_def rne_def Let_def)
  show "rnd (- (1441151880758559 / 144115188075855872)) = Fin (- (1441151880758559 / 144115188075855872))"
    using rnd_normal [of "- (1441151880758559 / 144115188075855872)" "- 59"] by (simp add: scale2_def rne_def Let_def)
  show "rnd (5044031582654955 / 72057594037927936) = Fin (5044031582654955 / 72057594037927936)"
    using rnd_normal [of "5044031582654955 / 72057594037927936" "- 56"] by (simp add: scale2_def rne_def Let_def)
  show "rnd (720575940379279 / 72057594037927936) = Fin (720575940379279 / 72057594037927936)"
    using rnd_normal [of "720575940379279 / 72057594037927936" "- 59"] by (simp add: scale2_def rne_def Let_def)
  show "rnd (2882303761517117 / 72057594037927936) = Fin (2882303761517117 / 72057594037927936)"
    using rnd_normal [of "2882303761517117 / 72057594037927936" "- 57"] by (simp add: scale2_def rne_def Let_def)
  show "rnd (- (1080863910568919 / 36028797018963968)) = Fin (- (1080863910568919 / 36028797018963968))"
    using rnd_normal [of "- (1080863910568919 / 36028797018963968)" "- 58"] by (simp add: scale2_def rne_def Let_def)
  show "rnd (- (720575940379279 / 72057594037927936)) = Fin (- (720575940379279 / 72057594037927936))"
    using rnd_normal [of "- (720575940379279 / 72057594037927936)" "- 59"] by (simp add: scale2_def rne_def Let_def)
  show "rnd (- (2882303761517117 / 144115188075855872)) = Fin (- (2882303761517117 / 144115188075855872))"
    using rnd_normal [of "- (2882303761517117 / 144115188075855872)" "- 58"] by (simp add: scale2_def rne_def Let_def)
  show "rnd (- (2882303761517117 / 288230376151711744)) = Fin (- (2882303761517117 / 288230376151711744))"
    using rnd_normal [of "- (2882303761517117 / 288230376151711744)" "- 59"] by (simp add: scale2_def rne_def Let_def)
  show "rnd (1080863910568919 / 18014398509481984) = Fin (1080863910568919 / 18014398509481984)"
    using rnd_normal [of "1080863910568919 / 18014398509481984" "- 57"] by (simp add: scale2_def rne_def Let_def)
  show "rnd (1 / 144115188075855872) = Fin (1 / 144115188075855872)"
    using rnd_normal [of "1 / 144115188075855872" "- 109"] by (simp add: scale2_def rne_def Let_def)
  show "rnd (7205759403792793 / 144115188075855872) = Fin (7205759403792793 / 144115188075855872)"
    using rnd_normal [of "7205759403792793 / 144115188075855872" "- 57"] by (simp add: scale2_def rne_def Let_def)
  show "rnd (2882303761517117 / 144115188075855872) = Fin (2882303761517117 / 144115188075855872)"
    using rnd_normal [of "2882303761517117 / 144115188075855872" "- 58"] by (simp add: scale2_def rne_def Let_def)
  show "rnd (2882303761517117 / 288230376151711744) = Fin (2882303761517117 / 288230376151711744)"
    using rnd_normal [of "2882303761517117 / 288230376151711744" "- 59"] by (simp add: scale2_def rne_def Let_def)
qed

lemma triangle_dec_area: "calculatePolygonArea_f64 triangle_dec = Fin (1441151880758559 / 144115188075855872)"
  by (simp add: calculatePolygonArea_f64_def triangle_dec_def upt_rec_numeral Let_def fsub_def decimal_literals triangle_dec_roundings)

lemma triangle_dec_area_rotate: "calculatePolygonArea_f64 (rotate 1 triangle_dec) = Fin (2882303761517117 / 288230376151711744)"
  by (simp add: calculatePolygonArea_f64_def triangle_dec_def upt_rec_numeral Let_def fsub_def decimal_literals triangle_dec_roundings)

lemma triangle_dec_area_rev: "calculatePolygonArea_f64 (rev triangle_dec) = Fin (2882303761517117 / 288230376151711744)"
  by (simp add: calculatePolygonArea_f64_def triangle_dec_def upt_rec_numeral Let_def fsub_def decimal_literals triangle_dec_roundings)


subsection \<open>Overflow\<close>


lemma two600_roundings:
  "rnd two600 = Fin two600"
  "rnd (two600 / 2) = Fin (two600 / 2)"
  "rnd (two600 * two600) = PInf"
proof -
  show "rnd two600 = Fin two600"
    unfolding two600_def using rnd_normal [of "2 ^ 600" 548]
    by (simp add: scale2_def rne_def Let_def)
  show "rnd (two600 / 2) = Fin (two600 / 2)"
    unfolding two600_def using rnd_normal [of "2 ^ 600 / 2" 547]
    by (simp add: scale2_def rne_def Let_def)
  show "rnd (two600 * two600) = PInf"
    unfolding two600_def using rnd_overflow [of "2 ^ 600 * 2 ^ 600" 1148]
    by (simp add: scale2_def)
qed





lemma triangle_big_area: "calculatePolygonArea_f64 triangle_big = NaN"
  by (simp add: calculatePolygonArea_f64_def triangle_big_def upt_rec_numeral Let_def fsub_def
      two600_roundings)


section \<open>Claims about the optimizer\<close>






text \<open>
  Claim C4, as stated: with a polygon of exactly 2 vertices \<open>optimizeCircles\<close> returns the
  empty list, the parity test putting every point outside. It fails on the doubles the
  code computes with. For the vertices (5.2, 2.4), (8.8, 0.1), radius 1e-16 and spacing 1,
  the first cell tested in the first configuration is the centre (7, 1.25) of the
  bounding box, which lies on the segment. The two edges of the loop are this segment
  taken in its two directions: the crossing abscissa is computed as 7.000000000000001
  from one end and as 7 from the other, so the point is left of one crossing only and the
  parity is odd. Its computed clearance is 2.220446049250313e-16, not below the radius,
  and the circle is returned.
\<close>

theorem optimizeCircles_two_vertices_counterexample:
  "length segment_f64 = 2 \<and> flt (Fin 0) (rnd (1 / 10 ^ 16)) \<and> flt (Fin 0) (Fin 1)
   \<and> isPointInPolygon_f64 \<lparr>p_x = Fin 7, p_y = Fin (5 / 4)\<rparr> segment_f64
   \<and> optimizeCircles_f64 segment_f64 (rnd (1 / 10 ^ 16)) (Fin 1) \<noteq> None
   \<and> optimizeCircles_f64 segment_f64 (rnd (1 / 10 ^ 16)) (Fin 1) \<noteq> Some []"
proof -
  have "optimizeCircles_f64 segment_f64 (rnd (1 / 10 ^ 16)) (Fin 1) \<noteq> None
      \<and> optimizeCircles_f64 segment_f64 (rnd (1 / 10 ^ 16)) (Fin 1) \<noteq> Some []"
    unfolding optimizeCircles_f64_def
    using search_f64_accepts [OF seg_bounded(1) searchConfigs_f64_origin seg_cell_0_0_filtered]
    by (simp add: seg_bounded decimal_literals)
  then show ?thesis
    by (simp add: seg_cell_0_0_inside decimal_literals) (simp add: segment_f64_def)
qed

text \<open>
  Claim C4, amended. In exact arithmetic \<open>optimizeCircles\<close> returns the empty list for
  every polygon of exactly 2 vertices and every positive radius and spacing: the two
  edges are one segment, their crossing tests agree, and the parity test puts every
  point outside. (In binary64 arithmetic the two tests round the crossing abscissa
  differently, and a point on the segment can pass.)
\<close>

theorem optimizeCircles_two_vertices:
  assumes "length polygon = 2" and "0 < radius" and "0 < spacing"
  shows "optimizeCircles polygon radius spacing = Some []"
proof -
  obtain v w where vw: "polygon = [v, w]"
    using assms(1) by (cases polygon; cases "tl polygon") auto
  have ne: "polygon \<noteq> []" using vw by simp
  have nz: "pitch radius spacing \<noteq> 0" using assms(2,3) by (simp add: pitch_def)
  have inf: "\<forall>p. \<not> strictCheck polygon radius p"
    by (simp add: strictCheck_def vw isPointInPolygon_two)
  obtain cs where cs: "search outsideBounds polygon radius spacing = Some cs"
    using search_terminates [OF ne nz] by blast
  with search_infeasible [OF inf cs] show ?thesis by (simp add: optimizeCircles_def)
qed

theorem optimizeCircles_two_vertices_witness:
  "length [\<lparr>p_x = 0, p_y = 0\<rparr>, \<lparr>p_x = 10, p_y = 10::real\<rparr>] = 2 \<and> (0::real) < 1
   \<and> optimizeCircles [\<lparr>p_x = 0, p_y = 0\<rparr>, \<lparr>p_x = 10, p_y = 10\<rparr>] 1 1 = Some []"
  using optimizeCircles_two_vertices [of "[\<lparr>p_x = 0, p_y = 0\<rparr>, \<lparr>p_x = 10, p_y = 10\<rparr>]" 1 1]
  by simp




text \<open>
  Claim C6 (two calls with the same arguments return the same list) is not stated as a
  theorem. In this embedding the source is a function of its three arguments, which is
  what the claim asserts; the sentence \<open>equal arguments give equal results\<close> is then true
  of any function whatever, and proving it would say nothing about the code.
\<close>

text \<open>
  Claim C8, as stated: the lattice abscissa is \<open>col * d + (row mod 2) * (d / 2) + offX\<close>
  with every odd row, negative ones included, shifted by \<open>+ d / 2\<close>. It fails at row
  \<open>-1\<close> (which the loops visit, since \<open>steps\<close> is at least 2): the remainder of
  \<open>-1 % 2\<close> is \<open>-1\<close>, and the row is shifted by \<open>- d / 2\<close>.
\<close>

theorem hexX_counterexample: "hexX 3 0 (- 1) 0 \<noteq> hexX_spec 3 0 (- 1) 0"
  by (simp add: hexX_def hexX_spec_def js_rem_2)

text \<open>
  Claim C8, amended. The un-rotated position of cell \<open>(row, col)\<close> has the abscissa
  \<open>col * d + offX\<close>, plus \<open>d / 2\<close> in an odd row that is not negative and minus \<open>d / 2\<close>
  in a negative odd row, and the ordinate \<open>row * rowHeight + offY\<close>; in the rows that
  are not negative the abscissa is the one of the formula with \<open>mod\<close>. The candidate point
  is this position rotated by the angle about the centre of the bounding box.
\<close>

theorem lattice_position:
  "hexX d offX row col
     = real_of_int col * d + (if even row then 0 else if row < 0 then - (d / 2) else d / 2) + offX
   \<and> hexY rowHeight offY row = real_of_int row * rowHeight + offY
   \<and> hexX d offX (int n) col = hexX_spec d offX (int n) col
   \<and> p_x (candidatePoint d rowHeight centerX centerY angle offX offY row col)
       = hexX d offX row col * cos (real_of_int angle * (pi / 180))
         - hexY rowHeight offY row * sin (real_of_int angle * (pi / 180)) + centerX
   \<and> p_y (candidatePoint d rowHeight centerX centerY angle offX offY row col)
       = hexX d offX row col * sin (real_of_int angle * (pi / 180))
         + hexY rowHeight offY row * cos (real_of_int angle * (pi / 180)) + centerY"
  by (simp add: hexX_def hexY_def hexX_spec_def js_rem_2 candidatePoint_def Let_def mod_2_eq_odd)




text \<open>
  Claim C9, as stated: the variant of \<open>optimizeCircles\<close> without the coarse bounding-box
  check accepts exactly the same candidates. It fails on the doubles the code computes
  with. The triangle \<open>sliver_f64\<close> has its apex at (0.001, 1e-30) and its other vertices
  at (-1000000, -1.1) and (-1000000, 1.1); the radius is 1e-12 and the spacing
  500000.0005000001, so that the pitch is 500000.0005000001 and there are 5 steps. In
  the first configuration the cell \<open>(0, 1)\<close> has the centre (0.0010000001057051122, 0),
  beyond the apex by 1.06e-10 and right of \<open>maxX + r\<close>: the coarse check skips it. The
  strict check accepts the same point (the crossing abscissae near the apex are
  computed from coordinates of the size of a million, with an error greater than this
  distance, and the computed clearance 5.820766091346741e-11 is not below the radius).
  So the variant pushes a circle for this cell and \<open>optimizeCircles\<close> does not, and the
  lists that the two scans of this configuration produce differ.
\<close>

theorem coarse_check_counterexample:
  "3 \<le> length sliver_f64 \<and> flt (Fin 0) (rnd (1 / 10 ^ 12))
   \<and> flt (Fin 0) (rnd (5000000005000001 / 10 ^ 10))
   \<and> outsideBounds_f64 (getBoundingBox_f64 sliver_f64) (rnd (1 / 10 ^ 12)) (center64 beyond_apex)
   \<and> strictCheck_f64 sliver_f64 (rnd (1 / 10 ^ 12)) (center64 beyond_apex)
   \<and> cell_f64 outsideBounds_f64 sliver_f64 (rnd (1 / 10 ^ 12)) (rnd (5000000005000001 / 10 ^ 10))
        (Fin 0, Fin 0, Fin 0) 0 1 = None
   \<and> cell_f64 noCoarse sliver_f64 (rnd (1 / 10 ^ 12)) (rnd (5000000005000001 / 10 ^ 10))
        (Fin 0, Fin 0, Fin 0) 0 1 = Some beyond_apex
   \<and> beyond_apex \<in> set (the (scan_f64 noCoarse sliver_f64 (rnd (1 / 10 ^ 12))
        (rnd (5000000005000001 / 10 ^ 10)) (Fin 0, Fin 0, Fin 0)))
   \<and> beyond_apex \<notin> set (the (scan_f64 outsideBounds_f64 sliver_f64 (rnd (1 / 10 ^ 12))
        (rnd (5000000005000001 / 10 ^ 10)) (Fin 0, Fin 0, Fin 0)))
   \<and> scan_f64 noCoarse sliver_f64 (rnd (1 / 10 ^ 12)) (rnd (5000000005000001 / 10 ^ 10))
        (Fin 0, Fin 0, Fin 0)
     \<noteq> scan_f64 outsideBounds_f64 sliver_f64 (rnd (1 / 10 ^ 12)) (rnd (5000000005000001 / 10 ^ 10))
        (Fin 0, Fin 0, Fin 0)"
proof -
  define r where "r = Fin (4951760157141521 / 4951760157141521099596496896)"
  define s where "s = Fin (536870912536871 / 1073741824)"
  have lit: "rnd (1 / 10 ^ 12) = r" "rnd (5000000005000001 / 10 ^ 10) = s"
    by (simp_all add: r_def s_def decimal_literals)
  have c: "center64 beyond_apex = \<lparr>p_x = Fin (17179871 / 17179869184), p_y = Fin 0\<rparr>"
    by (simp add: center64_def beyond_apex_def)
  have out: "outsideBounds_f64 (getBoundingBox_f64 sliver_f64) r (center64 beyond_apex)"
    unfolding c r_def by (simp add: sliver_cell_0_1_coarse)
  have strict: "strictCheck_f64 sliver_f64 r (center64 beyond_apex)"
    unfolding c r_def by (simp add: sliver_cell_0_1_strict)
  have f: "cell_f64 outsideBounds_f64 sliver_f64 r s (Fin 0, Fin 0, Fin 0) 0 1 = None"
    unfolding r_def s_def by (rule sliver_cell_0_1_filtered)
  have u: "cell_f64 noCoarse sliver_f64 r s (Fin 0, Fin 0, Fin 0) 0 1 = Some beyond_apex"
    unfolding r_def s_def beyond_apex_def by (rule sliver_cell_0_1_unfiltered)
  have b: "bounded_steps (steps_f64 sliver_f64 r s)" "stepsInt (steps_f64 sliver_f64 r s) = 5"
    unfolding r_def s_def by (rule sliver_bounded)+
  have m: "beyond_apex \<in> set (the (scan_f64 noCoarse sliver_f64 r s (Fin 0, Fin 0, Fin 0)))"
    using scan_f64_member [OF b(1) u] by (simp add: b(2))
  have n: "beyond_apex \<notin> set (the (scan_f64 outsideBounds_f64 sliver_f64 r s (Fin 0, Fin 0, Fin 0)))"
    using scan_f64_filtered [OF b(1), of beyond_apex outsideBounds_f64 "(Fin 0, Fin 0, Fin 0)"] out
    by blast
  have d: "scan_f64 noCoarse sliver_f64 r s (Fin 0, Fin 0, Fin 0)
      \<noteq> scan_f64 outsideBounds_f64 sliver_f64 r s (Fin 0, Fin 0, Fin 0)"
    using m n by auto
  have l: "3 \<le> length sliver_f64" by (simp add: sliver_f64_def)
  have p: "flt (Fin 0) r" "flt (Fin 0) s" by (simp_all add: r_def s_def)
  show ?thesis unfolding lit using l p out strict f u m n d by simp
qed

text \<open>
  Claim C9, amended. In exact arithmetic the coarse bounding-box check has no effect on
  the result: for every polygon with at least 3 vertices and every positive radius and
  spacing, the variant of \<open>optimizeCircles\<close> that sends every cell to the strict check
  accepts the same cells and returns the same list. (A point the parity test puts inside
  lies within the bounds of the vertices: right of it every crossed edge reaches, and
  left of all vertices the closed outline is crossed an even number of times. In
  binary64 arithmetic the crossing abscissa of an edge is rounded and can lie beyond
  the edge's endpoints.)
\<close>

theorem coarse_check_no_effect:
  assumes "3 \<le> length polygon" and "0 < radius" and "0 < spacing"
  shows "optimizeCircles_strictOnly polygon radius spacing = optimizeCircles polygon radius spacing"
proof -
  have ne: "polygon \<noteq> []" using assms(1) by auto
  obtain a b c e where
    bb: "getBoundingBox polygon = \<lparr>minX = Num a, minY = Num b, maxX = Num c, maxY = Num e\<rparr>"
    and al: "\<forall>p \<in> set polygon. a \<le> p_x p \<and> p_x p \<le> c \<and> b \<le> p_y p \<and> p_y p \<le> e"
    using getBoundingBox_nonempty [OF ne] by blast
  have nz: "pitch radius spacing \<noteq> 0" using assms(2,3) by (simp add: pitch_def)
  have r: "0 \<le> radius" using assms(2) by simp
  have "candidatesAt (\<lambda>bminX bminY bmaxX bmaxY r p. False) polygon radius spacing a b c e cfg
      = candidatesAt outsideBounds polygon radius spacing a b c e cfg" for cfg
    by (cases cfg) (simp add: candidatesAt_def candidates_def cellCircle_coarse_irrelevant [OF al r])
  then show ?thesis
    unfolding optimizeCircles_strictOnly_def optimizeCircles_def
    by (simp add: search_finite [OF bb nz])
qed

theorem coarse_check_no_effect_witness:
  "3 \<le> length square10 \<and> (0::real) < 1
   \<and> optimizeCircles_strictOnly square10 1 1 = optimizeCircles square10 1 1
   \<and> optimizeCircles square10 1 1 \<noteq> Some []"
proof -
  have l: "3 \<le> length square10" by (simp add: square10_def)
  from coarse_check_no_effect [OF l, of 1 1] square10_result_nonempty [of 1 1] l
  show ?thesis by (auto simp: pitch_def)
qed

section \<open>Claims about the area\<close>

text \<open>
  Claim C7, as stated: \<open>calculatePolygonArea\<close> returns a non-negative value, unchanged
  under any cyclic rotation and under reversal of the vertex list. Both parts fail on the
  doubles the code computes with.

  Every partial sum is rounded, and the order of the vertices is the order of the sums.
  For the triangle (2^53, 1), (1, 1), (3, 2) the variable \<open>area\<close> runs through
  9007199254740992, 9007199254740991, 9007199254740992 (the sum 9007199254740993 is no
  double), 9007199254740989, 9007199254740992, -9007199254740992, and the result is
  4503599627370496; with the list rotated by one place it runs through 2, -1, 2,
  -18014398509481982, -9007199254740990, -9007199254740991, and the result is
  4503599627370495.5, as it is for the reversed list. For the triangle (0.1, 0.1),
  (0.1, 0.2), (0.3, 0.7) the results are 0.010000000000000002 and, rotated or reversed,
  0.009999999999999998.

  For the triangle (2^600, 2^600), (0, 2^600), (2^600, 0) the first product overflows,
  \<open>area\<close> becomes \<open>Infinity\<close>, an \<open>Infinity\<close> is subtracted from it in the second round,
  and the result is \<open>NaN\<close>, which is not a non-negative value.
\<close>

theorem area_rotation_counterexample:
  "calculatePolygonArea_f64 (rotate 1 triangle_int) \<noteq> calculatePolygonArea_f64 triangle_int
   \<and> calculatePolygonArea_f64 (rev triangle_int) \<noteq> calculatePolygonArea_f64 triangle_int
   \<and> calculatePolygonArea_f64 (rotate 1 triangle_dec) \<noteq> calculatePolygonArea_f64 triangle_dec
   \<and> calculatePolygonArea_f64 (rev triangle_dec) \<noteq> calculatePolygonArea_f64 triangle_dec
   \<and> \<not> fge (calculatePolygonArea_f64 triangle_big) (Fin 0)"
  unfolding triangle_int_area triangle_int_area_rotate triangle_int_area_rev
    triangle_dec_area triangle_dec_area_rotate triangle_dec_area_rev triangle_big_area
  by (simp add: fge_def fle_def)

text \<open>
  Claim C7, amended. In exact arithmetic \<open>calculatePolygonArea\<close> returns a non-negative
  value that is unchanged under any cyclic rotation of the vertex list and under its
  reversal. In binary64 arithmetic the result is \<open>NaN\<close> or a value that is not negative;
  it depends on the order of the vertices through the rounding of the partial sums.
\<close>

theorem area_exact_invariance:
  "0 \<le> calculatePolygonArea polygon
   \<and> calculatePolygonArea (rotate k polygon) = calculatePolygonArea polygon
   \<and> calculatePolygonArea (rev polygon) = calculatePolygonArea polygon
   \<and> (calculatePolygonArea_f64 vertices = NaN \<or> fge (calculatePolygonArea_f64 vertices) (Fin 0))"
  using area_f64_sign [of vertices]
  by (simp add: calculatePolygonArea_shoelace shoelace_rotate shoelace_rev)

text \<open>
  Claim C10, as stated: for fewer than 3 vertices \<open>calculatePolygonArea\<close> returns
  exactly 0. It fails on the doubles the code computes with: for two vertices the four
  products are added and subtracted one at a time, each partial result is rounded, and
  what is left need not be 0. For the vertices (2^53 + 2, 1), (1, 1), that is
  (9007199254740994, 1), (1, 1), the variable \<open>area\<close> runs through 9007199254740994,
  9007199254740992 (the difference 9007199254740993 is no double), 9007199254740992,
  -2, and the result is 1. For (0.1, 0.1), (1, 0.1) it runs through
  0.010000000000000002, -0.09, 0.010000000000000009, 6.938893903907228e-18, and the
  result is 3.469446951953614e-18, which is 2^-58.
\<close>

theorem area_two_vertices_counterexample:
  "length segment_int < 3 \<and> calculatePolygonArea_f64 segment_int \<noteq> Fin 0
   \<and> length segment_dec < 3 \<and> calculatePolygonArea_f64 segment_dec \<noteq> Fin 0"
  by (simp add: segment_int_area segment_dec_area) (simp add: segment_int_def segment_dec_def)

text \<open>
  Claim C10, amended. In exact arithmetic \<open>calculatePolygonArea\<close> returns 0 for every
  polygon with fewer than 3 vertices; in binary64 arithmetic it returns 0 for the empty
  polygon.
\<close>

theorem area_degenerate:
  assumes "length polygon < 3"
  shows "calculatePolygonArea polygon = 0 \<and> calculatePolygonArea_f64 [] = Fin 0"
  using area_small [OF assms]
  by (simp add: calculatePolygonArea_f64_def)

theorem area_degenerate_witness:
  "length [\<lparr>p_x = 3, p_y = 4\<rparr>, \<lparr>p_x = 5, p_y = 6 :: real\<rparr>] < 3
   \<and> calculatePolygonArea [\<lparr>p_x = 3, p_y = 4\<rparr>, \<lparr>p_x = 5, p_y = 6\<rparr>] = 0
   \<and> calculatePolygonArea_f64 [] = Fin 0"
  using area_degenerate [of "[\<lparr>p_x = 3, p_y = 4\<rparr>, \<lparr>p_x = 5, p_y = 6\<rparr>]"] by simp

end
